theory Spec2Isabelle
  imports Complex_Main
begin

section \<open>Data model (app/models/models.py, app/schemas/schemas.py)\<close>

text \<open>
  Monetary values are Python floats in the source. They are modelled as exact rationals:
  rounding, infinities and NaN are outside this development, so every statement below is
  about the arithmetic the code writes down, not about its binary rounding.
  A \<open>datetime\<close> is the number of microseconds since the epoch; primary keys, guest ids and
  room numbers are Python ints.
  Of a guest only the columns the booking engine reads or writes are kept; the contact and
  document columns are touched by none of the functions below.
\<close>

type_synonym money = rat
type_synonym datetime = int

datatype error = NotFoundError | BadRequestError | ConflictError | TypeError | IntegrityError

record guest =
  g_id :: int
  g_name :: string
  g_last_seen :: "datetime option"
  g_created_at :: datetime
  g_updated_at :: "datetime option"

record room =
  r_number :: int
  r_room_type :: string
  r_occupied :: bool
  r_current_guest_id :: "int option"
  r_rate_per_night :: money
  r_notes :: "string option"
  r_created_at :: datetime
  r_updated_at :: "datetime option"

record booking =
  b_id :: int
  b_guest_id :: int
  b_room_number :: int
  b_checkin_at :: datetime
  b_checkout_at :: "datetime option"
  b_price :: "money option"
  b_invoice_path :: "string option"
  b_subtotal :: "money option"
  b_tax_total :: "money option"
  b_discount_total :: "money option"
  b_grand_total :: "money option"
  b_created_at :: datetime
  b_updated_at :: "datetime option"

record invoice_line_item =
  li_id :: int
  li_booking_id :: int
  li_description :: string
  li_quantity :: money
  li_unit_price :: money
  li_amount :: money
  li_item_type :: string
  li_created_at :: datetime
  li_updated_at :: "datetime option"

record invoice_tax =
  tax_id :: int
  tax_booking_id :: int
  tax_name :: string
  tax_rate :: money
  tax_amount :: money
  tax_created_at :: datetime
  tax_updated_at :: "datetime option"

record invoice_discount =
  disc_id :: int
  disc_booking_id :: int
  disc_name :: string
  disc_amount :: money
  disc_percentage :: "money option"
  disc_created_at :: datetime
  disc_updated_at :: "datetime option"

text \<open>
  The persisted state: one list of rows per table, in insertion (rowid) order, which is the
  order in which an unordered \<open>select\<close> returns them.
\<close>

record db =
  guests :: "guest list"
  rooms :: "room list"
  bookings :: "booking list"
  line_items :: "invoice_line_item list"
  taxes :: "invoice_tax list"
  discounts :: "invoice_discount list"

text \<open>The result of a service call: what it returns or raises, and the committed database.\<close>

type_synonym 'a result = "(error + 'a) \<times> db"

datatype room_type = STANDARD | PREMIUM | SUITE

fun room_type_value :: "room_type \<Rightarrow> string" where
  "room_type_value STANDARD = ''Standard''"
| "room_type_value PREMIUM = ''Premium''"
| "room_type_value SUITE = ''Suite''"

record room_create =
  rc_number :: int
  rc_room_type :: room_type
  rc_rate_per_night :: money

text \<open>
  The update schemas are read with \<open>dict(exclude_unset=True)\<close>: a field is \<open>None\<close> when the
  request did not set it, \<open>Some None\<close> when it was set to null, \<open>Some (Some v)\<close> otherwise.
\<close>

record room_update =
  ru_room_type :: "room_type option option"
  ru_occupied :: "bool option option"
  ru_current_guest_id :: "int option option"
  ru_rate_per_night :: "money option option"

record booking_create =
  bc_guest_id :: int
  bc_room_number :: int
  bc_price :: "money option"

record booking_update =
  bu_checkout_at :: "datetime option option"
  bu_price :: "money option option"

section \<open>The session: queries, inserts, updates, deletes\<close>

text \<open>
  \<open>session.add\<close> of loaded objects followed by a commit writes each object over the row
  with its primary key.
\<close>

definition flush_rows :: "('a \<Rightarrow> int) \<Rightarrow> 'a list \<Rightarrow> 'a list \<Rightarrow> 'a list" where
  "flush_rows key dirty tbl =
     map (\<lambda>u. case find (\<lambda>r. key r = key u) dirty of Some r \<Rightarrow> r | None \<Rightarrow> u) tbl"

definition delete_row :: "('a \<Rightarrow> int) \<Rightarrow> 'a \<Rightarrow> 'a list \<Rightarrow> 'a list" where
  "delete_row key obj tbl = filter (\<lambda>u. key u \<noteq> key obj) tbl"

text \<open>An integer primary key left unset is assigned by the database: one more than the largest.\<close>

definition fresh_id :: "int list \<Rightarrow> int" where
  "fresh_id ids = fold max ids 0 + 1"

text \<open>Python's \<open>sum\<close>: a left fold from 0.\<close>

definition py_sum :: "money list \<Rightarrow> money" where
  "py_sum xs = foldl (+) 0 xs"

text \<open>Truthiness of an optional float: \<open>None\<close> and \<open>0.0\<close> are false.\<close>

definition truthy :: "money option \<Rightarrow> bool" where
  "truthy x = (case x of None \<Rightarrow> False | Some v \<Rightarrow> v \<noteq> 0)"

text \<open>\<open>timedelta.days\<close> of a difference of two datetimes (floor division).\<close>

definition timedelta_days :: "int \<Rightarrow> int" where
  "timedelta_days delta = delta div 86400000000"

section \<open>Lookups (guest_service.py, room_service.py, booking_service.py)\<close>

definition get_guest :: "db \<Rightarrow> int \<Rightarrow> error + guest" where
  "get_guest s guest_id =
     (case find (\<lambda>g. g_id g = guest_id) (guests s) of
        None \<Rightarrow> Inl NotFoundError
      | Some g \<Rightarrow> Inr g)"

definition get_room :: "db \<Rightarrow> int \<Rightarrow> error + room" where
  "get_room s room_number =
     (case find (\<lambda>r. r_number r = room_number) (rooms s) of
        None \<Rightarrow> Inl NotFoundError
      | Some r \<Rightarrow> Inr r)"

definition get_booking :: "db \<Rightarrow> int \<Rightarrow> error + booking" where
  "get_booking s booking_id =
     (case find (\<lambda>b. b_id b = booking_id) (bookings s) of
        None \<Rightarrow> Inl NotFoundError
      | Some b \<Rightarrow> Inr b)"

definition get_line_items :: "db \<Rightarrow> int \<Rightarrow> invoice_line_item list" where
  "get_line_items s booking_id = filter (\<lambda>i. li_booking_id i = booking_id) (line_items s)"

definition get_taxes :: "db \<Rightarrow> int \<Rightarrow> invoice_tax list" where
  "get_taxes s booking_id = filter (\<lambda>t. tax_booking_id t = booking_id) (taxes s)"

definition get_discounts :: "db \<Rightarrow> int \<Rightarrow> invoice_discount list" where
  "get_discounts s booking_id = filter (\<lambda>d. disc_booking_id d = booking_id) (discounts s)"

section \<open>Recalculation of the totals (booking_service.py, recalculate_booking_totals)\<close>

text \<open>
  The two loops: each rewrites the rows it visits and accumulates the running total, which
  starts at 0.
\<close>

fun tax_loop :: "money \<Rightarrow> invoice_tax list \<Rightarrow> money \<Rightarrow> invoice_tax list \<times> money" where
  "tax_loop subtotal [] tax_total = ([], tax_total)"
| "tax_loop subtotal (tax # rest) tax_total =
     (let tax' = tax\<lparr>tax_amount := subtotal * (tax_rate tax / 100)\<rparr>;
          (rest', total) = tax_loop subtotal rest (tax_total + tax_amount tax')
      in (tax' # rest', total))"

fun discount_loop ::
  "money \<Rightarrow> invoice_discount list \<Rightarrow> money \<Rightarrow> invoice_discount list \<times> money" where
  "discount_loop subtotal [] discount_total = ([], discount_total)"
| "discount_loop subtotal (discount # rest) discount_total =
     (let discount' =
            (case disc_percentage discount of
               Some percentage \<Rightarrow> discount\<lparr>disc_amount := subtotal * (percentage / 100)\<rparr>
             | None \<Rightarrow> discount);
          (rest', total) = discount_loop subtotal rest (discount_total + disc_amount discount')
      in (discount' # rest', total))"

definition recalculate_booking_totals :: "db \<Rightarrow> datetime \<Rightarrow> int \<Rightarrow> error + booking \<times> db" where
  "recalculate_booking_totals s now booking_id =
     (case get_booking s booking_id of
        Inl e \<Rightarrow> Inl e
      | Inr booking \<Rightarrow>
          let subtotal = py_sum (map li_amount (get_line_items s booking_id));
              (taxes', tax_total) = tax_loop subtotal (get_taxes s booking_id) 0;
              (discounts', discount_total) =
                 discount_loop subtotal (get_discounts s booking_id) 0;
              grand_total = subtotal + tax_total - discount_total;
              booking' = booking\<lparr>b_subtotal := Some subtotal,
                                  b_tax_total := Some tax_total,
                                  b_discount_total := Some discount_total,
                                  b_grand_total := Some grand_total,
                                  b_updated_at := Some now\<rparr>
          in Inr (booking',
                  s\<lparr>taxes := flush_rows tax_id taxes' (taxes s),
                    discounts := flush_rows disc_id discounts' (discounts s),
                    bookings := flush_rows b_id [booking'] (bookings s)\<rparr>))"

section \<open>Room registry (room_service.py)\<close>

definition create_room :: "db \<Rightarrow> datetime \<Rightarrow> room_create \<Rightarrow> room result" where
  "create_room s now room_data =
     (case find (\<lambda>r. r_number r = rc_number room_data) (rooms s) of
        Some existing_room \<Rightarrow> (Inl ConflictError, s)
      | None \<Rightarrow>
          let room = \<lparr>r_number = rc_number room_data,
                      r_room_type = room_type_value (rc_room_type room_data),
                      r_occupied = False,
                      r_current_guest_id = None,
                      r_rate_per_night = rc_rate_per_night room_data,
                      r_notes = None,
                      r_created_at = now,
                      r_updated_at = None\<rparr>
          in (Inr room, s\<lparr>rooms := rooms s @ [room]\<rparr>))"

text \<open>
  \<open>update_room\<close> copies every field the request set onto the row. The columns
  \<open>room_type\<close>, \<open>occupied\<close> and \<open>rate_per_night\<close> are not nullable: a null there makes the
  commit fail and nothing is written.
\<close>

definition update_room :: "db \<Rightarrow> datetime \<Rightarrow> int \<Rightarrow> room_update \<Rightarrow> room result" where
  "update_room s now room_number room_data =
     (case get_room s room_number of
        Inl e \<Rightarrow> (Inl e, s)
      | Inr room \<Rightarrow>
          if ru_room_type room_data = Some None \<or> ru_occupied room_data = Some None
             \<or> ru_rate_per_night room_data = Some None
          then (Inl IntegrityError, s)
          else
            let room1 = (case ru_room_type room_data of
                           Some (Some v) \<Rightarrow> room\<lparr>r_room_type := room_type_value v\<rparr>
                         | _ \<Rightarrow> room);
                room2 = (case ru_occupied room_data of
                           Some (Some v) \<Rightarrow> room1\<lparr>r_occupied := v\<rparr>
                         | _ \<Rightarrow> room1);
                room3 = (case ru_current_guest_id room_data of
                           Some v \<Rightarrow> room2\<lparr>r_current_guest_id := v\<rparr>
                         | None \<Rightarrow> room2);
                room4 = (case ru_rate_per_night room_data of
                           Some (Some v) \<Rightarrow> room3\<lparr>r_rate_per_night := v\<rparr>
                         | _ \<Rightarrow> room3);
                room5 = room4\<lparr>r_updated_at := Some now\<rparr>
            in (Inr room5, s\<lparr>rooms := flush_rows r_number [room5] (rooms s)\<rparr>))"

text \<open>
  When a room is deleted the ORM first sets \<open>room_number\<close> to null on every booking that
  refers to it (the \<open>bookings\<close> relationship has no cascade). That column is not nullable,
  so with such a booking the commit fails and nothing is deleted.
\<close>

definition delete_room :: "db \<Rightarrow> int \<Rightarrow> unit result" where
  "delete_room s room_number =
     (case get_room s room_number of
        Inl e \<Rightarrow> (Inl e, s)
      | Inr room \<Rightarrow>
          if r_occupied room then (Inl ConflictError, s)
          else if list_ex (\<lambda>b. b_room_number b = r_number room) (bookings s)
          then (Inl IntegrityError, s)
          else (Inr (), s\<lparr>rooms := delete_row r_number room (rooms s)\<rparr>))"

definition occupy_room :: "db \<Rightarrow> datetime \<Rightarrow> int \<Rightarrow> int \<Rightarrow> room result" where
  "occupy_room s now room_number guest_id =
     (case get_room s room_number of
        Inl e \<Rightarrow> (Inl e, s)
      | Inr room \<Rightarrow>
          if r_occupied room then (Inl ConflictError, s)
          else
            let room' = room\<lparr>r_occupied := True,
                             r_current_guest_id := Some guest_id,
                             r_updated_at := Some now\<rparr>
            in (Inr room', s\<lparr>rooms := flush_rows r_number [room'] (rooms s)\<rparr>))"

definition vacate_room :: "db \<Rightarrow> datetime \<Rightarrow> int \<Rightarrow> room result" where
  "vacate_room s now room_number =
     (case get_room s room_number of
        Inl e \<Rightarrow> (Inl e, s)
      | Inr room \<Rightarrow>
          if \<not> r_occupied room then (Inl ConflictError, s)
          else
            let room' = room\<lparr>r_occupied := False,
                             r_current_guest_id := None,
                             r_updated_at := Some now\<rparr>
            in (Inr room', s\<lparr>rooms := flush_rows r_number [room'] (rooms s)\<rparr>))"

section \<open>Booking lifecycle (booking_service.py)\<close>

text \<open>\<open>str\<close> of an int, for the description of the room charge.\<close>

definition digit_char :: "nat \<Rightarrow> char" where
  "digit_char d = char_of (48 + d)"

function show_nat :: "nat \<Rightarrow> string" where
  "show_nat n = (if n < 10 then [digit_char n] else show_nat (n div 10) @ [digit_char (n mod 10)])"
  by pat_completeness auto
termination
  by (relation "measure id") auto

definition show_int :: "int \<Rightarrow> string" where
  "show_int i = (if i < 0 then CHR ''-'' # show_nat (nat (- i)) else show_nat (nat i))"

text \<open>\<open>x or y\<close> on an optional float and on an int.\<close>

definition py_or :: "money option \<Rightarrow> money \<Rightarrow> money" where
  "py_or x y = (case x of None \<Rightarrow> y | Some v \<Rightarrow> if v = 0 then y else v)"

definition py_or_int :: "int \<Rightarrow> int \<Rightarrow> int" where
  "py_or_int x y = (if x = 0 then y else x)"

text \<open>
  Every reading of the clock within one call is the same instant \<open>now\<close>.
  A call that raises before its first commit leaves the database as it was: the session is
  rolled back when the request ends.
\<close>

definition create_booking :: "db \<Rightarrow> datetime \<Rightarrow> booking_create \<Rightarrow> booking result" where
  "create_booking s now booking_data =
     (case get_guest s (bc_guest_id booking_data) of
        Inl e \<Rightarrow> (Inl e, s)
      | Inr guest \<Rightarrow>
     (case get_room s (bc_room_number booking_data) of
        Inl e \<Rightarrow> (Inl e, s)
      | Inr room \<Rightarrow>
          if r_occupied room then (Inl ConflictError, s)
          else
            let booking = \<lparr>b_id = fresh_id (map b_id (bookings s)),
                           b_guest_id = bc_guest_id booking_data,
                           b_room_number = bc_room_number booking_data,
                           b_checkin_at = now,
                           b_checkout_at = None,
                           b_price = Some (py_or (bc_price booking_data) (r_rate_per_night room)),
                           b_invoice_path = None,
                           b_subtotal = None,
                           b_tax_total = None,
                           b_discount_total = None,
                           b_grand_total = None,
                           b_created_at = now,
                           b_updated_at = None\<rparr>;
                room' = room\<lparr>r_occupied := True,
                             r_current_guest_id := Some (bc_guest_id booking_data),
                             r_updated_at := Some now\<rparr>;
                guest' = guest\<lparr>g_last_seen := Some now, g_updated_at := Some now\<rparr>;
                s1 = s\<lparr>bookings := bookings s @ [booking],
                       rooms := flush_rows r_number [room'] (rooms s),
                       guests := flush_rows g_id [guest'] (guests s)\<rparr>;
                price = py_or (bc_price booking_data) (r_rate_per_night room);
                line_item = \<lparr>li_id = fresh_id (map li_id (line_items s1)),
                             li_booking_id = b_id booking,
                             li_description =
                               r_room_type room' @ '' Room - '' @ show_int (r_number room'),
                             li_quantity = 1,
                             li_unit_price = price,
                             li_amount = price,
                             li_item_type = ''room'',
                             li_created_at = now,
                             li_updated_at = None\<rparr>;
                booking' = booking\<lparr>b_subtotal := b_price booking,
                                   b_grand_total := b_price booking\<rparr>
            in (Inr booking',
                s1\<lparr>line_items := line_items s1 @ [line_item],
                    bookings := flush_rows b_id [booking'] (bookings s1)\<rparr>)))"

text \<open>
  \<open>update_booking\<close> first copies the fields the request set onto the booking, and only then
  tests whether the booking has no checkout time.
\<close>

definition save_booking :: "db \<Rightarrow> datetime \<Rightarrow> booking \<Rightarrow> booking result" where
  "save_booking s now booking =
     (let booking' = booking\<lparr>b_updated_at := Some now\<rparr>
      in (Inr booking', s\<lparr>bookings := flush_rows b_id [booking'] (bookings s)\<rparr>))"

definition update_booking :: "db \<Rightarrow> datetime \<Rightarrow> int \<Rightarrow> booking_update \<Rightarrow> booking result" where
  "update_booking s now booking_id booking_data =
     (case get_booking s booking_id of
        Inl e \<Rightarrow> (Inl e, s)
      | Inr booking \<Rightarrow>
          let booking1 = (case bu_checkout_at booking_data of
                            Some v \<Rightarrow> booking\<lparr>b_checkout_at := v\<rparr>
                          | None \<Rightarrow> booking);
              booking2 = (case bu_price booking_data of
                            Some v \<Rightarrow> booking1\<lparr>b_price := v\<rparr>
                          | None \<Rightarrow> booking1);
              data_checkout_at = (case bu_checkout_at booking_data of Some v \<Rightarrow> v | None \<Rightarrow> None);
              data_price = (case bu_price booking_data of Some v \<Rightarrow> v | None \<Rightarrow> None)
          in
            if data_checkout_at \<noteq> None \<and> b_checkout_at booking2 = None then
              (case vacate_room (s\<lparr>bookings := flush_rows b_id [booking2] (bookings s)\<rparr>) now
                      (b_room_number booking2) of
                 (Inl e, _) \<Rightarrow> (Inl e, s)
               | (Inr _, s1) \<Rightarrow>
                   if \<not> truthy data_price \<and> \<not> truthy (b_price booking2) then
                     (case get_room s1 (b_room_number booking2) of
                        Inl e \<Rightarrow> (Inl e, s1)
                      | Inr room \<Rightarrow>
                          (case b_checkout_at booking2 of
                             None \<Rightarrow> (Inl TypeError, s1)
                           | Some checkout \<Rightarrow>
                               let duration =
                                     py_or_int (timedelta_days (checkout - b_checkin_at booking2)) 1
                               in save_booking s1 now
                                    (booking2\<lparr>b_price :=
                                       Some (r_rate_per_night room * of_int duration)\<rparr>)))
                   else save_booking s1 now booking2)
            else save_booking s now booking2)"

definition checkout_booking :: "db \<Rightarrow> datetime \<Rightarrow> int \<Rightarrow> booking result" where
  "checkout_booking s now booking_id =
     (case get_booking s booking_id of
        Inl e \<Rightarrow> (Inl e, s)
      | Inr booking \<Rightarrow>
          if b_checkout_at booking \<noteq> None then (Inl ConflictError, s)
          else
            let checkout_time = now;
                duration = py_or_int (timedelta_days (checkout_time - b_checkin_at booking)) 1
            in
            (case get_room s (b_room_number booking) of
               Inl e \<Rightarrow> (Inl e, s)
             | Inr room \<Rightarrow>
                 let booking' = booking\<lparr>b_checkout_at := Some checkout_time,
                                        b_updated_at := Some checkout_time\<rparr>
                 in
                 (case vacate_room (s\<lparr>bookings := flush_rows b_id [booking'] (bookings s)\<rparr>) now
                         (b_room_number booking) of
                    (Inl e, _) \<Rightarrow> (Inl e, s)
                  | (Inr _, s1) \<Rightarrow>
                      let s2 =
                            (case find (\<lambda>item. li_item_type item = ''room'')
                                    (get_line_items s1 booking_id) of
                               None \<Rightarrow> s1
                             | Some room_item \<Rightarrow>
                                 let room_item' =
                                       room_item\<lparr>li_quantity := of_int duration,
                                                 li_amount := li_unit_price room_item * of_int duration,
                                                 li_updated_at := Some checkout_time\<rparr>
                                 in s1\<lparr>line_items :=
                                          flush_rows li_id [room_item'] (line_items s1)\<rparr>)
                      in
                      (case recalculate_booking_totals s2 now booking_id of
                         Inl e \<Rightarrow> (Inl e, s1)
                       | Inr (booking'', s3) \<Rightarrow> (Inr booking'', s3)))))"

text \<open>Deleting the rows a query returned removes the rows with their primary keys.\<close>

definition delete_rows :: "('a \<Rightarrow> int) \<Rightarrow> 'a list \<Rightarrow> 'a list \<Rightarrow> 'a list" where
  "delete_rows key objs tbl = filter (\<lambda>u. key u \<notin> set (map key objs)) tbl"

definition delete_all_invoice_items :: "db \<Rightarrow> int \<Rightarrow> db" where
  "delete_all_invoice_items s booking_id =
     s\<lparr>line_items := delete_rows li_id (get_line_items s booking_id) (line_items s),
       taxes := delete_rows tax_id (get_taxes s booking_id) (taxes s),
       discounts := delete_rows disc_id (get_discounts s booking_id) (discounts s)\<rparr>"

definition delete_booking :: "db \<Rightarrow> datetime \<Rightarrow> int \<Rightarrow> unit result" where
  "delete_booking s now booking_id =
     (case get_booking s booking_id of
        Inl e \<Rightarrow> (Inl e, s)
      | Inr booking \<Rightarrow>
          let s1 = (if b_checkout_at booking = None
                    then (case vacate_room s now (b_room_number booking) of
                            (Inl e, _) \<Rightarrow> s
                          | (Inr _, s') \<Rightarrow> s')
                    else s);
              s2 = delete_all_invoice_items s1 booking_id
          in (Inr (), s2\<lparr>bookings := delete_row b_id booking (bookings s2)\<rparr>))"

section \<open>Invoice items, taxes and discounts (booking_service.py)\<close>

definition add_line_item ::
  "db \<Rightarrow> datetime \<Rightarrow> int \<Rightarrow> string \<Rightarrow> money \<Rightarrow> money \<Rightarrow> string \<Rightarrow> invoice_line_item result" where
  "add_line_item s now booking_id description quantity unit_price item_type =
     (case get_booking s booking_id of
        Inl e \<Rightarrow> (Inl e, s)
      | Inr booking \<Rightarrow>
          let line_item = \<lparr>li_id = fresh_id (map li_id (line_items s)),
                           li_booking_id = booking_id,
                           li_description = description,
                           li_quantity = quantity,
                           li_unit_price = unit_price,
                           li_amount = quantity * unit_price,
                           li_item_type = item_type,
                           li_created_at = now,
                           li_updated_at = None\<rparr>;
              s1 = s\<lparr>line_items := line_items s @ [line_item]\<rparr>
          in (case recalculate_booking_totals s1 now booking_id of
                Inl e \<Rightarrow> (Inl e, s1)
              | Inr (_, s2) \<Rightarrow> (Inr line_item, s2)))"

definition remove_invoice_item :: "db \<Rightarrow> datetime \<Rightarrow> int \<Rightarrow> int \<Rightarrow> booking result" where
  "remove_invoice_item s now booking_id item_id =
     (case find (\<lambda>i. li_id i = item_id) (line_items s) of
        None \<Rightarrow> (Inl NotFoundError, s)
      | Some line_item \<Rightarrow>
     (case get_booking s booking_id of
        Inl e \<Rightarrow> (Inl e, s)
      | Inr booking \<Rightarrow>
          if li_item_type line_item = ''room'' \<and> b_checkout_at booking = None
          then (Inl BadRequestError, s)
          else
            let s1 = s\<lparr>line_items := delete_row li_id line_item (line_items s)\<rparr>
            in (case recalculate_booking_totals s1 now booking_id of
                  Inl e \<Rightarrow> (Inl e, s1)
                | Inr (_, s2) \<Rightarrow>
                    (case get_booking s2 booking_id of
                       Inl e \<Rightarrow> (Inl e, s2)
                     | Inr b \<Rightarrow> (Inr b, s2)))))"

definition delete_line_item :: "db \<Rightarrow> datetime \<Rightarrow> int \<Rightarrow> unit result" where
  "delete_line_item s now line_item_id =
     (case find (\<lambda>i. li_id i = line_item_id) (line_items s) of
        None \<Rightarrow> (Inl NotFoundError, s)
      | Some line_item \<Rightarrow>
          let booking_id = li_booking_id line_item
          in
     (case get_booking s booking_id of
        Inl e \<Rightarrow> (Inl e, s)
      | Inr booking \<Rightarrow>
          if li_item_type line_item = ''room'' \<and> b_checkout_at booking = None
          then (Inl BadRequestError, s)
          else
            let s1 = s\<lparr>line_items := delete_row li_id line_item (line_items s)\<rparr>
            in (case recalculate_booking_totals s1 now booking_id of
                  Inl e \<Rightarrow> (Inl e, s1)
                | Inr (_, s2) \<Rightarrow> (Inr (), s2))))"

definition remove_tax :: "db \<Rightarrow> datetime \<Rightarrow> int \<Rightarrow> int \<Rightarrow> booking result" where
  "remove_tax s now booking_id tax_id' =
     (case find (\<lambda>t. tax_id t = tax_id') (taxes s) of
        None \<Rightarrow> (Inl NotFoundError, s)
      | Some tax \<Rightarrow>
          let s1 = s\<lparr>taxes := delete_row tax_id tax (taxes s)\<rparr>
          in (case recalculate_booking_totals s1 now booking_id of
                Inl e \<Rightarrow> (Inl e, s1)
              | Inr (_, s2) \<Rightarrow>
                  (case get_booking s2 booking_id of
                     Inl e \<Rightarrow> (Inl e, s2)
                   | Inr b \<Rightarrow> (Inr b, s2))))"

text \<open>
  Of the two definitions of \<open>add_discount\<close> in the class, the later one (name, amount,
  percentage) is the one bound at run time.
\<close>

definition add_discount ::
  "db \<Rightarrow> datetime \<Rightarrow> int \<Rightarrow> string \<Rightarrow> money option \<Rightarrow> money option \<Rightarrow> invoice_discount result" where
  "add_discount s now booking_id name amount percentage =
     (if amount = None \<and> percentage = None then (Inl BadRequestError, s)
      else
     (case get_booking s booking_id of
        Inl e \<Rightarrow> (Inl e, s)
      | Inr booking \<Rightarrow>
     (case (if \<not> truthy (b_subtotal booking)
            then recalculate_booking_totals s now booking_id
            else Inr (booking, s)) of
        Inl e \<Rightarrow> (Inl e, s)
      | Inr (booking1, s1) \<Rightarrow>
     (case (case percentage of
              Some p \<Rightarrow> (case b_subtotal booking1 of
                           None \<Rightarrow> Inl TypeError
                         | Some subtotal \<Rightarrow> Inr (subtotal * (p / 100)))
            | None \<Rightarrow> Inr (py_or amount 0)) of
        Inl e \<Rightarrow> (Inl e, s1)
      | Inr discount_amount \<Rightarrow>
          let discount = \<lparr>disc_id = fresh_id (map disc_id (discounts s1)),
                          disc_booking_id = booking_id,
                          disc_name = name,
                          disc_amount = discount_amount,
                          disc_percentage = percentage,
                          disc_created_at = now,
                          disc_updated_at = None\<rparr>;
              s2 = s1\<lparr>discounts := discounts s1 @ [discount]\<rparr>
          in (case recalculate_booking_totals s2 now booking_id of
                Inl e \<Rightarrow> (Inl e, s2)
              | Inr (_, s3) \<Rightarrow>
                  (case find (\<lambda>d. disc_id d = disc_id discount) (discounts s3) of
                     Some d \<Rightarrow> (Inr d, s3)
                   | None \<Rightarrow> (Inr discount, s3)))))))"

definition remove_discount :: "db \<Rightarrow> datetime \<Rightarrow> int \<Rightarrow> int \<Rightarrow> booking result" where
  "remove_discount s now booking_id discount_id =
     (case find (\<lambda>d. disc_id d = discount_id) (discounts s) of
        None \<Rightarrow> (Inl NotFoundError, s)
      | Some discount \<Rightarrow>
          let s1 = s\<lparr>discounts := delete_row disc_id discount (discounts s)\<rparr>
          in (case recalculate_booking_totals s1 now booking_id of
                Inl e \<Rightarrow> (Inl e, s1)
              | Inr (_, s2) \<Rightarrow>
                  (case get_booking s2 booking_id of
                     Inl e \<Rightarrow> (Inl e, s2)
                   | Inr b \<Rightarrow> (Inr b, s2))))"

section \<open>The rows as a recalculation leaves them\<close>

text \<open>
  A tax row with its amount set to subtotal times rate over 100, and a discount row with its
  amount set to subtotal times percentage over 100 when it has a percentage, unchanged when
  it has none.
\<close>

definition retax :: "money \<Rightarrow> invoice_tax \<Rightarrow> invoice_tax" where
  "retax subtotal t = t\<lparr>tax_amount := subtotal * tax_rate t / 100\<rparr>"

definition rediscount :: "money \<Rightarrow> invoice_discount \<Rightarrow> invoice_discount" where
  "rediscount subtotal d =
     (case disc_percentage d of
        Some p \<Rightarrow> d\<lparr>disc_amount := subtotal * p / 100\<rparr>
      | None \<Rightarrow> d)"

section \<open>Example data\<close>

definition ex_guest :: guest where
  "ex_guest = \<lparr>g_id = 1, g_name = ''Asha'', g_last_seen = Some 0, g_created_at = 0,
                g_updated_at = Some 0\<rparr>"

definition ex_room_busy :: room where
  "ex_room_busy = \<lparr>r_number = 101, r_room_type = ''Standard'', r_occupied = True,
                    r_current_guest_id = Some 1, r_rate_per_night = 1000, r_notes = None,
                    r_created_at = 0, r_updated_at = Some 0\<rparr>"

definition ex_booking :: booking where
  "ex_booking = \<lparr>b_id = 1, b_guest_id = 1, b_room_number = 101, b_checkin_at = 0,
                  b_checkout_at = None, b_price = Some 1000, b_invoice_path = None,
                  b_subtotal = Some 1000, b_tax_total = None, b_discount_total = None,
                  b_grand_total = Some 1000, b_created_at = 0, b_updated_at = None\<rparr>"

definition ex_room_item :: invoice_line_item where
  "ex_room_item = \<lparr>li_id = 1, li_booking_id = 1, li_description = ''Standard Room - 101'',
                    li_quantity = 1, li_unit_price = 1000, li_amount = 1000,
                    li_item_type = ''room'', li_created_at = 0, li_updated_at = None\<rparr>"

definition ex_service_item :: invoice_line_item where
  "ex_service_item = \<lparr>li_id = 2, li_booking_id = 1, li_description = ''Laundry'',
                       li_quantity = 2, li_unit_price = 50, li_amount = 100,
                       li_item_type = ''service'', li_created_at = 1, li_updated_at = None\<rparr>"

definition ex_gst :: invoice_tax where
  "ex_gst = \<lparr>tax_id = 1, tax_booking_id = 1, tax_name = ''GST'', tax_rate = 18,
              tax_amount = 180, tax_created_at = 1, tax_updated_at = None\<rparr>"

definition ex_loyalty :: invoice_discount where
  "ex_loyalty = \<lparr>disc_id = 1, disc_booking_id = 1, disc_name = ''Loyalty'', disc_amount = 100,
                  disc_percentage = Some 10, disc_created_at = 1, disc_updated_at = None\<rparr>"

definition ex_voucher :: invoice_discount where
  "ex_voucher = \<lparr>disc_id = 2, disc_booking_id = 1, disc_name = ''Voucher'', disc_amount = 50,
                  disc_percentage = None, disc_created_at = 1, disc_updated_at = None\<rparr>"

definition ex_db_invoice :: db where
  "ex_db_invoice = \<lparr>guests = [ex_guest], rooms = [ex_room_busy], bookings = [ex_booking],
                     line_items = [ex_room_item, ex_service_item], taxes = [ex_gst],
                     discounts = [ex_loyalty, ex_voucher]\<rparr>"

definition ex_guest_new :: guest where
  "ex_guest_new = \<lparr>g_id = 1, g_name = ''Asha'', g_last_seen = None, g_created_at = 0,
                    g_updated_at = None\<rparr>"

definition ex_room_vacant :: room where
  "ex_room_vacant = \<lparr>r_number = 101, r_room_type = ''Standard'', r_occupied = False,
                      r_current_guest_id = None, r_rate_per_night = 1000, r_notes = None,
                      r_created_at = 0, r_updated_at = None\<rparr>"

definition ex_db_vacant :: db where
  "ex_db_vacant = \<lparr>guests = [ex_guest_new], rooms = [ex_room_vacant], bookings = [],
                    line_items = [], taxes = [], discounts = []\<rparr>"

definition ex_db_booked :: db where
  "ex_db_booked = \<lparr>guests = [ex_guest], rooms = [ex_room_busy], bookings = [ex_booking],
                    line_items = [ex_room_item], taxes = [], discounts = []\<rparr>"

text \<open>The price of a new booking: the requested price unless it is absent or zero.\<close>

definition booking_price :: "booking_create \<Rightarrow> room \<Rightarrow> money" where
  "booking_price booking_data room =
     (case bc_price booking_data of
        None \<Rightarrow> r_rate_per_night room
      | Some p \<Rightarrow> if p = 0 then r_rate_per_night room else p)"

definition ex_request :: booking_create where
  "ex_request = \<lparr>bc_guest_id = 1, bc_room_number = 101, bc_price = None\<rparr>"

definition ex_request_free :: booking_create where
  "ex_request_free = \<lparr>bc_guest_id = 1, bc_room_number = 101, bc_price = Some 0\<rparr>"

definition ex_request_unknown_guest :: booking_create where
  "ex_request_unknown_guest = \<lparr>bc_guest_id = 99, bc_room_number = 101, bc_price = None\<rparr>"

text \<open>The room charge as checkout rewrites it for a stay of the given number of days.\<close>

definition room_charge :: "int \<Rightarrow> datetime \<Rightarrow> invoice_line_item \<Rightarrow> invoice_line_item" where
  "room_charge duration now item =
     item\<lparr>li_quantity := of_int duration,
          li_amount := li_unit_price item * of_int duration,
          li_updated_at := Some now\<rparr>"

definition vacated :: "datetime \<Rightarrow> room \<Rightarrow> room" where
  "vacated now r = r\<lparr>r_occupied := False, r_current_guest_id := None, r_updated_at := Some now\<rparr>"

definition three_days :: datetime where
  "three_days = 259200000000"

definition ex_release :: room_update where
  "ex_release = \<lparr>ru_room_type = None, ru_occupied = Some (Some False),
                  ru_current_guest_id = Some None, ru_rate_per_night = None\<rparr>"

definition ex_db_released :: db where
  "ex_db_released = ex_db_booked\<lparr>rooms := [vacated 1 ex_room_busy]\<rparr>"

definition ex_booking_out :: booking where
  "ex_booking_out = ex_booking\<lparr>b_checkout_at := Some three_days, b_subtotal := Some 3000,
                      b_tax_total := Some 0, b_discount_total := Some 0,
                      b_grand_total := Some 3000, b_updated_at := Some three_days\<rparr>"

definition ex_db_out :: db where
  "ex_db_out = \<lparr>guests = [ex_guest], rooms = [vacated three_days ex_room_busy],
                 bookings = [ex_booking_out],
                 line_items = [room_charge 3 three_days ex_room_item],
                 taxes = [], discounts = []\<rparr>"

section \<open>The room invariant\<close>

text \<open>A room that is not occupied has no current guest.\<close>

definition room_ok :: "room \<Rightarrow> bool" where
  "room_ok r = (\<not> r_occupied r \<longrightarrow> r_current_guest_id r = None)"

definition rooms_ok :: "db \<Rightarrow> bool" where
  "rooms_ok s = list_all room_ok (rooms s)"

definition ex_new_room :: room_create where
  "ex_new_room = \<lparr>rc_number = 102, rc_room_type = SUITE, rc_rate_per_night = 2500\<rparr>"

definition ex_rate_change :: room_update where
  "ex_rate_change = \<lparr>ru_room_type = None, ru_occupied = None, ru_current_guest_id = None,
                      ru_rate_per_night = Some (Some 1200)\<rparr>"

definition ex_mark_vacant :: room_update where
  "ex_mark_vacant = \<lparr>ru_room_type = None, ru_occupied = Some (Some False),
                      ru_current_guest_id = None, ru_rate_per_night = None\<rparr>"

definition ex_set_checkout :: booking_update where
  "ex_set_checkout = \<lparr>bu_checkout_at = Some (Some three_days), bu_price = None\<rparr>"

definition ex_guest2 :: guest where
  "ex_guest2 = \<lparr>g_id = 2, g_name = ''Ben'', g_last_seen = Some 0, g_created_at = 0,
                 g_updated_at = Some 0\<rparr>"

definition ex_room2_busy :: room where
  "ex_room2_busy = \<lparr>r_number = 102, r_room_type = ''Premium'', r_occupied = True,
                     r_current_guest_id = Some 2, r_rate_per_night = 1500, r_notes = None,
                     r_created_at = 0, r_updated_at = Some 0\<rparr>"

definition ex_booking_a :: booking where
  "ex_booking_a = ex_booking\<lparr>b_subtotal := Some 1100, b_tax_total := Some 198,
                    b_discount_total := Some 50, b_grand_total := Some 1248\<rparr>"

definition ex_booking_b :: booking where
  "ex_booking_b = \<lparr>b_id = 2, b_guest_id = 2, b_room_number = 102, b_checkin_at = 0,
                    b_checkout_at = None, b_price = Some 1500, b_invoice_path = None,
                    b_subtotal = Some 1500, b_tax_total = None, b_discount_total = None,
                    b_grand_total = Some 1500, b_created_at = 0, b_updated_at = None\<rparr>"

definition ex_room_item_b :: invoice_line_item where
  "ex_room_item_b = \<lparr>li_id = 3, li_booking_id = 2, li_description = ''Premium Room - 102'',
                      li_quantity = 1, li_unit_price = 1500, li_amount = 1500,
                      li_item_type = ''room'', li_created_at = 0, li_updated_at = None\<rparr>"

definition ex_free_item :: invoice_line_item where
  "ex_free_item = \<lparr>li_id = 4, li_booking_id = 1, li_description = ''Welcome drink'',
                    li_quantity = 1, li_unit_price = 0, li_amount = 0,
                    li_item_type = ''service'', li_created_at = 1, li_updated_at = None\<rparr>"

definition ex_db_two :: db where
  "ex_db_two = \<lparr>guests = [ex_guest, ex_guest2], rooms = [ex_room_busy, ex_room2_busy],
                 bookings = [ex_booking_a, ex_booking_b],
                 line_items = [ex_room_item, ex_service_item, ex_room_item_b, ex_free_item],
                 taxes = [ex_gst\<lparr>tax_amount := 198\<rparr>], discounts = [ex_voucher]\<rparr>"

definition ex_city_tax :: invoice_tax where
  "ex_city_tax = \<lparr>tax_id = 2, tax_booking_id = 2, tax_name = ''City tax'', tax_rate = 5,
                   tax_amount = 75, tax_created_at = 1, tax_updated_at = None\<rparr>"

definition ex_db_stay :: db where
  "ex_db_stay = \<lparr>guests = [ex_guest, ex_guest2], rooms = [ex_room_busy, ex_room2_busy],
                  bookings = [ex_booking, ex_booking_b],
                  line_items = [ex_room_item, ex_service_item, ex_room_item_b],
                  taxes = [ex_gst, ex_city_tax], discounts = [ex_loyalty, ex_voucher]\<rparr>"

section \<open>Stored totals against the rows\<close>

text \<open>
  The sums over the rows that carry a booking's id, and the statement that the four totals
  stored on a booking row are those sums, the grand total being the sum of the line items
  plus the sum of the taxes minus the sum of the discounts.
\<close>

definition line_item_sum :: "db \<Rightarrow> int \<Rightarrow> money" where
  "line_item_sum s bid =
     sum_list (map li_amount (filter (\<lambda>i. li_booking_id i = bid) (line_items s)))"

definition tax_sum :: "db \<Rightarrow> int \<Rightarrow> money" where
  "tax_sum s bid =
     sum_list (map tax_amount (filter (\<lambda>t. tax_booking_id t = bid) (taxes s)))"

definition discount_sum :: "db \<Rightarrow> int \<Rightarrow> money" where
  "discount_sum s bid =
     sum_list (map disc_amount (filter (\<lambda>d. disc_booking_id d = bid) (discounts s)))"

definition totals_match :: "booking \<Rightarrow> db \<Rightarrow> bool" where
  "totals_match b s =
     (b_subtotal b = Some (line_item_sum s (b_id b))
      \<and> b_tax_total b = Some (tax_sum s (b_id b))
      \<and> b_discount_total b = Some (discount_sum s (b_id b))
      \<and> b_grand_total b =
          Some (line_item_sum s (b_id b) + tax_sum s (b_id b) - discount_sum s (b_id b)))"

definition ex_db_mixed :: db where
  "ex_db_mixed = ex_db_two\<lparr>bookings := [ex_booking_a, ex_booking_b\<lparr>b_checkout_at := Some 5\<rparr>]\<rparr>"

section \<open>Facts about the session primitives\<close>

lemmas ex_defs = ex_guest_def ex_room_busy_def ex_booking_def ex_room_item_def
  ex_service_item_def ex_gst_def ex_loyalty_def ex_voucher_def ex_db_invoice_def
lemmas ex_defs2 = ex_guest_new_def ex_room_vacant_def ex_db_vacant_def ex_db_booked_def
lemmas ex_defs3 = ex_request_def ex_request_free_def ex_request_unknown_guest_def
lemmas ex_defs4 = three_days_def ex_release_def ex_db_released_def ex_booking_out_def
  ex_db_out_def
lemmas ex_defs5 = ex_new_room_def ex_rate_change_def ex_mark_vacant_def
lemmas ex_defs6 = ex_set_checkout_def
lemmas ex_defs7 = ex_guest2_def ex_room2_busy_def ex_booking_a_def ex_booking_b_def
  ex_room_item_b_def ex_free_item_def ex_db_two_def
lemmas ex_defs8 = ex_city_tax_def ex_db_stay_def
lemmas ex_defs9 = ex_db_mixed_def

lemma py_sum_acc: "foldl (+) a xs = a + sum_list (xs :: money list)"
  by (induction xs arbitrary: a) (simp_all add: algebra_simps)

lemma py_sum_sum_list: "py_sum xs = sum_list xs"
  by (simp add: py_sum_def py_sum_acc)

lemma find_flush_single:
  "find (\<lambda>u. key u = k) (flush_rows key [obj] tbl) =
     (if key obj = k then (case find (\<lambda>u. key u = k) tbl of None \<Rightarrow> None | Some _ \<Rightarrow> Some obj)
      else find (\<lambda>u. key u = k) tbl)"
  by (induction tbl) (auto simp: flush_rows_def)

lemma get_booking_flush_same:
  "get_booking s bid = Inr b \<Longrightarrow> b_id b' = bid \<Longrightarrow>
   bookings s' = flush_rows b_id [b'] (bookings s) \<Longrightarrow> get_booking s' bid = Inr b'"
  by (auto simp: get_booking_def find_flush_single split: option.splits)

lemma get_booking_id: "get_booking s bid = Inr b \<Longrightarrow> b_id b = bid"
  by (auto simp: get_booking_def split: option.splits dest: find_Some_iff[THEN iffD1])

section \<open>Recalculation: the stored totals\<close>

lemma recalculate_ok:
  assumes "get_booking s bid = Inr b"
  shows "\<exists>b' s'. recalculate_booking_totals s now bid = Inr (b', s')"
  using assms by (simp add: recalculate_booking_totals_def Let_def split: prod.splits)

lemma recalculate_line_items:
  "recalculate_booking_totals s now bid = Inr (b', s') \<Longrightarrow> line_items s' = line_items s"
  by (auto simp: recalculate_booking_totals_def Let_def split: sum.splits prod.splits)

lemma recalculate_stored:
  assumes h: "recalculate_booking_totals s now bid = Inr (b', s')"
  shows "get_booking s' bid = Inr b'"
proof -
  obtain b where gb: "get_booking s bid = Inr b"
    using h by (auto simp: recalculate_booking_totals_def split: sum.splits)
  have "b_id b' = bid" and "bookings s' = flush_rows b_id [b'] (bookings s)"
    using h gb get_booking_id[OF gb]
    by (auto simp: recalculate_booking_totals_def Let_def split: prod.splits)
  then show ?thesis using get_booking_flush_same[OF gb] by blast
qed

lemma recalculate_subtotal:
  "recalculate_booking_totals s now bid = Inr (b', s') \<Longrightarrow>
   b_subtotal b' = Some (sum_list (map li_amount (get_line_items s' bid)))"
  by (auto simp: recalculate_booking_totals_def Let_def py_sum_sum_list get_line_items_def
      split: sum.splits prod.splits)

lemma recalculate_grand_total:
  "recalculate_booking_totals s now bid = Inr (b', s') \<Longrightarrow>
   \<exists>st tt dt. b_subtotal b' = Some st \<and> b_tax_total b' = Some tt \<and>
     b_discount_total b' = Some dt \<and> b_grand_total b' = Some (st + tt - dt)"
  by (auto simp: recalculate_booking_totals_def Let_def split: sum.splits prod.splits)

lemma tax_loop_eq:
  "tax_loop st ts a = (map (retax st) ts, a + sum_list (map tax_amount (map (retax st) ts)))"
  by (induction ts arbitrary: a) (simp_all add: retax_def Let_def algebra_simps)

lemma discount_loop_eq:
  "discount_loop st ds a =
     (map (rediscount st) ds, a + sum_list (map disc_amount (map (rediscount st) ds)))"
  by (induction ds arbitrary: a)
     (simp_all add: rediscount_def Let_def algebra_simps split: option.splits)

lemma find_map_filter:
  assumes "distinct (map key tbl)" "u \<in> set tbl" "\<And>x. key (f x) = key x"
  shows "find (\<lambda>r. key r = key u) (map f (filter P tbl)) = (if P u then Some (f u) else None)"
  using assms(1,2)
proof (induction tbl)
  case Nil
  then show ?case by simp
next
  case (Cons x xs)
  show ?case
  proof (cases "u = x")
    case True
    have "find (\<lambda>r. key r = key x) (map f (filter P xs)) = None"
      using Cons.prems(1) assms(3) by (auto simp: find_None_iff image_iff)
    then show ?thesis using True assms(3) by simp
  next
    case False
    then have "u \<in> set xs" "key x \<noteq> key u" using Cons.prems by auto
    then show ?thesis using Cons assms(3) by simp
  qed
qed

lemma flush_rows_map_filter:
  assumes "distinct (map key tbl)" "\<And>x. key (f x) = key x"
  shows "flush_rows key (map f (filter P tbl)) tbl = map (\<lambda>u. if P u then f u else u) tbl"
  unfolding flush_rows_def
  by (rule map_cong[OF refl]) (simp add: find_map_filter[OF assms(1) _ assms(2)])

lemma retax_id: "tax_id (retax st t) = tax_id t" by (simp add: retax_def)
lemma retax_bid: "tax_booking_id (retax st t) = tax_booking_id t" by (simp add: retax_def)
lemma rediscount_id: "disc_id (rediscount st t) = disc_id t"
  by (simp add: rediscount_def split: option.splits)
lemma rediscount_bid: "disc_booking_id (rediscount st t) = disc_booking_id t"
  by (simp add: rediscount_def split: option.splits)

lemma recalculate_eq:
  assumes "get_booking s bid = Inr b"
  shows "recalculate_booking_totals s now bid =
     (let st = sum_list (map li_amount (get_line_items s bid));
          ts = map (retax st) (get_taxes s bid);
          ds = map (rediscount st) (get_discounts s bid);
          tt = sum_list (map tax_amount ts);
          dt = sum_list (map disc_amount ds);
          b' = b\<lparr>b_subtotal := Some st, b_tax_total := Some tt, b_discount_total := Some dt,
                 b_grand_total := Some (st + tt - dt), b_updated_at := Some now\<rparr>
      in Inr (b', s\<lparr>taxes := flush_rows tax_id ts (taxes s),
                     discounts := flush_rows disc_id ds (discounts s),
                     bookings := flush_rows b_id [b'] (bookings s)\<rparr>))"
  using assms
  by (simp add: recalculate_booking_totals_def Let_def py_sum_sum_list tax_loop_eq discount_loop_eq)

lemma filter_map_if:
  assumes "\<And>x. P (f x) = P x"
  shows "filter P (map (\<lambda>u. if P u then f u else u) xs) = map f (filter P xs)"
  by (induction xs) (simp_all add: assms)

lemma recalculate_pinned:
  assumes r: "recalculate_booking_totals s now bid = Inr (b', s')"
  shows "find (\<lambda>b. b_id b = bid) (bookings s') = Some b'"
    and "line_items s' = line_items s"
    and "b_subtotal b' =
           Some (sum_list (map li_amount (filter (\<lambda>i. li_booking_id i = bid) (line_items s'))))"
    and "\<exists>tt dt. b_tax_total b' = Some tt \<and> b_discount_total b' = Some dt
           \<and> b_grand_total b' =
               Some (sum_list (map li_amount
                        (filter (\<lambda>i. li_booking_id i = bid) (line_items s'))) + tt - dt)"
    and "distinct (map tax_id (taxes s)) \<Longrightarrow>
         taxes s' =
           map (\<lambda>t. if tax_booking_id t = bid
                     then retax (sum_list (map li_amount
                             (filter (\<lambda>i. li_booking_id i = bid) (line_items s)))) t
                     else t) (taxes s)
         \<and> b_tax_total b' =
             Some (sum_list (map tax_amount (filter (\<lambda>t. tax_booking_id t = bid) (taxes s'))))"
    and "distinct (map disc_id (discounts s)) \<Longrightarrow>
         discounts s' =
           map (\<lambda>d. if disc_booking_id d = bid
                     then rediscount (sum_list (map li_amount
                             (filter (\<lambda>i. li_booking_id i = bid) (line_items s)))) d
                     else d) (discounts s)
         \<and> b_discount_total b' =
             Some (sum_list (map disc_amount
                     (filter (\<lambda>d. disc_booking_id d = bid) (discounts s'))))"
proof -
  obtain b where gb: "get_booking s bid = Inr b"
    using r by (auto simp: recalculate_booking_totals_def split: sum.splits)
  let ?st = "sum_list (map li_amount (filter (\<lambda>i. li_booking_id i = bid) (line_items s)))"
  let ?ts = "map (retax ?st) (filter (\<lambda>t. tax_booking_id t = bid) (taxes s))"
  let ?ds = "map (rediscount ?st) (filter (\<lambda>d. disc_booking_id d = bid) (discounts s))"
  have e: "b' = b\<lparr>b_subtotal := Some ?st, b_tax_total := Some (sum_list (map tax_amount ?ts)),
                  b_discount_total := Some (sum_list (map disc_amount ?ds)),
                  b_grand_total := Some (?st + sum_list (map tax_amount ?ts)
                                          - sum_list (map disc_amount ?ds)),
                  b_updated_at := Some now\<rparr>"
    and li: "line_items s' = line_items s"
    and ta: "taxes s' = flush_rows tax_id ?ts (taxes s)"
    and di: "discounts s' = flush_rows disc_id ?ds (discounts s)"
    using r unfolding recalculate_eq[OF gb] Let_def get_line_items_def get_taxes_def
      get_discounts_def by auto
  show "find (\<lambda>b. b_id b = bid) (bookings s') = Some b'"
    using recalculate_stored[OF r] by (simp add: get_booking_def split: option.splits)
  show "line_items s' = line_items s" by (rule li)
  show "b_subtotal b' =
           Some (sum_list (map li_amount (filter (\<lambda>i. li_booking_id i = bid) (line_items s'))))"
    by (simp add: e li)
  show "\<exists>tt dt. b_tax_total b' = Some tt \<and> b_discount_total b' = Some dt
           \<and> b_grand_total b' =
               Some (sum_list (map li_amount
                        (filter (\<lambda>i. li_booking_id i = bid) (line_items s'))) + tt - dt)"
    by (simp add: e li)
  show "taxes s' =
           map (\<lambda>t. if tax_booking_id t = bid then retax ?st t else t) (taxes s)
         \<and> b_tax_total b' =
             Some (sum_list (map tax_amount (filter (\<lambda>t. tax_booking_id t = bid) (taxes s'))))"
    if d: "distinct (map tax_id (taxes s))"
  proof -
    have m: "taxes s' = map (\<lambda>t. if tax_booking_id t = bid then retax ?st t else t) (taxes s)"
      unfolding ta by (rule flush_rows_map_filter[OF d]) (rule retax_id)
    have f: "filter (\<lambda>t. tax_booking_id t = bid) (taxes s') = ?ts"
      unfolding m by (rule filter_map_if) (simp add: retax_bid)
    have tt: "b_tax_total b' = Some (sum_list (map tax_amount ?ts))" by (simp add: e)
    show ?thesis unfolding f tt using m by simp
  qed
  show "discounts s' =
           map (\<lambda>d. if disc_booking_id d = bid then rediscount ?st d else d) (discounts s)
         \<and> b_discount_total b' =
             Some (sum_list (map disc_amount
                     (filter (\<lambda>d. disc_booking_id d = bid) (discounts s'))))"
    if d: "distinct (map disc_id (discounts s))"
  proof -
    have m: "discounts s' =
               map (\<lambda>d. if disc_booking_id d = bid then rediscount ?st d else d) (discounts s)"
      unfolding di by (rule flush_rows_map_filter[OF d]) (rule rediscount_id)
    have f: "filter (\<lambda>d. disc_booking_id d = bid) (discounts s') = ?ds"
      unfolding m by (rule filter_map_if) (simp add: rediscount_bid)
    have dt: "b_discount_total b' = Some (sum_list (map disc_amount ?ds))" by (simp add: e)
    show ?thesis unfolding f dt using m by simp
  qed
qed

section \<open>Claims about the recalculation\<close>

text \<open>
  Claim C1. A recalculation of an existing booking returns; the row it stores for the
  booking has subtotal equal to the sum of the amounts of the line-item rows that carry the
  booking's id, as they stand after the call, and grand total equal to subtotal plus tax
  total minus discount total.
\<close>

theorem recalculate_totals_consistent:
  assumes "get_booking s bid = Inr b"
  shows "\<exists>b' s'. recalculate_booking_totals s now bid = Inr (b', s')
           \<and> get_booking s' bid = Inr b'
           \<and> find (\<lambda>b. b_id b = bid) (bookings s') = Some b'
           \<and> line_items s' = line_items s
           \<and> b_subtotal b' =
               Some (sum_list (map li_amount
                       (filter (\<lambda>i. li_booking_id i = bid) (line_items s'))))
           \<and> (\<exists>tt dt. b_tax_total b' = Some tt \<and> b_discount_total b' = Some dt
                 \<and> b_grand_total b' =
                     Some (sum_list (map li_amount
                             (filter (\<lambda>i. li_booking_id i = bid) (line_items s'))) + tt - dt))"
proof -
  obtain b' s' where r: "recalculate_booking_totals s now bid = Inr (b', s')"
    using recalculate_ok[OF assms] by blast
  show ?thesis
    using r recalculate_stored[OF r] recalculate_pinned(1-4)[OF r] by blast
qed

theorem recalculate_totals_consistent_witness:
  "get_booking ex_db_stay 1 = Inr ex_booking
   \<and> map li_amount (line_items ex_db_stay) = [1000, 100, 1500]
   \<and> map li_booking_id (line_items ex_db_stay) = [1, 1, 2]
   \<and> (\<exists>b' s'. recalculate_booking_totals ex_db_stay 5 1 = Inr (b', s')
           \<and> get_booking s' 1 = Inr b'
           \<and> find (\<lambda>b. b_id b = 1) (bookings s') = Some b'
           \<and> line_items s' = line_items ex_db_stay
           \<and> b_subtotal b' = Some 1100
           \<and> b_tax_total b' = Some 198 \<and> b_discount_total b' = Some 160
           \<and> b_grand_total b' = Some 1138
           \<and> (1138::rat) = 1100 + 198 - 160)"
proof -
  have h: "get_booking ex_db_stay 1 = Inr ex_booking"
    by (simp add: get_booking_def ex_defs ex_defs7 ex_defs8)
  have v: "map li_amount (line_items ex_db_stay) = [1000, 100, 1500]"
    "map li_booking_id (line_items ex_db_stay) = [1, 1, 2]"
    by (simp_all add: ex_defs ex_defs7 ex_defs8)
  obtain b' s' where c: "recalculate_booking_totals ex_db_stay 5 1 = Inr (b', s')"
    "get_booking s' 1 = Inr b'" "find (\<lambda>b. b_id b = 1) (bookings s') = Some b'"
    "line_items s' = line_items ex_db_stay"
    "b_subtotal b' = Some (sum_list (map li_amount
                       (filter (\<lambda>i. li_booking_id i = 1) (line_items s'))))"
    using recalculate_totals_consistent[OF h, of 5] by blast
  have e: "map_sum id (\<lambda>(b, s). (b_tax_total b, b_discount_total b, b_grand_total b))
             (recalculate_booking_totals ex_db_stay 5 1) = Inr (Some 198, Some 160, Some 1138)"
    by (simp add: recalculate_booking_totals_def get_booking_def get_line_items_def
        get_taxes_def get_discounts_def py_sum_def flush_rows_def Let_def
        ex_defs ex_defs7 ex_defs8)
  have t: "b_tax_total b' = Some 198" "b_discount_total b' = Some 160"
    "b_grand_total b' = Some 1138"
    using e unfolding c(1) by simp_all
  have st: "b_subtotal b' = Some 1100"
    unfolding c(5) c(4) by (simp add: ex_defs ex_defs7 ex_defs8)
  show ?thesis using h v c(1-4) st t by simp
qed

lemma ex_recalc_values:
  "map_sum id (\<lambda>(b, s). (b_subtotal b, b_tax_total b, b_discount_total b, b_grand_total b,
        map tax_amount (taxes s), map disc_amount (discounts s)))
     (recalculate_booking_totals ex_db_invoice 5 1) =
   Inr (Some 1100, Some 198, Some 160, Some 1138, [198], [110, 50])"
  by (simp add: recalculate_booking_totals_def get_booking_def get_line_items_def get_taxes_def
      get_discounts_def py_sum_def flush_rows_def Let_def ex_defs)

text \<open>
  Claim C2. A recalculation sets the amount of every tax row of the booking to the current
  subtotal times its rate over 100, and the amount of every discount row of the booking
  that has a percentage to the current subtotal times the percentage over 100; a discount
  without a percentage keeps its row as stored. The tax total and the discount total are
  the sums of the amounts of the resulting rows. Primary keys are unique.
\<close>

theorem recalculate_rewrites_taxes_and_discounts:
  assumes "get_booking s bid = Inr b"
    and "distinct (map tax_id (taxes s))"
    and "distinct (map disc_id (discounts s))"
  shows "\<exists>b' s'. recalculate_booking_totals s now bid = Inr (b', s')
           \<and> b_subtotal b' = Some (sum_list (map li_amount (get_line_items s bid)))
           \<and> taxes s' =
               map (\<lambda>t. if tax_booking_id t = bid
                         then retax (sum_list (map li_amount (get_line_items s bid))) t else t)
                   (taxes s)
           \<and> discounts s' =
               map (\<lambda>d. if disc_booking_id d = bid
                         then rediscount (sum_list (map li_amount (get_line_items s bid))) d
                         else d)
                   (discounts s)
           \<and> b_tax_total b' = Some (sum_list (map tax_amount (get_taxes s' bid)))
           \<and> b_discount_total b' = Some (sum_list (map disc_amount (get_discounts s' bid)))"
proof -
  let ?st = "sum_list (map li_amount (get_line_items s bid))"
  have t: "flush_rows tax_id (map (retax ?st) (get_taxes s bid)) (taxes s) =
           map (\<lambda>t. if tax_booking_id t = bid then retax ?st t else t) (taxes s)"
    unfolding get_taxes_def
    by (rule flush_rows_map_filter[OF assms(2)]) (rule retax_id)
  have d: "flush_rows disc_id (map (rediscount ?st) (get_discounts s bid)) (discounts s) =
           map (\<lambda>d. if disc_booking_id d = bid then rediscount ?st d else d) (discounts s)"
    unfolding get_discounts_def
    by (rule flush_rows_map_filter[OF assms(3)]) (rule rediscount_id)
  have ft: "filter (\<lambda>t. tax_booking_id t = bid)
              (map (\<lambda>t. if tax_booking_id t = bid then retax ?st t else t) (taxes s)) =
            map (retax ?st) (filter (\<lambda>t. tax_booking_id t = bid) (taxes s))"
    by (rule filter_map_if) (simp add: retax_bid)
  have fd: "filter (\<lambda>d. disc_booking_id d = bid)
              (map (\<lambda>d. if disc_booking_id d = bid then rediscount ?st d else d) (discounts s)) =
            map (rediscount ?st) (filter (\<lambda>d. disc_booking_id d = bid) (discounts s))"
    by (rule filter_map_if) (simp add: rediscount_bid)
  show ?thesis
    unfolding recalculate_eq[OF assms(1)] Let_def t d
    by (simp add: get_taxes_def get_discounts_def ft fd)
qed

theorem recalculate_rewrites_taxes_and_discounts_witness:
  "get_booking ex_db_invoice 1 = Inr ex_booking
   \<and> distinct (map tax_id (taxes ex_db_invoice))
   \<and> distinct (map disc_id (discounts ex_db_invoice))
   \<and> (\<exists>b' s'. recalculate_booking_totals ex_db_invoice 5 1 = Inr (b', s')
           \<and> b_subtotal b' = Some 1100
           \<and> taxes s' = [ex_gst\<lparr>tax_amount := 198\<rparr>]
           \<and> discounts s' = [ex_loyalty\<lparr>disc_amount := 110\<rparr>, ex_voucher]
           \<and> b_tax_total b' = Some 198
           \<and> b_discount_total b' = Some 160)"
proof -
  have h: "get_booking ex_db_invoice 1 = Inr ex_booking"
    by (simp add: get_booking_def ex_defs)
  have dt: "distinct (map tax_id (taxes ex_db_invoice))"
    and dd: "distinct (map disc_id (discounts ex_db_invoice))"
    by (simp_all add: ex_defs)
  show ?thesis
    using h dt dd recalculate_rewrites_taxes_and_discounts[OF h dt dd, of 5]
    by (auto simp: get_line_items_def get_taxes_def get_discounts_def retax_def rediscount_def
        ex_defs)
qed

lemma fold_max_ge: "a \<le> fold max ids (a::int)"
  by (induction ids arbitrary: a) (auto intro: order_trans[OF max.cobounded2])

lemma fold_max_mem: "x \<in> set ids \<Longrightarrow> x \<le> fold max ids (a::int)"
proof (induction ids arbitrary: a)
  case Nil
  then show ?case by simp
next
  case (Cons y ys)
  show ?case
  proof (cases "x = y")
    case True
    have "y \<le> max y a" by simp
    also have "\<dots> \<le> fold max ys (max y a)" by (rule fold_max_ge)
    finally show ?thesis using True by simp
  next
    case False
    then show ?thesis using Cons by simp
  qed
qed

lemma fresh_id_notin: "fresh_id ids \<notin> set ids"
proof
  assume "fresh_id ids \<in> set ids"
  then have "fresh_id ids \<le> fold max ids 0" by (rule fold_max_mem)
  then show False by (simp add: fresh_id_def)
qed

lemma find_key: "find (\<lambda>u. key u = k) tbl = Some r \<Longrightarrow> key r = k"
  by (auto simp: find_Some_iff)

lemma flush_single_absent:
  "key obj \<notin> key ` set tbl \<Longrightarrow> flush_rows key [obj] tbl = tbl"
  by (induction tbl) (auto simp: flush_rows_def)

lemma flush_single_append:
  "key obj' = key obj \<Longrightarrow> key obj \<notin> key ` set tbl \<Longrightarrow>
   flush_rows key [obj'] (tbl @ [obj]) = tbl @ [obj']"
  using flush_single_absent[of key obj' tbl] by (simp add: flush_rows_def)

lemma get_room_number: "get_room s rn = Inr r \<Longrightarrow> r_number r = rn"
  by (auto simp: get_room_def split: option.splits dest: find_key)

lemma get_guest_id: "get_guest s gid = Inr g \<Longrightarrow> g_id g = gid"
  by (auto simp: get_guest_def split: option.splits dest: find_key)

lemma get_room_flush_same:
  "get_room s rn = Inr r \<Longrightarrow> r_number r' = rn \<Longrightarrow>
   rooms s' = flush_rows r_number [r'] (rooms s) \<Longrightarrow> get_room s' rn = Inr r'"
  by (auto simp: get_room_def find_flush_single split: option.splits)

lemma get_guest_flush_same:
  "get_guest s gid = Inr g \<Longrightarrow> g_id g' = gid \<Longrightarrow>
   guests s' = flush_rows g_id [g'] (guests s) \<Longrightarrow> get_guest s' gid = Inr g'"
  by (auto simp: get_guest_def find_flush_single split: option.splits)

lemma py_or_price: "py_or (bc_price d) (r_rate_per_night r) = booking_price d r"
  by (simp add: py_or_def booking_price_def)

lemma create_booking_success:
  assumes g: "get_guest s (bc_guest_id d) = Inr g"
    and r: "get_room s (bc_room_number d) = Inr r"
    and v: "\<not> r_occupied r"
  shows "\<exists>b item s'. create_booking s now d = (Inr b, s')
      \<and> b_guest_id b = bc_guest_id d \<and> b_room_number b = bc_room_number d
      \<and> b_checkin_at b = now \<and> b_checkout_at b = None
      \<and> b_price b = Some (booking_price d r)
      \<and> b_subtotal b = Some (booking_price d r) \<and> b_grand_total b = Some (booking_price d r)
      \<and> bookings s' = bookings s @ [b]
      \<and> line_items s' = line_items s @ [item]
      \<and> li_booking_id item = b_id b \<and> li_item_type item = ''room'' \<and> li_quantity item = 1
      \<and> li_unit_price item = booking_price d r \<and> li_amount item = booking_price d r
      \<and> get_room s' (bc_room_number d) =
            Inr (r\<lparr>r_occupied := True, r_current_guest_id := Some (bc_guest_id d),
                   r_updated_at := Some now\<rparr>)
      \<and> get_guest s' (bc_guest_id d) =
            Inr (g\<lparr>g_last_seen := Some now, g_updated_at := Some now\<rparr>)
      \<and> taxes s' = taxes s \<and> discounts s' = discounts s"
proof -
  let ?bid = "fresh_id (map b_id (bookings s))"
  have fr: "?bid \<notin> b_id ` set (bookings s)"
    using fresh_id_notin[of "map b_id (bookings s)"] by simp
  let ?r' = "r\<lparr>r_occupied := True, r_current_guest_id := Some (bc_guest_id d),
                r_updated_at := Some now\<rparr>"
  let ?g' = "g\<lparr>g_last_seen := Some now, g_updated_at := Some now\<rparr>"
  have rr: "get_room (s'::db) (bc_room_number d) = Inr ?r'"
    if "rooms s' = flush_rows r_number [?r'] (rooms s)" for s'
    using get_room_flush_same[OF r _ that] get_room_number[OF r] by simp
  have gg: "get_guest (s'::db) (bc_guest_id d) = Inr ?g'"
    if "guests s' = flush_rows g_id [?g'] (guests s)" for s'
    using get_guest_flush_same[OF g _ that] get_guest_id[OF g] by simp
  show ?thesis
    using g r v fr
    by (simp add: create_booking_def Let_def py_or_price flush_single_append rr gg)
qed

section \<open>Claims about creating a booking\<close>

text \<open>
  Claim C3, as amended. \<open>create_booking\<close> fails with NotFoundError when the guest does not
  exist; for an existing guest and an occupied room it fails with ConflictError; in both
  cases nothing is written. For an existing guest and an existing vacant room it returns
  the new booking: the room is occupied by the guest, the booking has check-in time now and
  price the requested price unless that is absent or zero, in which case the price is the
  room's nightly rate; exactly one line item is appended, of type "room", quantity 1,
  unit price and amount the price; subtotal and grand total are the price; the guest's
  last-seen time is now.
\<close>

theorem create_booking_contract:
  "(get_guest s (bc_guest_id d) = Inl NotFoundError \<longrightarrow>
      create_booking s now d = (Inl NotFoundError, s))
   \<and> (get_guest s (bc_guest_id d) = Inr g \<and> get_room s (bc_room_number d) = Inr r
        \<and> r_occupied r \<longrightarrow>
      create_booking s now d = (Inl ConflictError, s))
   \<and> (get_guest s (bc_guest_id d) = Inr g \<and> get_room s (bc_room_number d) = Inr r
        \<and> \<not> r_occupied r \<longrightarrow>
      (\<exists>b item s'. create_booking s now d = (Inr b, s')
        \<and> b_guest_id b = bc_guest_id d \<and> b_room_number b = bc_room_number d
        \<and> b_checkin_at b = now \<and> b_checkout_at b = None
        \<and> b_price b = Some (booking_price d r)
        \<and> b_subtotal b = Some (booking_price d r) \<and> b_grand_total b = Some (booking_price d r)
        \<and> bookings s' = bookings s @ [b]
        \<and> line_items s' = line_items s @ [item]
        \<and> li_booking_id item = b_id b \<and> li_item_type item = ''room'' \<and> li_quantity item = 1
        \<and> li_unit_price item = booking_price d r \<and> li_amount item = booking_price d r
        \<and> get_room s' (bc_room_number d) =
              Inr (r\<lparr>r_occupied := True, r_current_guest_id := Some (bc_guest_id d),
                     r_updated_at := Some now\<rparr>)
        \<and> get_guest s' (bc_guest_id d) =
              Inr (g\<lparr>g_last_seen := Some now, g_updated_at := Some now\<rparr>)
        \<and> taxes s' = taxes s \<and> discounts s' = discounts s))"
proof (intro conjI impI)
  assume "get_guest s (bc_guest_id d) = Inl NotFoundError"
  then show "create_booking s now d = (Inl NotFoundError, s)"
    by (simp add: create_booking_def)
next
  assume "get_guest s (bc_guest_id d) = Inr g \<and> get_room s (bc_room_number d) = Inr r
        \<and> r_occupied r"
  then show "create_booking s now d = (Inl ConflictError, s)"
    by (simp add: create_booking_def)
next
  assume a: "get_guest s (bc_guest_id d) = Inr g \<and> get_room s (bc_room_number d) = Inr r
        \<and> \<not> r_occupied r"
  then have g: "get_guest s (bc_guest_id d) = Inr g"
    and r: "get_room s (bc_room_number d) = Inr r" and v: "\<not> r_occupied r"
    by simp_all
  show "\<exists>b item s'. create_booking s now d = (Inr b, s')
        \<and> b_guest_id b = bc_guest_id d \<and> b_room_number b = bc_room_number d
        \<and> b_checkin_at b = now \<and> b_checkout_at b = None
        \<and> b_price b = Some (booking_price d r)
        \<and> b_subtotal b = Some (booking_price d r) \<and> b_grand_total b = Some (booking_price d r)
        \<and> bookings s' = bookings s @ [b]
        \<and> line_items s' = line_items s @ [item]
        \<and> li_booking_id item = b_id b \<and> li_item_type item = ''room'' \<and> li_quantity item = 1
        \<and> li_unit_price item = booking_price d r \<and> li_amount item = booking_price d r
        \<and> get_room s' (bc_room_number d) =
              Inr (r\<lparr>r_occupied := True, r_current_guest_id := Some (bc_guest_id d),
                     r_updated_at := Some now\<rparr>)
        \<and> get_guest s' (bc_guest_id d) =
              Inr (g\<lparr>g_last_seen := Some now, g_updated_at := Some now\<rparr>)
        \<and> taxes s' = taxes s \<and> discounts s' = discounts s"
    by (rule create_booking_success[OF g r v])
qed

theorem create_booking_contract_witness:
  "(get_guest ex_db_vacant (bc_guest_id ex_request_unknown_guest) = Inl NotFoundError
    \<and> create_booking ex_db_vacant 5 ex_request_unknown_guest = (Inl NotFoundError, ex_db_vacant))
   \<and> (get_guest ex_db_booked (bc_guest_id ex_request) = Inr ex_guest
      \<and> get_room ex_db_booked (bc_room_number ex_request) = Inr ex_room_busy
      \<and> r_occupied ex_room_busy
      \<and> create_booking ex_db_booked 5 ex_request = (Inl ConflictError, ex_db_booked))
   \<and> (get_guest ex_db_vacant (bc_guest_id ex_request) = Inr ex_guest_new
      \<and> get_room ex_db_vacant (bc_room_number ex_request) = Inr ex_room_vacant
      \<and> \<not> r_occupied ex_room_vacant
      \<and> (\<exists>b item s'. create_booking ex_db_vacant 5 ex_request = (Inr b, s')
        \<and> b_guest_id b = 1 \<and> b_room_number b = 101
        \<and> b_checkin_at b = 5 \<and> b_checkout_at b = None
        \<and> b_price b = Some 1000
        \<and> b_subtotal b = Some 1000 \<and> b_grand_total b = Some 1000
        \<and> bookings s' = bookings ex_db_vacant @ [b]
        \<and> line_items s' = line_items ex_db_vacant @ [item]
        \<and> li_booking_id item = b_id b \<and> li_item_type item = ''room'' \<and> li_quantity item = 1
        \<and> li_unit_price item = 1000 \<and> li_amount item = 1000
        \<and> get_room s' 101 =
              Inr (ex_room_vacant\<lparr>r_occupied := True, r_current_guest_id := Some 1,
                     r_updated_at := Some 5\<rparr>)
        \<and> get_guest s' 1 =
              Inr (ex_guest_new\<lparr>g_last_seen := Some 5, g_updated_at := Some 5\<rparr>)
        \<and> taxes s' = taxes ex_db_vacant \<and> discounts s' = discounts ex_db_vacant))"
proof -
  have h1: "get_guest ex_db_vacant (bc_guest_id ex_request_unknown_guest) = Inl NotFoundError"
    by (simp add: get_guest_def ex_defs ex_defs2 ex_defs3)
  have h2: "get_guest ex_db_booked (bc_guest_id ex_request) = Inr ex_guest
      \<and> get_room ex_db_booked (bc_room_number ex_request) = Inr ex_room_busy
      \<and> r_occupied ex_room_busy"
    by (simp add: get_guest_def get_room_def ex_defs ex_defs2 ex_defs3)
  have h3: "get_guest ex_db_vacant (bc_guest_id ex_request) = Inr ex_guest_new
      \<and> get_room ex_db_vacant (bc_room_number ex_request) = Inr ex_room_vacant
      \<and> \<not> r_occupied ex_room_vacant"
    by (simp add: get_guest_def get_room_def ex_defs ex_defs2 ex_defs3)
  have p: "booking_price ex_request ex_room_vacant = 1000"
    "bc_guest_id ex_request = 1" "bc_room_number ex_request = 101"
    by (simp_all add: booking_price_def ex_defs2 ex_defs3)
  have c1: "create_booking ex_db_vacant 5 ex_request_unknown_guest = (Inl NotFoundError, ex_db_vacant)"
    using create_booking_contract[where s = ex_db_vacant and d = ex_request_unknown_guest and now = 5] h1 by blast
  have c2: "create_booking ex_db_booked 5 ex_request = (Inl ConflictError, ex_db_booked)"
    using create_booking_contract[where s = ex_db_booked and d = ex_request and g = ex_guest
        and r = ex_room_busy and now = 5] h2 by blast
  note c3 = create_booking_contract[where s = ex_db_vacant and d = ex_request and g = ex_guest_new
      and r = ex_room_vacant and now = 5,
      THEN conjunct2, THEN conjunct2, rule_format, OF h3, unfolded p]
  show ?thesis using h1 h2 h3 c1 c2 c3 unfolding p by (intro conjI) simp_all
qed

theorem create_booking_zero_price_counterexample:
  "map_sum id b_price (fst (create_booking ex_db_vacant 5 ex_request_free)) = Inr (Some 1000)
   \<and> bc_price ex_request_free = Some 0"
  by (simp add: create_booking_def get_guest_def get_room_def py_or_def Let_def
      ex_defs ex_defs2 ex_defs3)

text \<open>
  Claim C7, as amended. A request to book a room that is occupied writes nothing: the
  database after the call is the database before it. The error raised is ConflictError
  when the guest exists; the guest is looked up first, so for an unknown guest it is
  NotFoundError. \<open>occupy_room\<close> on an occupied room raises ConflictError and writes nothing.
\<close>

theorem create_booking_occupied_room:
  assumes "get_room s (bc_room_number d) = Inr r" and "r_occupied r"
  shows "create_booking s now d =
           (Inl (if get_guest s (bc_guest_id d) = Inl NotFoundError
                 then NotFoundError else ConflictError), s)
         \<and> occupy_room s now (bc_room_number d) guest_id = (Inl ConflictError, s)"
  using assms
  by (auto simp: create_booking_def occupy_room_def get_guest_def split: sum.splits option.splits)

theorem create_booking_occupied_room_witness:
  "get_room ex_db_booked (bc_room_number ex_request) = Inr ex_room_busy
   \<and> r_occupied ex_room_busy
   \<and> get_guest ex_db_booked (bc_guest_id ex_request) = Inr ex_guest
   \<and> create_booking ex_db_booked 5 ex_request = (Inl ConflictError, ex_db_booked)
   \<and> occupy_room ex_db_booked 5 (bc_room_number ex_request) 1 = (Inl ConflictError, ex_db_booked)"
proof -
  have h: "get_room ex_db_booked (bc_room_number ex_request) = Inr ex_room_busy"
    and o: "r_occupied ex_room_busy"
    and g: "get_guest ex_db_booked (bc_guest_id ex_request) = Inr ex_guest"
    by (simp_all add: get_guest_def get_room_def ex_defs ex_defs2 ex_defs3)
  show ?thesis
    using h o g create_booking_occupied_room[OF h o, where now = 5 and guest_id = 1] by simp
qed

theorem create_booking_unknown_guest_counterexample:
  "get_room ex_db_booked (bc_room_number ex_request_unknown_guest) = Inr ex_room_busy
   \<and> r_occupied ex_room_busy
   \<and> create_booking ex_db_booked 5 ex_request_unknown_guest = (Inl NotFoundError, ex_db_booked)"
  by (simp add: create_booking_def get_guest_def get_room_def ex_defs ex_defs2 ex_defs3)

section \<open>Facts about checkout\<close>

lemma get_room_frame [simp]:
  "get_room (s\<lparr>bookings := bs\<rparr>) = get_room s"
  "get_room (s\<lparr>line_items := ls\<rparr>) = get_room s"
  "get_room (s\<lparr>taxes := ts\<rparr>) = get_room s"
  "get_room (s\<lparr>discounts := ds\<rparr>) = get_room s"
  "get_room (s\<lparr>guests := gs\<rparr>) = get_room s"
  by (simp_all add: get_room_def fun_eq_iff)

lemma get_booking_frame [simp]:
  "get_booking (s\<lparr>rooms := rs\<rparr>) = get_booking s"
  "get_booking (s\<lparr>line_items := ls\<rparr>) = get_booking s"
  "get_booking (s\<lparr>taxes := ts\<rparr>) = get_booking s"
  "get_booking (s\<lparr>discounts := ds\<rparr>) = get_booking s"
  "get_booking (s\<lparr>guests := gs\<rparr>) = get_booking s"
  by (simp_all add: get_booking_def fun_eq_iff)

lemma get_line_items_frame [simp]:
  "get_line_items (s\<lparr>rooms := rs\<rparr>) = get_line_items s"
  "get_line_items (s\<lparr>bookings := bs\<rparr>) = get_line_items s"
  "get_line_items (s\<lparr>taxes := ts\<rparr>) = get_line_items s"
  "get_line_items (s\<lparr>discounts := ds\<rparr>) = get_line_items s"
  "get_line_items (s\<lparr>guests := gs\<rparr>) = get_line_items s"
  by (simp_all add: get_line_items_def fun_eq_iff)

lemma vacate_room_ok:
  "get_room s rn = Inr r \<Longrightarrow> r_occupied r \<Longrightarrow>
   vacate_room s now rn =
     (Inr (vacated now r), s\<lparr>rooms := flush_rows r_number [vacated now r] (rooms s)\<rparr>)"
  by (simp add: vacate_room_def vacated_def Let_def)

lemma recalculate_frame:
  assumes "recalculate_booking_totals s now bid = Inr (b', s')"
  shows "rooms s' = rooms s" "guests s' = guests s" "line_items s' = line_items s"
  using assms
  by (auto simp: recalculate_booking_totals_def Let_def split: sum.splits prod.splits)

lemma recalculate_booking_fields:
  assumes "get_booking s bid = Inr b" "recalculate_booking_totals s now bid = Inr (b', s')"
  shows "b_checkout_at b' = b_checkout_at b" "b_checkin_at b' = b_checkin_at b"
    "b_price b' = b_price b" "b_guest_id b' = b_guest_id b" "b_room_number b' = b_room_number b"
  using assms
  by (auto simp: recalculate_booking_totals_def Let_def split: prod.splits)

lemma days_or_1:
  "checkin \<le> now \<Longrightarrow>
   py_or_int (timedelta_days (now - checkin)) 1 = max 1 (timedelta_days (now - checkin))"
proof -
  assume "checkin \<le> now"
  then have "0 \<le> (now - checkin) div 86400000000"
    by (simp add: pos_imp_zdiv_nonneg_iff)
  then show ?thesis by (auto simp: py_or_int_def timedelta_days_def)
qed

lemma find_flush_first:
  assumes "find P tbl = Some item" "P item'"
  shows "find P (flush_rows key [item'] tbl) = Some item' \<or>
         (key item' \<noteq> key item \<and> find P (flush_rows key [item'] tbl) = Some item)"
  using assms(1)
proof (induction tbl)
  case Nil
  then show ?case by simp
next
  case (Cons x xs)
  then show ?case using assms(2) by (auto simp: flush_rows_def split: if_splits)
qed

lemma checkout_booking_unfold:
  assumes gb: "get_booking s bid = Inr b" and act: "b_checkout_at b = None"
    and gr: "get_room s (b_room_number b) = Inr r" and occ: "r_occupied r"
  shows "checkout_booking s now bid =
    (case recalculate_booking_totals
       (s\<lparr>bookings := flush_rows b_id [b\<lparr>b_checkout_at := Some now, b_updated_at := Some now\<rparr>]
                        (bookings s),
           rooms := flush_rows r_number [vacated now r] (rooms s),
           line_items :=
             (case find (\<lambda>i. li_item_type i = ''room'') (get_line_items s bid) of
                None \<Rightarrow> line_items s
              | Some item \<Rightarrow>
                  flush_rows li_id
                    [room_charge (py_or_int (timedelta_days (now - b_checkin_at b)) 1) now item]
                    (line_items s))\<rparr>) now bid of
       Inl e \<Rightarrow> (Inl e, s\<lparr>bookings :=
                       flush_rows b_id [b\<lparr>b_checkout_at := Some now, b_updated_at := Some now\<rparr>]
                        (bookings s),
                     rooms := flush_rows r_number [vacated now r] (rooms s)\<rparr>)
     | Inr (b', s') \<Rightarrow> (Inr b', s'))"
  using gb act gr occ
  by (simp add: checkout_booking_def Let_def vacate_room_ok room_charge_def
      split: option.splits)

section \<open>Claims about checkout\<close>

lemma flush_rows_single:
  "flush_rows key [x] tbl = map (\<lambda>u. if key u = key x then x else u) tbl"
  by (auto simp: flush_rows_def)

lemma room_charge_id: "li_id (room_charge d now item) = li_id item"
  by (simp add: room_charge_def)

lemma checkout_stay:
  "map_sum id (\<lambda>b. (b_subtotal b, b_tax_total b, b_discount_total b, b_grand_total b))
      (fst (checkout_booking ex_db_stay three_days 1))
     = Inr (Some 3100, Some 558, Some 360, Some 3298)
   \<and> map li_amount (line_items (snd (checkout_booking ex_db_stay three_days 1)))
     = [3000, 100, 1500]
   \<and> map li_quantity (line_items (snd (checkout_booking ex_db_stay three_days 1)))
     = [3, 2, 1]
   \<and> map tax_amount (taxes (snd (checkout_booking ex_db_stay three_days 1))) = [558, 75]
   \<and> map disc_amount (discounts (snd (checkout_booking ex_db_stay three_days 1))) = [310, 50]
   \<and> map r_occupied (rooms (snd (checkout_booking ex_db_stay three_days 1))) = [False, True]"
  by (simp add: checkout_booking_def get_booking_def get_room_def vacate_room_def
      recalculate_booking_totals_def get_line_items_def get_taxes_def get_discounts_def
      flush_rows_def py_sum_def py_or_int_def timedelta_days_def Let_def
      ex_defs ex_defs4 ex_defs7 ex_defs8)

lemma checkout_three_days:
  "checkout_booking ex_db_booked three_days 1 = (Inr ex_booking_out, ex_db_out)"
  by (simp add: checkout_booking_def get_booking_def get_room_def vacate_room_def
      recalculate_booking_totals_def get_line_items_def get_taxes_def get_discounts_def
      flush_rows_def py_sum_def py_or_int_def timedelta_days_def Let_def vacated_def
      room_charge_def ex_defs ex_defs2 ex_defs4)

text \<open>
  Claim C4, as amended. \<open>checkout_booking\<close> fails with ConflictError, writing nothing, for a
  booking whose checkout time is set. For an active booking it first reads the room and
  vacates it: when the room does not exist it fails with NotFoundError, when the room is not
  occupied it fails with ConflictError, and in both cases nothing is written. For an active
  booking whose room is occupied and whose check-in time is not after now (primary keys
  being unique), the duration is the larger of 1 and the whole days between check-in and
  now; the room is vacated; the first "room" line item among the rows that carry the
  booking's id gets that duration as quantity and unit price times duration as amount; the
  checkout time is now; and the four totals are recalculated in full: every tax row and
  every percentage discount row of the booking is rewritten from the new subtotal, and
  subtotal, tax total and discount total are the sums over the booking's rows as they stand
  after the call, grand total being subtotal plus tax total minus discount total.
\<close>

theorem checkout_booking_contract:
  "(get_booking s bid = Inr b \<and> b_checkout_at b \<noteq> None \<longrightarrow>
      checkout_booking s now bid = (Inl ConflictError, s))
   \<and> (get_booking s bid = Inr b \<and> b_checkout_at b = None
        \<and> get_room s (b_room_number b) = Inl NotFoundError \<longrightarrow>
      checkout_booking s now bid = (Inl NotFoundError, s))
   \<and> (get_booking s bid = Inr b \<and> b_checkout_at b = None
        \<and> get_room s (b_room_number b) = Inr r \<and> \<not> r_occupied r \<longrightarrow>
      checkout_booking s now bid = (Inl ConflictError, s))
   \<and> (get_booking s bid = Inr b \<and> b_checkout_at b = None
        \<and> get_room s (b_room_number b) = Inr r \<and> r_occupied r \<and> b_checkin_at b \<le> now
        \<and> distinct (map tax_id (taxes s)) \<and> distinct (map disc_id (discounts s)) \<longrightarrow>
      (\<exists>b' s'. checkout_booking s now bid = (Inr b', s')
         \<and> find (\<lambda>x. b_id x = bid) (bookings s') = Some b'
         \<and> b_checkout_at b' = Some now
         \<and> find (\<lambda>x. r_number x = b_room_number b) (rooms s') = Some (vacated now r)
         \<and> line_items s' =
             (case find (\<lambda>i. li_item_type i = ''room'')
                     (filter (\<lambda>i. li_booking_id i = bid) (line_items s)) of
                None \<Rightarrow> line_items s
              | Some item \<Rightarrow>
                  map (\<lambda>i. if li_id i = li_id item
                            then room_charge (max 1 (timedelta_days (now - b_checkin_at b)))
                                   now item
                            else i) (line_items s))
         \<and> b_subtotal b' =
             Some (sum_list (map li_amount
                     (filter (\<lambda>i. li_booking_id i = bid) (line_items s'))))
         \<and> taxes s' =
             map (\<lambda>t. if tax_booking_id t = bid
                       then retax (sum_list (map li_amount
                               (filter (\<lambda>i. li_booking_id i = bid) (line_items s')))) t
                       else t) (taxes s)
         \<and> discounts s' =
             map (\<lambda>d. if disc_booking_id d = bid
                       then rediscount (sum_list (map li_amount
                               (filter (\<lambda>i. li_booking_id i = bid) (line_items s')))) d
                       else d) (discounts s)
         \<and> b_tax_total b' =
             Some (sum_list (map tax_amount
                     (filter (\<lambda>t. tax_booking_id t = bid) (taxes s'))))
         \<and> b_discount_total b' =
             Some (sum_list (map disc_amount
                     (filter (\<lambda>d. disc_booking_id d = bid) (discounts s'))))
         \<and> b_grand_total b' =
             Some (sum_list (map li_amount
                     (filter (\<lambda>i. li_booking_id i = bid) (line_items s')))
                   + sum_list (map tax_amount
                       (filter (\<lambda>t. tax_booking_id t = bid) (taxes s')))
                   - sum_list (map disc_amount
                       (filter (\<lambda>d. disc_booking_id d = bid) (discounts s'))))))"
proof (intro conjI impI)
  assume "get_booking s bid = Inr b \<and> b_checkout_at b \<noteq> None"
  then show "checkout_booking s now bid = (Inl ConflictError, s)"
    by (auto simp: checkout_booking_def)
next
  assume "get_booking s bid = Inr b \<and> b_checkout_at b = None
        \<and> get_room s (b_room_number b) = Inl NotFoundError"
  then show "checkout_booking s now bid = (Inl NotFoundError, s)"
    by (simp add: checkout_booking_def Let_def)
next
  assume "get_booking s bid = Inr b \<and> b_checkout_at b = None
        \<and> get_room s (b_room_number b) = Inr r \<and> \<not> r_occupied r"
  then show "checkout_booking s now bid = (Inl ConflictError, s)"
    by (simp add: checkout_booking_def Let_def vacate_room_def)
next
  assume a: "get_booking s bid = Inr b \<and> b_checkout_at b = None
        \<and> get_room s (b_room_number b) = Inr r \<and> r_occupied r \<and> b_checkin_at b \<le> now
        \<and> distinct (map tax_id (taxes s)) \<and> distinct (map disc_id (discounts s))"
  then have gb: "get_booking s bid = Inr b" and act: "b_checkout_at b = None"
    and gr: "get_room s (b_room_number b) = Inr r" and occ: "r_occupied r"
    and le: "b_checkin_at b \<le> now"
    and dt: "distinct (map tax_id (taxes s))" and dd: "distinct (map disc_id (discounts s))"
    by simp_all
  let ?b1 = "b\<lparr>b_checkout_at := Some now, b_updated_at := Some now\<rparr>"
  let ?items = "(case find (\<lambda>i. li_item_type i = ''room'') (get_line_items s bid) of
                None \<Rightarrow> line_items s
              | Some item \<Rightarrow>
                  flush_rows li_id
                    [room_charge (max 1 (timedelta_days (now - b_checkin_at b))) now item]
                    (line_items s))"
  let ?s2 = "s\<lparr>bookings := flush_rows b_id [?b1] (bookings s),
               rooms := flush_rows r_number [vacated now r] (rooms s),
               line_items := ?items\<rparr>"
  have gb2: "get_booking ?s2 bid = Inr ?b1"
    using get_booking_flush_same[OF gb, of ?b1 ?s2] get_booking_id[OF gb] by simp
  obtain b' s' where rc: "recalculate_booking_totals ?s2 now bid = Inr (b', s')"
    using recalculate_ok[OF gb2] by blast
  have co: "checkout_booking s now bid = (Inr b', s')"
    unfolding checkout_booking_unfold[OF gb act gr occ] days_or_1[OF le] rc by simp
  have rooms: "rooms s' = flush_rows r_number [vacated now r] (rooms s)"
    using recalculate_frame(1)[OF rc] by simp
  have "get_room s' (b_room_number b) = Inr (vacated now r)"
    using get_room_flush_same[OF gr _ rooms] get_room_number[OF gr] by (simp add: vacated_def)
  then have room: "find (\<lambda>x. r_number x = b_room_number b) (rooms s') = Some (vacated now r)"
    by (simp add: get_room_def split: option.splits)
  have items: "line_items s' =
             (case find (\<lambda>i. li_item_type i = ''room'')
                     (filter (\<lambda>i. li_booking_id i = bid) (line_items s)) of
                None \<Rightarrow> line_items s
              | Some item \<Rightarrow>
                  map (\<lambda>i. if li_id i = li_id item
                            then room_charge (max 1 (timedelta_days (now - b_checkin_at b)))
                                   now item
                            else i) (line_items s))"
    using recalculate_frame(3)[OF rc]
    by (simp add: get_line_items_def flush_rows_single room_charge_id split: option.splits)
  have out: "b_checkout_at b' = Some now"
    using recalculate_booking_fields(1)[OF gb2 rc] by simp
  have l2: "line_items ?s2 = line_items s'" using recalculate_frame(3)[OF rc] by simp
  note p = recalculate_pinned[OF rc]
  have tx: "taxes s' =
             map (\<lambda>t. if tax_booking_id t = bid
                       then retax (sum_list (map li_amount
                               (filter (\<lambda>i. li_booking_id i = bid) (line_items s')))) t
                       else t) (taxes s)"
    "b_tax_total b' =
             Some (sum_list (map tax_amount
                     (filter (\<lambda>t. tax_booking_id t = bid) (taxes s'))))"
    using p(5) dt unfolding l2 by simp_all
  have dx: "discounts s' =
             map (\<lambda>d. if disc_booking_id d = bid
                       then rediscount (sum_list (map li_amount
                               (filter (\<lambda>i. li_booking_id i = bid) (line_items s')))) d
                       else d) (discounts s)"
    "b_discount_total b' =
             Some (sum_list (map disc_amount
                     (filter (\<lambda>d. disc_booking_id d = bid) (discounts s'))))"
    using p(6) dd unfolding l2 by simp_all
  have gt: "b_grand_total b' =
             Some (sum_list (map li_amount
                     (filter (\<lambda>i. li_booking_id i = bid) (line_items s')))
                   + sum_list (map tax_amount
                       (filter (\<lambda>t. tax_booking_id t = bid) (taxes s')))
                   - sum_list (map disc_amount
                       (filter (\<lambda>d. disc_booking_id d = bid) (discounts s'))))"
    using p(4) tx(2) dx(2) by auto
  show "\<exists>b' s'. checkout_booking s now bid = (Inr b', s')
         \<and> find (\<lambda>x. b_id x = bid) (bookings s') = Some b'
         \<and> b_checkout_at b' = Some now
         \<and> find (\<lambda>x. r_number x = b_room_number b) (rooms s') = Some (vacated now r)
         \<and> line_items s' =
             (case find (\<lambda>i. li_item_type i = ''room'')
                     (filter (\<lambda>i. li_booking_id i = bid) (line_items s)) of
                None \<Rightarrow> line_items s
              | Some item \<Rightarrow>
                  map (\<lambda>i. if li_id i = li_id item
                            then room_charge (max 1 (timedelta_days (now - b_checkin_at b)))
                                   now item
                            else i) (line_items s))
         \<and> b_subtotal b' =
             Some (sum_list (map li_amount
                     (filter (\<lambda>i. li_booking_id i = bid) (line_items s'))))
         \<and> taxes s' =
             map (\<lambda>t. if tax_booking_id t = bid
                       then retax (sum_list (map li_amount
                               (filter (\<lambda>i. li_booking_id i = bid) (line_items s')))) t
                       else t) (taxes s)
         \<and> discounts s' =
             map (\<lambda>d. if disc_booking_id d = bid
                       then rediscount (sum_list (map li_amount
                               (filter (\<lambda>i. li_booking_id i = bid) (line_items s')))) d
                       else d) (discounts s)
         \<and> b_tax_total b' =
             Some (sum_list (map tax_amount
                     (filter (\<lambda>t. tax_booking_id t = bid) (taxes s'))))
         \<and> b_discount_total b' =
             Some (sum_list (map disc_amount
                     (filter (\<lambda>d. disc_booking_id d = bid) (discounts s'))))
         \<and> b_grand_total b' =
             Some (sum_list (map li_amount
                     (filter (\<lambda>i. li_booking_id i = bid) (line_items s')))
                   + sum_list (map tax_amount
                       (filter (\<lambda>t. tax_booking_id t = bid) (taxes s')))
                   - sum_list (map disc_amount
                       (filter (\<lambda>d. disc_booking_id d = bid) (discounts s'))))"
    using co p(1) out room items p(3) tx dx gt
    by (intro exI[of _ b'] exI[of _ s'] conjI) assumption+
qed

theorem checkout_booking_contract_witness:
  "(get_booking ex_db_out 1 = Inr ex_booking_out \<and> b_checkout_at ex_booking_out \<noteq> None
     \<and> checkout_booking ex_db_out (three_days + 1) 1 = (Inl ConflictError, ex_db_out))
   \<and> (get_booking (ex_db_booked\<lparr>rooms := []\<rparr>) 1 = Inr ex_booking
     \<and> b_checkout_at ex_booking = None
     \<and> get_room (ex_db_booked\<lparr>rooms := []\<rparr>) (b_room_number ex_booking) = Inl NotFoundError
     \<and> checkout_booking (ex_db_booked\<lparr>rooms := []\<rparr>) three_days 1 =
          (Inl NotFoundError, ex_db_booked\<lparr>rooms := []\<rparr>))
   \<and> (get_booking ex_db_released 1 = Inr ex_booking
     \<and> get_room ex_db_released (b_room_number ex_booking) = Inr (vacated 1 ex_room_busy)
     \<and> \<not> r_occupied (vacated 1 ex_room_busy)
     \<and> checkout_booking ex_db_released three_days 1 = (Inl ConflictError, ex_db_released))
   \<and> (get_booking ex_db_booked 1 = Inr ex_booking
     \<and> get_room ex_db_booked (b_room_number ex_booking) = Inr ex_room_busy
     \<and> r_occupied ex_room_busy \<and> b_checkin_at ex_booking \<le> three_days
     \<and> distinct (map tax_id (taxes ex_db_booked))
     \<and> distinct (map disc_id (discounts ex_db_booked))
     \<and> timedelta_days (three_days - b_checkin_at ex_booking) = 3
     \<and> r_rate_per_night ex_room_busy = 1000
     \<and> (\<exists>b' s'. checkout_booking ex_db_booked three_days 1 = (Inr b', s')
         \<and> find (\<lambda>x. b_id x = 1) (bookings s') = Some b'
         \<and> b_checkout_at b' = Some three_days
         \<and> find (\<lambda>x. r_number x = 101) (rooms s') = Some (vacated three_days ex_room_busy)
         \<and> line_items s' = [room_charge 3 three_days ex_room_item]
         \<and> li_quantity (room_charge 3 three_days ex_room_item) = 3
         \<and> li_amount (room_charge 3 three_days ex_room_item) = 3000
         \<and> b_subtotal b' = Some 3000
         \<and> b_tax_total b' = Some 0 \<and> b_discount_total b' = Some 0
         \<and> b_grand_total b' = Some 3000))
   \<and> (get_booking ex_db_stay 1 = Inr ex_booking
     \<and> get_room ex_db_stay (b_room_number ex_booking) = Inr ex_room_busy
     \<and> distinct (map tax_id (taxes ex_db_stay))
     \<and> distinct (map disc_id (discounts ex_db_stay))
     \<and> map li_booking_id (line_items ex_db_stay) = [1, 1, 2]
     \<and> map tax_booking_id (taxes ex_db_stay) = [1, 2]
     \<and> map tax_rate (taxes ex_db_stay) = [18, 5]
     \<and> map disc_percentage (discounts ex_db_stay) = [Some 10, None]
     \<and> (\<exists>b' s'. checkout_booking ex_db_stay three_days 1 = (Inr b', s')
         \<and> find (\<lambda>x. b_id x = 1) (bookings s') = Some b'
         \<and> b_checkout_at b' = Some three_days
         \<and> find (\<lambda>x. r_number x = 101) (rooms s') = Some (vacated three_days ex_room_busy)
         \<and> map li_quantity (line_items s') = [3, 2, 1]
         \<and> map li_amount (line_items s') = [3000, 100, 1500]
         \<and> map tax_amount (taxes s') = [558, 75]
         \<and> map disc_amount (discounts s') = [310, 50]
         \<and> b_subtotal b' = Some 3100
         \<and> b_tax_total b' = Some 558 \<and> b_discount_total b' = Some 360
         \<and> b_grand_total b' = Some 3298))"
proof -
  have h1: "get_booking ex_db_out 1 = Inr ex_booking_out \<and> b_checkout_at ex_booking_out \<noteq> None"
    by (simp add: get_booking_def ex_defs ex_defs4)
  have h2: "get_booking (ex_db_booked\<lparr>rooms := []\<rparr>) 1 = Inr ex_booking
     \<and> b_checkout_at ex_booking = None
     \<and> get_room (ex_db_booked\<lparr>rooms := []\<rparr>) (b_room_number ex_booking) = Inl NotFoundError"
    by (simp add: get_booking_def get_room_def ex_defs ex_defs2)
  have h3: "get_booking ex_db_released 1 = Inr ex_booking
     \<and> b_checkout_at ex_booking = None
     \<and> get_room ex_db_released (b_room_number ex_booking) = Inr (vacated 1 ex_room_busy)
     \<and> \<not> r_occupied (vacated 1 ex_room_busy)"
    by (simp add: get_booking_def get_room_def vacated_def ex_defs ex_defs2 ex_defs4)
  have h4: "get_booking ex_db_booked 1 = Inr ex_booking
     \<and> b_checkout_at ex_booking = None
     \<and> get_room ex_db_booked (b_room_number ex_booking) = Inr ex_room_busy
     \<and> r_occupied ex_room_busy \<and> b_checkin_at ex_booking \<le> three_days
     \<and> distinct (map tax_id (taxes ex_db_booked))
     \<and> distinct (map disc_id (discounts ex_db_booked))"
    by (simp add: get_booking_def get_room_def ex_defs ex_defs2 ex_defs4)
  have h5: "get_booking ex_db_stay 1 = Inr ex_booking
     \<and> b_checkout_at ex_booking = None
     \<and> get_room ex_db_stay (b_room_number ex_booking) = Inr ex_room_busy
     \<and> r_occupied ex_room_busy \<and> b_checkin_at ex_booking \<le> three_days
     \<and> distinct (map tax_id (taxes ex_db_stay))
     \<and> distinct (map disc_id (discounts ex_db_stay))"
    by (simp add: get_booking_def get_room_def ex_defs ex_defs4 ex_defs7 ex_defs8)
  have c1: "checkout_booking ex_db_out (three_days + 1) 1 = (Inl ConflictError, ex_db_out)"
    using checkout_booking_contract[where s = ex_db_out and bid = 1 and b = ex_booking_out
        and now = "three_days + 1"] h1 by blast
  have c2: "checkout_booking (ex_db_booked\<lparr>rooms := []\<rparr>) three_days 1 =
          (Inl NotFoundError, ex_db_booked\<lparr>rooms := []\<rparr>)"
    using checkout_booking_contract[where s = "ex_db_booked\<lparr>rooms := []\<rparr>" and bid = 1
        and b = ex_booking and now = three_days] h2 by blast
  have c3: "checkout_booking ex_db_released three_days 1 = (Inl ConflictError, ex_db_released)"
    using checkout_booking_contract[where s = ex_db_released and bid = 1 and b = ex_booking
        and r = "vacated 1 ex_room_busy" and now = three_days] h3 by blast
  obtain b' s' where c4: "checkout_booking ex_db_booked three_days 1 = (Inr b', s')"
      "find (\<lambda>x. b_id x = 1) (bookings s') = Some b'" "b_checkout_at b' = Some three_days"
      "find (\<lambda>x. r_number x = b_room_number ex_booking) (rooms s')
         = Some (vacated three_days ex_room_busy)"
    using checkout_booking_contract[where s = ex_db_booked and bid = 1 and b = ex_booking
        and r = ex_room_busy and now = three_days] h4 by blast
  have e: "b' = ex_booking_out" "s' = ex_db_out"
    using c4(1) checkout_three_days by simp_all
  obtain b5 s5 where c5: "checkout_booking ex_db_stay three_days 1 = (Inr b5, s5)"
      "find (\<lambda>x. b_id x = 1) (bookings s5) = Some b5" "b_checkout_at b5 = Some three_days"
      "find (\<lambda>x. r_number x = b_room_number ex_booking) (rooms s5)
         = Some (vacated three_days ex_room_busy)"
    using checkout_booking_contract[where s = ex_db_stay and bid = 1 and b = ex_booking
        and r = ex_room_busy and now = three_days] h5 by blast
  have e5: "b_subtotal b5 = Some 3100" "b_tax_total b5 = Some 558"
    "b_discount_total b5 = Some 360" "b_grand_total b5 = Some 3298"
    "map li_quantity (line_items s5) = [3, 2, 1]"
    "map li_amount (line_items s5) = [3000, 100, 1500]"
    "map tax_amount (taxes s5) = [558, 75]" "map disc_amount (discounts s5) = [310, 50]"
    using checkout_stay unfolding c5(1) by simp_all
  have v: "line_items ex_db_out = [room_charge 3 three_days ex_room_item]"
    "li_quantity (room_charge 3 three_days ex_room_item) = 3"
    "li_amount (room_charge 3 three_days ex_room_item) = 3000"
    "b_subtotal ex_booking_out = Some 3000" "b_tax_total ex_booking_out = Some 0"
    "b_discount_total ex_booking_out = Some 0" "b_grand_total ex_booking_out = Some 3000"
    "b_room_number ex_booking = 101"
    "timedelta_days (three_days - b_checkin_at ex_booking) = 3"
    "r_rate_per_night ex_room_busy = 1000"
    "map li_booking_id (line_items ex_db_stay) = [1, 1, 2]"
    "map tax_booking_id (taxes ex_db_stay) = [1, 2]"
    "map tax_rate (taxes ex_db_stay) = [18, 5]"
    "map disc_percentage (discounts ex_db_stay) = [Some 10, None]"
    by (simp_all add: room_charge_def timedelta_days_def ex_defs ex_defs4 ex_defs7 ex_defs8)
  have p4: "\<exists>b' s'. checkout_booking ex_db_booked three_days 1 = (Inr b', s')
         \<and> find (\<lambda>x. b_id x = 1) (bookings s') = Some b'
         \<and> b_checkout_at b' = Some three_days
         \<and> find (\<lambda>x. r_number x = 101) (rooms s') = Some (vacated three_days ex_room_busy)
         \<and> line_items s' = [room_charge 3 three_days ex_room_item]
         \<and> li_quantity (room_charge 3 three_days ex_room_item) = 3
         \<and> li_amount (room_charge 3 three_days ex_room_item) = 3000
         \<and> b_subtotal b' = Some 3000
         \<and> b_tax_total b' = Some 0 \<and> b_discount_total b' = Some 0
         \<and> b_grand_total b' = Some 3000"
    using c4 v unfolding e by simp
  have p5: "\<exists>b' s'. checkout_booking ex_db_stay three_days 1 = (Inr b', s')
         \<and> find (\<lambda>x. b_id x = 1) (bookings s') = Some b'
         \<and> b_checkout_at b' = Some three_days
         \<and> find (\<lambda>x. r_number x = 101) (rooms s') = Some (vacated three_days ex_room_busy)
         \<and> map li_quantity (line_items s') = [3, 2, 1]
         \<and> map li_amount (line_items s') = [3000, 100, 1500]
         \<and> map tax_amount (taxes s') = [558, 75]
         \<and> map disc_amount (discounts s') = [310, 50]
         \<and> b_subtotal b' = Some 3100
         \<and> b_tax_total b' = Some 558 \<and> b_discount_total b' = Some 360
         \<and> b_grand_total b' = Some 3298"
    using c5 e5 v(8) by (intro exI[of _ b5] exI[of _ s5]) simp
  show ?thesis
    using h1 h2 h3 h4 h5 c1 c2 c3 p4 p5 v by simp
qed

theorem checkout_vacant_room_counterexample:
  "update_room ex_db_booked 1 101 ex_release = (Inr (vacated 1 ex_room_busy), ex_db_released)
   \<and> get_booking ex_db_released 1 = Inr ex_booking
   \<and> b_checkout_at ex_booking = None
   \<and> b_checkin_at ex_booking \<le> three_days
   \<and> checkout_booking ex_db_released three_days 1 = (Inl ConflictError, ex_db_released)"
  by (simp add: update_room_def checkout_booking_def get_booking_def get_room_def
      vacate_room_def flush_rows_def vacated_def Let_def ex_defs ex_defs2 ex_defs4)

section \<open>Claims about the sign of the totals\<close>

lemma sum_list_map_nonneg:
  "(\<And>x. x \<in> set xs \<Longrightarrow> 0 \<le> f x) \<Longrightarrow> 0 \<le> sum_list (map f xs :: money list)"
  by (induction xs) simp_all

text \<open>
  Claim C5, as amended. After a recalculation the subtotal, the tax total and the discount
  total are not negative, provided that the booking's line-item amounts, its tax rates, its
  discount percentages and the amounts of its discounts without a percentage are not
  negative. The grand total is subtotal plus tax total minus discount total, with no floor:
  it is not negative exactly when the discount total does not exceed subtotal plus tax
  total.
\<close>

theorem recalculate_totals_sign:
  assumes "get_booking s bid = Inr b"
    and "\<forall>i \<in> set (get_line_items s bid). 0 \<le> li_amount i"
    and "\<forall>t \<in> set (get_taxes s bid). 0 \<le> tax_rate t"
    and "\<forall>d \<in> set (get_discounts s bid).
           (case disc_percentage d of Some p \<Rightarrow> 0 \<le> p | None \<Rightarrow> 0 \<le> disc_amount d)"
  shows "\<exists>b' s' st tt dt. recalculate_booking_totals s now bid = Inr (b', s')
           \<and> b_subtotal b' = Some st \<and> 0 \<le> st
           \<and> b_tax_total b' = Some tt \<and> 0 \<le> tt
           \<and> b_discount_total b' = Some dt \<and> 0 \<le> dt
           \<and> b_grand_total b' = Some (st + tt - dt)
           \<and> (0 \<le> st + tt - dt) = (dt \<le> st + tt)"
proof -
  let ?st = "sum_list (map li_amount (get_line_items s bid))"
  let ?tt = "sum_list (map tax_amount (map (retax ?st) (get_taxes s bid)))"
  let ?dt = "sum_list (map disc_amount (map (rediscount ?st) (get_discounts s bid)))"
  have st: "0 \<le> ?st"
    using assms(2) by (intro sum_list_map_nonneg) simp
  have tt: "0 \<le> ?tt"
    unfolding map_map
    using assms(3) st by (intro sum_list_map_nonneg) (simp add: retax_def)
  have dt: "0 \<le> ?dt"
    unfolding map_map
    using assms(4) st
    by (intro sum_list_map_nonneg) (auto simp: rediscount_def split: option.splits)
  show ?thesis
    unfolding recalculate_eq[OF assms(1)] Let_def
    using st tt dt by auto
qed

theorem recalculate_totals_sign_witness:
  "get_booking ex_db_invoice 1 = Inr ex_booking
   \<and> list_all (\<lambda>i. 0 \<le> li_amount i) (get_line_items ex_db_invoice 1)
   \<and> list_all (\<lambda>t. 0 \<le> tax_rate t) (get_taxes ex_db_invoice 1)
   \<and> list_all (\<lambda>d. case disc_percentage d of Some p \<Rightarrow> 0 \<le> p | None \<Rightarrow> 0 \<le> disc_amount d)
        (get_discounts ex_db_invoice 1)
   \<and> (\<exists>b' s' st tt dt. recalculate_booking_totals ex_db_invoice 5 1 = Inr (b', s')
           \<and> b_subtotal b' = Some st \<and> 0 \<le> st
           \<and> b_tax_total b' = Some tt \<and> 0 \<le> tt
           \<and> b_discount_total b' = Some dt \<and> 0 \<le> dt
           \<and> b_grand_total b' = Some (st + tt - dt)
           \<and> (0 \<le> st + tt - dt) = (dt \<le> st + tt))"
proof -
  have h: "get_booking ex_db_invoice 1 = Inr ex_booking"
    by (simp add: get_booking_def ex_defs)
  have a: "list_all (\<lambda>i. 0 \<le> li_amount i) (get_line_items ex_db_invoice 1)"
    and b: "list_all (\<lambda>t. 0 \<le> tax_rate t) (get_taxes ex_db_invoice 1)"
    and c: "list_all (\<lambda>d. case disc_percentage d of Some p \<Rightarrow> 0 \<le> p
                | None \<Rightarrow> 0 \<le> disc_amount d) (get_discounts ex_db_invoice 1)"
    by (simp_all add: get_line_items_def get_taxes_def get_discounts_def ex_defs)
  show ?thesis
    using h a b c
      recalculate_totals_sign[OF h a[unfolded list_all_iff] b[unfolded list_all_iff]
        c[unfolded list_all_iff], of 5]
    by blast
qed

theorem negative_totals_counterexample:
  "map_sum id b_grand_total
     (get_booking
        (snd (add_discount (snd (create_booking ex_db_vacant 5 ex_request)) 6 1
                ''Goodwill'' (Some 2000) None)) 1) = Inr (Some (- 1000))
   \<and> map_sum id b_subtotal
     (get_booking
        (snd (add_line_item (snd (create_booking ex_db_vacant 5 ex_request)) 6 1
                ''Refund'' 1 (- 1500) ''service'')) 1) = Inr (Some (- 500))"
  by (simp add: create_booking_def add_discount_def add_line_item_def
      recalculate_booking_totals_def get_guest_def get_room_def get_booking_def
      get_line_items_def get_taxes_def get_discounts_def flush_rows_def fresh_id_def
      py_or_def py_sum_def truthy_def Let_def ex_defs2 ex_defs3)

section \<open>Claims about the room invariant\<close>

lemma rooms_ok_flush:
  "list_all room_ok tbl \<Longrightarrow> room_ok r' \<Longrightarrow> list_all room_ok (flush_rows r_number [r'] tbl)"
  by (induction tbl) (auto simp: flush_rows_def)

lemma rooms_ok_filter: "list_all room_ok tbl \<Longrightarrow> list_all room_ok (filter P tbl)"
  by (induction tbl) auto

lemma get_room_ok: "list_all room_ok (rooms s) \<Longrightarrow> get_room s rn = Inr r \<Longrightarrow> room_ok r"
  by (auto simp: get_room_def list_all_iff find_Some_iff split: option.splits)

lemma room_ok_vacated: "room_ok (vacated now r)"
  by (simp add: room_ok_def vacated_def)

lemma create_room_rooms_ok:
  "rooms_ok s \<Longrightarrow> rooms_ok (snd (create_room s now room_data))"
  by (auto simp: rooms_ok_def create_room_def room_ok_def Let_def split: option.splits)

lemma occupy_room_rooms_ok:
  "rooms_ok s \<Longrightarrow> rooms_ok (snd (occupy_room s now rn gid))"
  by (auto simp: rooms_ok_def occupy_room_def Let_def room_ok_def split: sum.splits
      intro!: rooms_ok_flush)

lemma vacate_room_rooms_ok:
  "rooms_ok s \<Longrightarrow> rooms_ok (snd (vacate_room s now rn))"
  by (auto simp: rooms_ok_def vacate_room_def Let_def room_ok_def split: sum.splits
      intro!: rooms_ok_flush)

lemma delete_room_rooms_ok:
  "rooms_ok s \<Longrightarrow> rooms_ok (snd (delete_room s rn))"
  by (auto simp: rooms_ok_def delete_room_def delete_row_def split: sum.splits
      intro!: rooms_ok_filter)

lemma create_booking_rooms_ok:
  "rooms_ok s \<Longrightarrow> rooms_ok (snd (create_booking s now d))"
  by (auto simp: rooms_ok_def create_booking_def Let_def room_ok_def split: sum.splits
      intro!: rooms_ok_flush)

lemma rooms_ok_cong: "rooms s' = rooms s \<Longrightarrow> rooms_ok s' = rooms_ok s"
  by (simp add: rooms_ok_def)

lemma vacate_room_cases:
  "vacate_room s now rn = (Inl e, s') \<Longrightarrow> s' = s"
  "vacate_room s now rn = (Inr r', s') \<Longrightarrow>
     \<exists>r. s' = s\<lparr>rooms := flush_rows r_number [vacated now r] (rooms s)\<rparr>"
  by (auto simp: vacate_room_def Let_def vacated_def split: sum.splits if_splits)

lemma checkout_booking_rooms_ok:
  assumes "rooms_ok s"
  shows "rooms_ok (snd (checkout_booking s now bid))"
proof (cases "checkout_booking s now bid")
  case (Pair res s')
  have "rooms s' = rooms s \<or> (\<exists>r. rooms s' = flush_rows r_number [vacated now r] (rooms s))"
    using Pair
    by (auto simp: checkout_booking_def Let_def
        split: sum.splits if_splits prod.splits option.splits
        dest!: vacate_room_cases(2) recalculate_frame(1))
  then show ?thesis
    using assms Pair by (auto simp: rooms_ok_def room_ok_vacated intro!: rooms_ok_flush)
qed

lemma delete_booking_rooms_ok:
  assumes "rooms_ok s"
  shows "rooms_ok (snd (delete_booking s now bid))"
proof (cases "delete_booking s now bid")
  case (Pair res s')
  have "rooms s' = rooms s \<or> (\<exists>r. rooms s' = flush_rows r_number [vacated now r] (rooms s))"
    using Pair
    by (auto simp: delete_booking_def delete_all_invoice_items_def Let_def
        split: sum.splits if_splits prod.splits
        dest!: vacate_room_cases(2))
  then show ?thesis
    using assms Pair by (auto simp: rooms_ok_def room_ok_vacated intro!: rooms_ok_flush)
qed

lemma rooms_ok_flush_iff:
  assumes "list_all room_ok tbl" "find (\<lambda>x. r_number x = r_number r') tbl = Some r"
  shows "list_all room_ok (flush_rows r_number [r'] tbl) = room_ok r'"
proof
  assume a: "list_all room_ok (flush_rows r_number [r'] tbl)"
  have m: "r \<in> set tbl" and k: "r_number r = r_number r'"
    using assms(2) by (auto simp: find_Some_iff)
  have "r' \<in> (\<lambda>u. if r_number u = r_number r' then r' else u) ` set tbl"
    by (rule image_eqI[where x = r]) (simp_all add: k m)
  then have "r' \<in> set (flush_rows r_number [r'] tbl)"
    by (simp add: flush_rows_single)
  then show "room_ok r'" using a by (simp add: list_all_iff)
next
  assume "room_ok r'"
  then show "list_all room_ok (flush_rows r_number [r'] tbl)"
    using assms(1) by (rule rooms_ok_flush[rotated])
qed

lemma update_room_written:
  assumes gr: "get_room s rn = Inr r"
    and nn: "ru_room_type u \<noteq> Some None" "ru_occupied u \<noteq> Some None"
      "ru_rate_per_night u \<noteq> Some None"
  shows "\<exists>r'. update_room s now rn u =
                 (Inr r', s\<lparr>rooms := flush_rows r_number [r'] (rooms s)\<rparr>)
          \<and> r_number r' = r_number r
          \<and> r_occupied r' = (case ru_occupied u of Some (Some v) \<Rightarrow> v | _ \<Rightarrow> r_occupied r)
          \<and> r_current_guest_id r' =
              (case ru_current_guest_id u of Some v \<Rightarrow> v | None \<Rightarrow> r_current_guest_id r)"
proof -
  have t: "ru_room_type u = None \<or> (\<exists>v. ru_room_type u = Some (Some v))"
    using nn(1) by (cases "ru_room_type u") auto
  have o: "ru_occupied u = None \<or> (\<exists>v. ru_occupied u = Some (Some v))"
    using nn(2) by (cases "ru_occupied u") auto
  have p: "ru_rate_per_night u = None \<or> (\<exists>v. ru_rate_per_night u = Some (Some v))"
    using nn(3) by (cases "ru_rate_per_night u") auto
  have g: "ru_current_guest_id u = None \<or> (\<exists>v. ru_current_guest_id u = Some v)"
    by (cases "ru_current_guest_id u") auto
  from t o p g show ?thesis
    by (elim disjE exE) (simp_all add: update_room_def Let_def gr)
qed

lemma update_room_rooms_ok_iff:
  assumes ok: "rooms_ok s" and gr: "get_room s rn = Inr r"
    and nn: "ru_room_type u \<noteq> Some None" "ru_occupied u \<noteq> Some None"
      "ru_rate_per_night u \<noteq> Some None"
  shows "rooms_ok (snd (update_room s now rn u)) =
           ((case ru_occupied u of Some (Some v) \<Rightarrow> v | _ \<Rightarrow> r_occupied r)
            \<or> (case ru_current_guest_id u of Some v \<Rightarrow> v | None \<Rightarrow> r_current_guest_id r)
                = None)"
proof -
  obtain r' where u: "update_room s now rn u =
                 (Inr r', s\<lparr>rooms := flush_rows r_number [r'] (rooms s)\<rparr>)"
    and n: "r_number r' = r_number r"
    and o: "r_occupied r' = (case ru_occupied u of Some (Some v) \<Rightarrow> v | _ \<Rightarrow> r_occupied r)"
    and g: "r_current_guest_id r' =
              (case ru_current_guest_id u of Some v \<Rightarrow> v | None \<Rightarrow> r_current_guest_id r)"
    using update_room_written[OF gr nn, of now] by blast
  have f: "find (\<lambda>x. r_number x = r_number r') (rooms s) = Some r"
    using gr n get_room_number[OF gr] by (simp add: get_room_def split: option.splits)
  have l: "list_all room_ok (rooms s)" using ok by (simp add: rooms_ok_def)
  have "rooms_ok (snd (update_room s now rn u)) = room_ok r'"
    unfolding u using rooms_ok_flush_iff[OF l f] by (simp add: rooms_ok_def)
  also have "room_ok r' = (r_occupied r' \<or> r_current_guest_id r' = None)"
    by (auto simp: room_ok_def)
  finally show ?thesis unfolding o g .
qed

lemma update_room_fails:
  assumes "get_room s rn = Inl NotFoundError \<or> ru_room_type u = Some None
           \<or> ru_occupied u = Some None \<or> ru_rate_per_night u = Some None"
  shows "snd (update_room s now rn u) = s"
proof (cases "get_room s rn")
  case (Inl e)
  then show ?thesis by (simp add: update_room_def)
next
  case (Inr r)
  then have "ru_room_type u = Some None \<or> ru_occupied u = Some None
             \<or> ru_rate_per_night u = Some None"
    using assms by simp
  then show ?thesis using Inr by (simp add: update_room_def)
qed

text \<open>
  Claim C6, as amended. The invariant that a room which is not occupied has no current guest
  is preserved by \<open>create_room\<close>, \<open>occupy_room\<close>, \<open>vacate_room\<close>, \<open>create_booking\<close>,
  \<open>checkout_booking\<close>, \<open>delete_booking\<close> and \<open>delete_room\<close>, whatever their arguments and
  whether they succeed or fail. \<open>update_room\<close> writes nothing when the room does not exist
  or the request sets a non-nullable column to null; otherwise the row it writes has, for
  \<open>occupied\<close> and for \<open>current_guest_id\<close>, the value of the request where the request sets
  the field and the stored value where it does not, and the invariant holds afterwards
  exactly when that row is occupied or has no current guest.
\<close>

theorem room_invariant_preserved:
  assumes "rooms_ok s"
  shows "rooms_ok (snd (create_room s now room_data))
       \<and> rooms_ok (snd (occupy_room s now rn gid))
       \<and> rooms_ok (snd (vacate_room s now rn))
       \<and> rooms_ok (snd (create_booking s now d))
       \<and> rooms_ok (snd (checkout_booking s now bid))
       \<and> rooms_ok (snd (delete_booking s now bid))
       \<and> rooms_ok (snd (delete_room s rn))
       \<and> (get_room s rn = Inl NotFoundError \<or> ru_room_type u = Some None
            \<or> ru_occupied u = Some None \<or> ru_rate_per_night u = Some None \<longrightarrow>
            snd (update_room s now rn u) = s)
       \<and> (get_room s rn = Inr r \<and> ru_room_type u \<noteq> Some None
            \<and> ru_occupied u \<noteq> Some None \<and> ru_rate_per_night u \<noteq> Some None \<longrightarrow>
            rooms_ok (snd (update_room s now rn u)) =
              ((case ru_occupied u of Some (Some v) \<Rightarrow> v | _ \<Rightarrow> r_occupied r)
               \<or> (case ru_current_guest_id u of
                     Some v \<Rightarrow> v | None \<Rightarrow> r_current_guest_id r) = None))"
proof (intro conjI impI)
  show "rooms_ok (snd (create_room s now room_data))"
    by (rule create_room_rooms_ok[OF assms])
  show "rooms_ok (snd (occupy_room s now rn gid))"
    by (rule occupy_room_rooms_ok[OF assms])
  show "rooms_ok (snd (vacate_room s now rn))"
    by (rule vacate_room_rooms_ok[OF assms])
  show "rooms_ok (snd (create_booking s now d))"
    by (rule create_booking_rooms_ok[OF assms])
  show "rooms_ok (snd (checkout_booking s now bid))"
    by (rule checkout_booking_rooms_ok[OF assms])
  show "rooms_ok (snd (delete_booking s now bid))"
    by (rule delete_booking_rooms_ok[OF assms])
  show "rooms_ok (snd (delete_room s rn))"
    by (rule delete_room_rooms_ok[OF assms])
next
  assume "get_room s rn = Inl NotFoundError \<or> ru_room_type u = Some None
            \<or> ru_occupied u = Some None \<or> ru_rate_per_night u = Some None"
  then show "snd (update_room s now rn u) = s"
    by (rule update_room_fails)
next
  assume a: "get_room s rn = Inr r \<and> ru_room_type u \<noteq> Some None
            \<and> ru_occupied u \<noteq> Some None \<and> ru_rate_per_night u \<noteq> Some None"
  show "rooms_ok (snd (update_room s now rn u)) =
              ((case ru_occupied u of Some (Some v) \<Rightarrow> v | _ \<Rightarrow> r_occupied r)
               \<or> (case ru_current_guest_id u of
                     Some v \<Rightarrow> v | None \<Rightarrow> r_current_guest_id r) = None)"
    using a by (intro update_room_rooms_ok_iff[OF assms]) simp_all
qed

theorem room_invariant_preserved_witness:
  "rooms_ok ex_db_booked
   \<and> rooms_ok (snd (create_room ex_db_booked 7 ex_new_room))
   \<and> rooms_ok (snd (occupy_room ex_db_booked 7 101 1))
   \<and> rooms_ok (snd (vacate_room ex_db_booked 7 101))
   \<and> rooms_ok (snd (create_booking ex_db_booked 7 ex_request))
   \<and> rooms_ok (snd (checkout_booking ex_db_booked 7 1))
   \<and> rooms_ok (snd (delete_booking ex_db_booked 7 1))
   \<and> rooms_ok (snd (delete_room ex_db_booked 101))
   \<and> map r_occupied (rooms (snd (vacate_room ex_db_booked 7 101))) = [False]
   \<and> map r_current_guest_id (rooms (snd (vacate_room ex_db_booked 7 101))) = [None]
   \<and> get_room ex_db_booked 999 = Inl NotFoundError
   \<and> snd (update_room ex_db_booked 7 999 ex_release) = ex_db_booked
   \<and> get_room ex_db_booked 101 = Inr ex_room_busy
   \<and> r_occupied ex_room_busy \<and> r_current_guest_id ex_room_busy = Some 1
   \<and> ru_occupied ex_rate_change = None \<and> ru_current_guest_id ex_rate_change = None
   \<and> rooms_ok (snd (update_room ex_db_booked 7 101 ex_rate_change))
   \<and> ru_occupied ex_release = Some (Some False) \<and> ru_current_guest_id ex_release = Some None
   \<and> rooms_ok (snd (update_room ex_db_booked 7 101 ex_release))
   \<and> ru_occupied ex_mark_vacant = Some (Some False)
   \<and> ru_current_guest_id ex_mark_vacant = None
   \<and> \<not> rooms_ok (snd (update_room ex_db_booked 7 101 ex_mark_vacant))"
proof -
  have h: "rooms_ok ex_db_booked"
    by (simp add: rooms_ok_def room_ok_def ex_defs ex_defs2)
  have v: "map r_occupied (rooms (snd (vacate_room ex_db_booked 7 101))) = [False]
     \<and> map r_current_guest_id (rooms (snd (vacate_room ex_db_booked 7 101))) = [None]"
    by (simp add: vacate_room_def get_room_def flush_rows_def Let_def ex_defs ex_defs2)
  have g0: "get_room ex_db_booked 999 = Inl NotFoundError"
    and g1: "get_room ex_db_booked 101 = Inr ex_room_busy"
    and r: "r_occupied ex_room_busy" "r_current_guest_id ex_room_busy = Some 1"
    by (simp_all add: get_room_def ex_defs ex_defs2)
  have u1: "ru_room_type ex_rate_change \<noteq> Some None \<and> ru_occupied ex_rate_change = None
      \<and> ru_current_guest_id ex_rate_change = None
      \<and> ru_rate_per_night ex_rate_change \<noteq> Some None"
    and u2: "ru_room_type ex_release \<noteq> Some None \<and> ru_occupied ex_release = Some (Some False)
      \<and> ru_current_guest_id ex_release = Some None
      \<and> ru_rate_per_night ex_release \<noteq> Some None"
    and u3: "ru_room_type ex_mark_vacant \<noteq> Some None
      \<and> ru_occupied ex_mark_vacant = Some (Some False)
      \<and> ru_current_guest_id ex_mark_vacant = None
      \<and> ru_rate_per_night ex_mark_vacant \<noteq> Some None"
    by (simp_all add: ex_defs4 ex_defs5)
  note t = room_invariant_preserved[OF h, where now = 7 and room_data = ex_new_room
      and gid = 1 and d = ex_request and bid = 1]
  have a: "rooms_ok (snd (create_room ex_db_booked 7 ex_new_room))
   \<and> rooms_ok (snd (occupy_room ex_db_booked 7 101 1))
   \<and> rooms_ok (snd (vacate_room ex_db_booked 7 101))
   \<and> rooms_ok (snd (create_booking ex_db_booked 7 ex_request))
   \<and> rooms_ok (snd (checkout_booking ex_db_booked 7 1))
   \<and> rooms_ok (snd (delete_booking ex_db_booked 7 1))
   \<and> rooms_ok (snd (delete_room ex_db_booked 101))"
    using t[where rn = 101] by blast
  have b: "snd (update_room ex_db_booked 7 999 ex_release) = ex_db_booked"
    using t[where rn = 999 and u = ex_release] g0 by blast
  have c1: "rooms_ok (snd (update_room ex_db_booked 7 101 ex_rate_change))"
    using t[where rn = 101 and u = ex_rate_change and r = ex_room_busy] g1 u1 r by simp
  have c2: "rooms_ok (snd (update_room ex_db_booked 7 101 ex_release))"
    using t[where rn = 101 and u = ex_release and r = ex_room_busy] g1 u2 r by simp
  have c3: "\<not> rooms_ok (snd (update_room ex_db_booked 7 101 ex_mark_vacant))"
    using t[where rn = 101 and u = ex_mark_vacant and r = ex_room_busy] g1 u3 r by simp
  show ?thesis
    using h v g0 g1 r u1 u2 u3 a b c1 c2 c3 by simp
qed

theorem update_room_breaks_invariant_counterexample:
  "rooms_ok ex_db_booked
   \<and> map r_occupied (rooms (snd (update_room ex_db_booked 7 101 ex_mark_vacant))) = [False]
   \<and> map r_current_guest_id (rooms (snd (update_room ex_db_booked 7 101 ex_mark_vacant)))
       = [Some 1]
   \<and> \<not> rooms_ok (snd (update_room ex_db_booked 7 101 ex_mark_vacant))"
  by (simp add: rooms_ok_def room_ok_def update_room_def get_room_def flush_rows_def Let_def
      ex_defs ex_defs2 ex_defs5)

section \<open>Claims about update\_booking\<close>

lemma update_booking_rooms: "rooms (snd (update_booking s now bid u)) = rooms s"
  by (cases "bu_checkout_at u")
     (auto simp: update_booking_def save_booking_def Let_def split: sum.splits option.splits)

text \<open>
  Claim C10. For an active booking, \<open>update_booking\<close> with a checkout time stores that
  checkout time on the booking and writes nothing else but the price, when the request sets
  one, and the update time: the rooms, the line items, the taxes and the discounts are as
  before, so the room stays occupied with its guest, and the four totals of the booking are
  as before. The branch that vacates the room is never taken, whatever the request: the
  rooms are unchanged by every call.
\<close>

theorem update_booking_checkout_skips_vacate:
  assumes "get_booking s bid = Inr b" and "b_checkout_at b = None"
    and "bu_checkout_at u = Some (Some t)"
  shows "\<exists>b' s'. update_booking s now bid u = (Inr b', s')
           \<and> get_booking s' bid = Inr b'
           \<and> b_checkout_at b' = Some t
           \<and> rooms s' = rooms s
           \<and> get_room s' (b_room_number b) = get_room s (b_room_number b)
           \<and> line_items s' = line_items s \<and> taxes s' = taxes s \<and> discounts s' = discounts s
           \<and> guests s' = guests s
           \<and> b_subtotal b' = b_subtotal b \<and> b_tax_total b' = b_tax_total b
           \<and> b_discount_total b' = b_discount_total b \<and> b_grand_total b' = b_grand_total b
           \<and> b_price b' = (case bu_price u of None \<Rightarrow> b_price b | Some v \<Rightarrow> v)
           \<and> (\<forall>u' bid'. rooms (snd (update_booking s now bid' u')) = rooms s)"
proof -
  let ?b' = "(case bu_price u of None \<Rightarrow> b\<lparr>b_checkout_at := Some t\<rparr>
              | Some v \<Rightarrow> b\<lparr>b_checkout_at := Some t, b_price := v\<rparr>)\<lparr>b_updated_at := Some now\<rparr>"
  let ?s' = "s\<lparr>bookings := flush_rows b_id [?b'] (bookings s)\<rparr>"
  have u: "update_booking s now bid u = (Inr ?b', ?s')"
    using assms
    by (simp add: update_booking_def save_booking_def Let_def split: option.splits)
  have id: "b_id ?b' = bid"
    using get_booking_id[OF assms(1)] by (simp split: option.splits)
  have g: "get_booking ?s' bid = Inr ?b'"
    by (rule get_booking_flush_same[OF assms(1) id]) simp
  have r: "get_room ?s' (b_room_number b) = get_room s (b_room_number b)"
    by simp
  show ?thesis
    using u g r update_booking_rooms[of s now]
    by (auto split: option.splits)
qed

theorem update_booking_checkout_skips_vacate_witness:
  "get_booking ex_db_booked 1 = Inr ex_booking \<and> b_checkout_at ex_booking = None
   \<and> bu_checkout_at ex_set_checkout = Some (Some three_days)
   \<and> (\<exists>b' s'. update_booking ex_db_booked three_days 1 ex_set_checkout = (Inr b', s')
           \<and> get_booking s' 1 = Inr b'
           \<and> b_checkout_at b' = Some three_days
           \<and> rooms s' = [ex_room_busy]
           \<and> r_occupied ex_room_busy \<and> r_current_guest_id ex_room_busy = Some 1
           \<and> line_items s' = [ex_room_item] \<and> li_quantity ex_room_item = 1
           \<and> li_amount ex_room_item = 1000
           \<and> b_subtotal b' = Some 1000 \<and> b_tax_total b' = None
           \<and> b_discount_total b' = None \<and> b_grand_total b' = Some 1000)"
proof -
  have h: "get_booking ex_db_booked 1 = Inr ex_booking" "b_checkout_at ex_booking = None"
    "bu_checkout_at ex_set_checkout = Some (Some three_days)"
    by (simp_all add: get_booking_def ex_defs ex_defs2 ex_defs6)
  have v: "rooms ex_db_booked = [ex_room_busy]" "r_occupied ex_room_busy"
    "r_current_guest_id ex_room_busy = Some 1" "line_items ex_db_booked = [ex_room_item]"
    "li_quantity ex_room_item = 1" "li_amount ex_room_item = 1000"
    "b_subtotal ex_booking = Some 1000" "b_tax_total ex_booking = None"
    "b_discount_total ex_booking = None" "b_grand_total ex_booking = Some 1000"
    by (simp_all add: ex_defs ex_defs2)
  obtain b' s' where c:
    "update_booking ex_db_booked three_days 1 ex_set_checkout = (Inr b', s')"
    "get_booking s' 1 = Inr b'" "b_checkout_at b' = Some three_days"
    "rooms s' = rooms ex_db_booked" "line_items s' = line_items ex_db_booked"
    "b_subtotal b' = b_subtotal ex_booking" "b_tax_total b' = b_tax_total ex_booking"
    "b_discount_total b' = b_discount_total ex_booking"
    "b_grand_total b' = b_grand_total ex_booking"
    using update_booking_checkout_skips_vacate[OF h, of three_days] by blast
  show ?thesis
    using h v c by simp
qed

section \<open>Claims about removing a line item\<close>

lemma remove_line_item_recalculated:
  assumes gb: "get_booking s bid = Inr b"
  shows "\<exists>b' s'. recalculate_booking_totals
            (s\<lparr>line_items := delete_row li_id item (line_items s)\<rparr>) now bid = Inr (b', s')
          \<and> get_booking s' bid = Inr b'
          \<and> line_items s' = delete_row li_id item (line_items s)
          \<and> b_subtotal b' = Some (sum_list (map li_amount (get_line_items s' bid)))
          \<and> (\<exists>tt dt. b_tax_total b' = Some tt \<and> b_discount_total b' = Some dt
                \<and> b_grand_total b' =
                    Some (sum_list (map li_amount (get_line_items s' bid)) + tt - dt))"
proof -
  let ?s1 = "s\<lparr>line_items := delete_row li_id item (line_items s)\<rparr>"
  have gb1: "get_booking ?s1 bid = Inr b" using gb by simp
  obtain b' s' where r: "recalculate_booking_totals ?s1 now bid = Inr (b', s')"
    using recalculate_ok[OF gb1] by blast
  obtain x tt dt where g: "b_subtotal b' = Some x" "b_tax_total b' = Some tt"
      "b_discount_total b' = Some dt" "b_grand_total b' = Some (x + tt - dt)"
    using recalculate_grand_total[OF r] by blast
  have st: "b_subtotal b' = Some (sum_list (map li_amount (get_line_items s' bid)))"
    by (rule recalculate_subtotal[OF r])
  then have "x = sum_list (map li_amount (get_line_items s' bid))" using g(1) by simp
  then show ?thesis
    using r recalculate_stored[OF r] recalculate_frame(3)[OF r] st g by auto
qed

text \<open>
  When the line item belongs to the booking named in the call, the two removals agree. If
  the item is of type "room" and the booking has no checkout time, both fail with
  BadRequestError and the database is as before. Otherwise both delete the item's row and
  recalculate the totals of the booking from the remaining rows.
\<close>

lemma remove_room_item_protected:
  assumes "find (\<lambda>i. li_id i = iid) (line_items s) = Some item"
    and "li_booking_id item = bid"
    and "get_booking s bid = Inr b"
  shows "(li_item_type item = ''room'' \<and> b_checkout_at b = None \<longrightarrow>
            remove_invoice_item s now bid iid = (Inl BadRequestError, s)
          \<and> delete_line_item s now iid = (Inl BadRequestError, s))
       \<and> (\<not> (li_item_type item = ''room'' \<and> b_checkout_at b = None) \<longrightarrow>
            (\<exists>b' s'. remove_invoice_item s now bid iid = (Inr b', s')
               \<and> delete_line_item s now iid = (Inr (), s')
               \<and> recalculate_booking_totals
                    (s\<lparr>line_items := filter (\<lambda>i. li_id i \<noteq> iid) (line_items s)\<rparr>) now bid
                  = Inr (b', s')
               \<and> line_items s' = filter (\<lambda>i. li_id i \<noteq> iid) (line_items s)
               \<and> get_booking s' bid = Inr b'
               \<and> b_subtotal b' = Some (sum_list (map li_amount (get_line_items s' bid)))
               \<and> (\<exists>tt dt. b_tax_total b' = Some tt \<and> b_discount_total b' = Some dt
                     \<and> b_grand_total b' =
                         Some (sum_list (map li_amount (get_line_items s' bid)) + tt - dt))))"
proof (intro conjI impI)
  assume p: "li_item_type item = ''room'' \<and> b_checkout_at b = None"
  show "remove_invoice_item s now bid iid = (Inl BadRequestError, s)"
    using assms p by (simp add: remove_invoice_item_def)
  show "delete_line_item s now iid = (Inl BadRequestError, s)"
    using assms p by (simp add: delete_line_item_def Let_def)
next
  assume np: "\<not> (li_item_type item = ''room'' \<and> b_checkout_at b = None)"
  have k: "li_id item = iid" using find_key[OF assms(1)] .
  have d: "delete_row li_id item (line_items s) = filter (\<lambda>i. li_id i \<noteq> iid) (line_items s)"
    by (simp add: delete_row_def k)
  obtain b' s' where r:
    "recalculate_booking_totals (s\<lparr>line_items := delete_row li_id item (line_items s)\<rparr>) now bid
       = Inr (b', s')"
    "get_booking s' bid = Inr b'"
    "line_items s' = delete_row li_id item (line_items s)"
    "b_subtotal b' = Some (sum_list (map li_amount (get_line_items s' bid)))"
    "\<exists>tt dt. b_tax_total b' = Some tt \<and> b_discount_total b' = Some dt
        \<and> b_grand_total b' = Some (sum_list (map li_amount (get_line_items s' bid)) + tt - dt)"
    using remove_line_item_recalculated[OF assms(3), of item now] by blast
  have a: "remove_invoice_item s now bid iid = (Inr b', s')"
    using assms np r(1,2) by (auto simp: remove_invoice_item_def Let_def)
  have c: "delete_line_item s now iid = (Inr (), s')"
    using assms np r(1) by (auto simp: delete_line_item_def Let_def)
  show "\<exists>b' s'. remove_invoice_item s now bid iid = (Inr b', s')
               \<and> delete_line_item s now iid = (Inr (), s')
               \<and> recalculate_booking_totals
                    (s\<lparr>line_items := filter (\<lambda>i. li_id i \<noteq> iid) (line_items s)\<rparr>) now bid
                  = Inr (b', s')
               \<and> line_items s' = filter (\<lambda>i. li_id i \<noteq> iid) (line_items s)
               \<and> get_booking s' bid = Inr b'
               \<and> b_subtotal b' = Some (sum_list (map li_amount (get_line_items s' bid)))
               \<and> (\<exists>tt dt. b_tax_total b' = Some tt \<and> b_discount_total b' = Some dt
                     \<and> b_grand_total b' =
                         Some (sum_list (map li_amount (get_line_items s' bid)) + tt - dt))"
    using a c r unfolding d by blast
qed

lemma remove_room_item_protected_example:
  "(find (\<lambda>i. li_id i = 1) (line_items ex_db_invoice) = Some ex_room_item
     \<and> li_booking_id ex_room_item = 1 \<and> get_booking ex_db_invoice 1 = Inr ex_booking
     \<and> li_item_type ex_room_item = ''room'' \<and> b_checkout_at ex_booking = None
     \<and> remove_invoice_item ex_db_invoice 9 1 1 = (Inl BadRequestError, ex_db_invoice)
     \<and> delete_line_item ex_db_invoice 9 1 = (Inl BadRequestError, ex_db_invoice))
   \<and> (find (\<lambda>i. li_id i = 2) (line_items ex_db_invoice) = Some ex_service_item
     \<and> li_booking_id ex_service_item = 1
     \<and> li_item_type ex_service_item \<noteq> ''room''
     \<and> (\<exists>b' s'. remove_invoice_item ex_db_invoice 9 1 2 = (Inr b', s')
          \<and> delete_line_item ex_db_invoice 9 2 = (Inr (), s')
          \<and> line_items s' = [ex_room_item]
          \<and> get_booking s' 1 = Inr b'
          \<and> b_subtotal b' = Some 1000))
   \<and> (find (\<lambda>i. li_id i = 1) (line_items ex_db_out) = Some (room_charge 3 three_days ex_room_item)
     \<and> li_booking_id (room_charge 3 three_days ex_room_item) = 1
     \<and> get_booking ex_db_out 1 = Inr ex_booking_out
     \<and> li_item_type (room_charge 3 three_days ex_room_item) = ''room''
     \<and> b_checkout_at ex_booking_out = Some three_days
     \<and> (\<exists>b' s'. remove_invoice_item ex_db_out 9 1 1 = (Inr b', s')
          \<and> delete_line_item ex_db_out 9 1 = (Inr (), s')
          \<and> line_items s' = []
          \<and> get_booking s' 1 = Inr b'
          \<and> b_subtotal b' = Some 0))"
proof -
  have h1: "find (\<lambda>i. li_id i = 1) (line_items ex_db_invoice) = Some ex_room_item"
    "li_booking_id ex_room_item = 1" "get_booking ex_db_invoice 1 = Inr ex_booking"
    and p1: "li_item_type ex_room_item = ''room'' \<and> b_checkout_at ex_booking = None"
    by (simp_all add: get_booking_def ex_defs)
  have h2: "find (\<lambda>i. li_id i = 2) (line_items ex_db_invoice) = Some ex_service_item"
    "li_booking_id ex_service_item = 1" "get_booking ex_db_invoice 1 = Inr ex_booking"
    and p2: "li_item_type ex_service_item \<noteq> ''room''"
    by (simp_all add: get_booking_def ex_defs)
  have h3: "find (\<lambda>i. li_id i = 1) (line_items ex_db_out)
              = Some (room_charge 3 three_days ex_room_item)"
    "li_booking_id (room_charge 3 three_days ex_room_item) = 1"
    "get_booking ex_db_out 1 = Inr ex_booking_out"
    and p3: "li_item_type (room_charge 3 three_days ex_room_item) = ''room''"
      "b_checkout_at ex_booking_out = Some three_days"
    by (simp_all add: get_booking_def room_charge_def ex_defs ex_defs4)
  note t1 = remove_room_item_protected[OF h1, of 9, THEN conjunct1, rule_format, OF p1]
  obtain b2 s2 where t2: "remove_invoice_item ex_db_invoice 9 1 2 = (Inr b2, s2)"
    "delete_line_item ex_db_invoice 9 2 = (Inr (), s2)"
    "line_items s2 = filter (\<lambda>i. li_id i \<noteq> 2) (line_items ex_db_invoice)"
    "get_booking s2 1 = Inr b2"
    "b_subtotal b2 = Some (sum_list (map li_amount (get_line_items s2 1)))"
    using remove_room_item_protected[OF h2, of 9] p2 by blast
  obtain b3 s3 where t3: "remove_invoice_item ex_db_out 9 1 1 = (Inr b3, s3)"
    "delete_line_item ex_db_out 9 1 = (Inr (), s3)"
    "line_items s3 = filter (\<lambda>i. li_id i \<noteq> 1) (line_items ex_db_out)"
    "get_booking s3 1 = Inr b3"
    "b_subtotal b3 = Some (sum_list (map li_amount (get_line_items s3 1)))"
    using remove_room_item_protected[OF h3, of 9] p3 by auto
  have l2: "line_items s2 = [ex_room_item]"
    using t2(3) by (simp add: ex_defs)
  have l3: "line_items s3 = []"
    using t3(3) by (simp add: room_charge_def ex_defs ex_defs4)
  have v2: "b_subtotal b2 = Some 1000"
    using t2(5) by (simp add: get_line_items_def l2) (simp add: ex_defs)
  have v3: "b_subtotal b3 = Some 0"
    using t3(5) by (simp add: get_line_items_def l3)
  show ?thesis
    using h1 p1 t1 h2 p2 t2(1,2,4) l2 v2 h3 p3 t3(1,2,4) l3 v3 by blast
qed

text \<open>
  Claim C8. Removing the room charge of a booking that is still active must fail with
  BadRequestError and change nothing. \<open>delete_line_item\<close> does so, reading the checkout
  time of the booking that owns the item. \<open>remove_invoice_item\<close> reads the checkout time of
  the booking named in the call instead: named with the owner it refuses, but named with a
  checked-out booking it deletes the room charge of the active booking and recalculates
  only the booking named, so that the owner keeps a subtotal of 1100 over rows that now
  sum to 100.
\<close>

theorem remove_invoice_item_guard_bypass:
  "find (\<lambda>i. li_id i = 1) (line_items ex_db_mixed) = Some ex_room_item
   \<and> li_item_type ex_room_item = ''room'' \<and> li_booking_id ex_room_item = 1
   \<and> get_booking ex_db_mixed 1 = Inr ex_booking_a \<and> b_checkout_at ex_booking_a = None
   \<and> map_sum id b_checkout_at (get_booking ex_db_mixed 2) = Inr (Some 5)
   \<and> delete_line_item ex_db_mixed 9 1 = (Inl BadRequestError, ex_db_mixed)
   \<and> remove_invoice_item ex_db_mixed 9 1 1 = (Inl BadRequestError, ex_db_mixed)
   \<and> map_sum id b_id (fst (remove_invoice_item ex_db_mixed 9 2 1)) = Inr 2
   \<and> map li_id (line_items (snd (remove_invoice_item ex_db_mixed 9 2 1))) = [2, 3, 4]
   \<and> get_booking (snd (remove_invoice_item ex_db_mixed 9 2 1)) 1 = Inr ex_booking_a
   \<and> b_subtotal ex_booking_a = Some 1100
   \<and> line_item_sum (snd (remove_invoice_item ex_db_mixed 9 2 1)) 1 = 100"
  by (simp add: remove_invoice_item_def delete_line_item_def recalculate_booking_totals_def
      get_booking_def get_line_items_def get_taxes_def get_discounts_def flush_rows_def
      delete_row_def py_sum_def line_item_sum_def Let_def ex_defs ex_defs7 ex_defs9)

section \<open>Facts about removing rows of another booking\<close>

lemma flush_rows_keys: "map key (flush_rows key dirty tbl) = map key tbl"
  by (induction tbl) (auto simp: flush_rows_def split: option.splits dest: find_key)

lemma find_key_None: "find (\<lambda>u. key u = k) tbl = None \<longleftrightarrow> k \<notin> set (map key tbl)"
  by (auto simp: find_None_iff)

lemma find_delete_row:
  "key obj = k \<Longrightarrow> find (\<lambda>u. key u = k) (delete_row key obj tbl) = None"
  by (auto simp: find_None_iff delete_row_def)

lemma sum_list_delete_row:
  assumes "distinct (map key tbl)" "find (\<lambda>u. key u = k) tbl = Some x" "P x"
  shows "sum_list (map f (filter P (delete_row key x tbl))) =
         sum_list (map f (filter P tbl)) - (f x :: money)"
  using assms(1,2)
proof (induction tbl)
  case Nil
  then show ?case by simp
next
  case (Cons y ys)
  show ?case
  proof (cases "key y = k")
    case True
    then have xy: "x = y" using Cons.prems(2) by simp
    have ny: "key y \<notin> key ` set ys" using Cons.prems(1) by simp
    have "\<forall>u\<in>set ys. key u \<noteq> key y"
    proof (intro ballI notI)
      fix u assume "u \<in> set ys" "key u = key y"
      then have "key y \<in> key ` set ys" by (metis imageI)
      then show False using ny by simp
    qed
    then have "filter (\<lambda>u. key u \<noteq> key y) ys = ys"
      by (simp add: filter_id_conv)
    then show ?thesis using xy assms(3) by (simp add: delete_row_def)
  next
    case False
    then have f: "find (\<lambda>u. key u = k) ys = Some x" using Cons.prems(2) by simp
    have kx: "key x = k" using find_key[OF f] .
    have "sum_list (map f (filter P (delete_row key x ys))) =
          sum_list (map f (filter P ys)) - f x"
      using Cons.IH[OF _ f] Cons.prems(1) by simp
    then show ?thesis using False kx by (simp add: delete_row_def)
  qed
qed

lemma filter_other_map_if:
  assumes "\<And>x. Q (f x) = Q x" "\<And>x. P x \<Longrightarrow> \<not> Q x"
  shows "filter Q (map (\<lambda>u. if P u then f u else u) xs) = filter Q xs"
  by (induction xs) (auto simp: assms)

lemma distinct_delete_row: "distinct (map key tbl) \<Longrightarrow> distinct (map key (delete_row key x tbl))"
  by (simp add: delete_row_def distinct_map_filter)

lemma get_taxes_frame [simp]:
  "get_taxes (s\<lparr>rooms := rs\<rparr>) = get_taxes s"
  "get_taxes (s\<lparr>bookings := bs\<rparr>) = get_taxes s"
  "get_taxes (s\<lparr>line_items := ls\<rparr>) = get_taxes s"
  "get_taxes (s\<lparr>discounts := ds\<rparr>) = get_taxes s"
  "get_taxes (s\<lparr>guests := gs\<rparr>) = get_taxes s"
  by (simp_all add: get_taxes_def fun_eq_iff)

lemma get_discounts_frame [simp]:
  "get_discounts (s\<lparr>rooms := rs\<rparr>) = get_discounts s"
  "get_discounts (s\<lparr>bookings := bs\<rparr>) = get_discounts s"
  "get_discounts (s\<lparr>line_items := ls\<rparr>) = get_discounts s"
  "get_discounts (s\<lparr>taxes := ts\<rparr>) = get_discounts s"
  "get_discounts (s\<lparr>guests := gs\<rparr>) = get_discounts s"
  by (simp_all add: get_discounts_def fun_eq_iff)

lemma recalculate_other_booking:
  assumes r: "recalculate_booking_totals s now bid = Inr (b', s')" and ne: "owner \<noteq> bid"
  shows "get_booking s' owner = get_booking s owner"
    and "map tax_id (taxes s') = map tax_id (taxes s)"
    and "map disc_id (discounts s') = map disc_id (discounts s)"
    and "distinct (map tax_id (taxes s)) \<Longrightarrow> get_taxes s' owner = get_taxes s owner"
    and "distinct (map disc_id (discounts s)) \<Longrightarrow> get_discounts s' owner = get_discounts s owner"
proof -
  obtain b where gb: "get_booking s bid = Inr b"
    using r by (auto simp: recalculate_booking_totals_def split: sum.splits)
  let ?st = "sum_list (map li_amount (get_line_items s bid))"
  have s': "bookings s' = flush_rows b_id [b'] (bookings s)"
    "taxes s' = flush_rows tax_id (map (retax ?st) (get_taxes s bid)) (taxes s)"
    "discounts s' = flush_rows disc_id (map (rediscount ?st) (get_discounts s bid)) (discounts s)"
    "b_id b' = bid"
    using r get_booking_id[OF gb] unfolding recalculate_eq[OF gb] Let_def by auto
  show "get_booking s' owner = get_booking s owner"
    using ne s'(1,4) by (simp add: get_booking_def find_flush_single)
  show "map tax_id (taxes s') = map tax_id (taxes s)"
    by (simp add: s'(2) flush_rows_keys)
  show "map disc_id (discounts s') = map disc_id (discounts s)"
    by (simp add: s'(3) flush_rows_keys)
  show "get_taxes s' owner = get_taxes s owner" if d: "distinct (map tax_id (taxes s))"
  proof -
    have "taxes s' = map (\<lambda>t. if tax_booking_id t = bid then retax ?st t else t) (taxes s)"
      unfolding s'(2) get_taxes_def by (rule flush_rows_map_filter[OF d]) (rule retax_id)
    moreover have "filter (\<lambda>t. tax_booking_id t = owner)
        (map (\<lambda>t. if tax_booking_id t = bid then retax ?st t else t) (taxes s)) =
        filter (\<lambda>t. tax_booking_id t = owner) (taxes s)"
      using ne by (intro filter_other_map_if) (simp_all add: retax_bid)
    ultimately show ?thesis
      unfolding get_taxes_def by simp
  qed
  show "get_discounts s' owner = get_discounts s owner"
    if d: "distinct (map disc_id (discounts s))"
  proof -
    have "discounts s' =
            map (\<lambda>t. if disc_booking_id t = bid then rediscount ?st t else t) (discounts s)"
      unfolding s'(3) get_discounts_def
      by (rule flush_rows_map_filter[OF d]) (rule rediscount_id)
    moreover have "filter (\<lambda>t. disc_booking_id t = owner)
        (map (\<lambda>t. if disc_booking_id t = bid then rediscount ?st t else t) (discounts s)) =
        filter (\<lambda>t. disc_booking_id t = owner) (discounts s)"
      using ne by (intro filter_other_map_if) (simp_all add: rediscount_bid)
    ultimately show ?thesis
      unfolding get_discounts_def by simp
  qed
qed

lemma remove_tax_state:
  assumes "find (\<lambda>t. tax_id t = tid) (taxes s) = Some tax"
  shows "snd (remove_tax s now bid tid) = s\<lparr>taxes := delete_row tax_id tax (taxes s)\<rparr> \<or>
         (\<exists>b'. recalculate_booking_totals (s\<lparr>taxes := delete_row tax_id tax (taxes s)\<rparr>) now bid
                 = Inr (b', snd (remove_tax s now bid tid)))"
  using assms by (auto simp: remove_tax_def Let_def split: sum.splits prod.splits)

lemma remove_discount_state:
  assumes "find (\<lambda>d. disc_id d = did) (discounts s) = Some discount"
  shows "snd (remove_discount s now bid did)
           = s\<lparr>discounts := delete_row disc_id discount (discounts s)\<rparr> \<or>
         (\<exists>b'. recalculate_booking_totals
                  (s\<lparr>discounts := delete_row disc_id discount (discounts s)\<rparr>) now bid
                 = Inr (b', snd (remove_discount s now bid did)))"
  using assms by (auto simp: remove_discount_def Let_def split: sum.splits prod.splits)

lemma remove_tax_other:
  assumes f: "find (\<lambda>t. tax_id t = tid) (taxes s) = Some tax"
    and o: "tax_booking_id tax = owner" and ne: "owner \<noteq> bid"
    and d: "distinct (map tax_id (taxes s))"
  shows "find (\<lambda>t. tax_id t = tid) (taxes (snd (remove_tax s now bid tid))) = None"
    and "get_booking (snd (remove_tax s now bid tid)) owner = get_booking s owner"
    and "sum_list (map tax_amount (get_taxes (snd (remove_tax s now bid tid)) owner)) =
         sum_list (map tax_amount (get_taxes s owner)) - tax_amount tax"
proof -
  let ?s1 = "s\<lparr>taxes := delete_row tax_id tax (taxes s)\<rparr>"
  let ?s' = "snd (remove_tax s now bid tid)"
  have k: "tax_id tax = tid" using find_key[OF f] .
  have d1: "distinct (map tax_id (taxes ?s1))" using d by (simp add: distinct_delete_row)
  have n1: "tid \<notin> set (map tax_id (taxes ?s1))"
    using find_delete_row[of tax_id tax tid "taxes s", OF k] by (simp add: find_key_None)
  have sum1: "sum_list (map tax_amount (get_taxes ?s1 owner)) =
         sum_list (map tax_amount (get_taxes s owner)) - tax_amount tax"
    unfolding get_taxes_def using sum_list_delete_row[OF d f, of "\<lambda>t. tax_booking_id t = owner"] o
    by simp
  have "map tax_id (taxes ?s') = map tax_id (taxes ?s1)
        \<and> get_booking ?s' owner = get_booking s owner
        \<and> get_taxes ?s' owner = get_taxes ?s1 owner"
    using remove_tax_state[OF f, of now bid]
  proof
    assume "?s' = ?s1"
    then show ?thesis by simp
  next
    assume "\<exists>b'. recalculate_booking_totals ?s1 now bid = Inr (b', ?s')"
    then obtain b' where r: "recalculate_booking_totals ?s1 now bid = Inr (b', ?s')" by blast
    show ?thesis
      using recalculate_other_booking(1,2)[OF r ne] recalculate_other_booking(4)[OF r ne d1]
      by simp
  qed
  then show "find (\<lambda>t. tax_id t = tid) (taxes ?s') = None"
    and "get_booking ?s' owner = get_booking s owner"
    and "sum_list (map tax_amount (get_taxes ?s' owner)) =
         sum_list (map tax_amount (get_taxes s owner)) - tax_amount tax"
    using n1 sum1 by (simp_all add: find_key_None)
qed

lemma remove_discount_other:
  assumes f: "find (\<lambda>d. disc_id d = did) (discounts s) = Some discount"
    and o: "disc_booking_id discount = owner" and ne: "owner \<noteq> bid"
    and d: "distinct (map disc_id (discounts s))"
  shows "find (\<lambda>d. disc_id d = did) (discounts (snd (remove_discount s now bid did))) = None"
    and "get_booking (snd (remove_discount s now bid did)) owner = get_booking s owner"
    and "sum_list (map disc_amount (get_discounts (snd (remove_discount s now bid did)) owner)) =
         sum_list (map disc_amount (get_discounts s owner)) - disc_amount discount"
proof -
  let ?s1 = "s\<lparr>discounts := delete_row disc_id discount (discounts s)\<rparr>"
  let ?s' = "snd (remove_discount s now bid did)"
  have k: "disc_id discount = did" using find_key[OF f] .
  have d1: "distinct (map disc_id (discounts ?s1))" using d by (simp add: distinct_delete_row)
  have n1: "did \<notin> set (map disc_id (discounts ?s1))"
    using find_delete_row[of disc_id discount did "discounts s", OF k]
    by (simp add: find_key_None)
  have sum1: "sum_list (map disc_amount (get_discounts ?s1 owner)) =
         sum_list (map disc_amount (get_discounts s owner)) - disc_amount discount"
    unfolding get_discounts_def
    using sum_list_delete_row[OF d f, of "\<lambda>t. disc_booking_id t = owner"] o
    by simp
  have "map disc_id (discounts ?s') = map disc_id (discounts ?s1)
        \<and> get_booking ?s' owner = get_booking s owner
        \<and> get_discounts ?s' owner = get_discounts ?s1 owner"
    using remove_discount_state[OF f, of now bid]
  proof
    assume "?s' = ?s1"
    then show ?thesis by simp
  next
    assume "\<exists>b'. recalculate_booking_totals ?s1 now bid = Inr (b', ?s')"
    then obtain b' where r: "recalculate_booking_totals ?s1 now bid = Inr (b', ?s')" by blast
    show ?thesis
      using recalculate_other_booking(1,3)[OF r ne] recalculate_other_booking(5)[OF r ne d1]
      by simp
  qed
  then show "find (\<lambda>d. disc_id d = did) (discounts ?s') = None"
    and "get_booking ?s' owner = get_booking s owner"
    and "sum_list (map disc_amount (get_discounts ?s' owner)) =
         sum_list (map disc_amount (get_discounts s owner)) - disc_amount discount"
    using n1 sum1 by (simp_all add: find_key_None)
qed

lemma remove_invoice_item_other:
  assumes f: "find (\<lambda>i. li_id i = iid) (line_items s) = Some item"
    and o: "li_booking_id item = owner" and ne: "owner \<noteq> bid"
    and d: "distinct (map li_id (line_items s))"
    and gb: "get_booking s bid = Inr b"
    and np: "\<not> (li_item_type item = ''room'' \<and> b_checkout_at b = None)"
  shows "\<exists>b' s'. remove_invoice_item s now bid iid = (Inr b', s')
          \<and> find (\<lambda>i. li_id i = iid) (line_items s') = None
          \<and> get_booking s' owner = get_booking s owner
          \<and> sum_list (map li_amount (get_line_items s' owner)) =
              sum_list (map li_amount (get_line_items s owner)) - li_amount item"
proof -
  let ?s1 = "s\<lparr>line_items := delete_row li_id item (line_items s)\<rparr>"
  have k: "li_id item = iid" using find_key[OF f] .
  obtain b' s' where r: "recalculate_booking_totals ?s1 now bid = Inr (b', s')"
    and st: "get_booking s' bid = Inr b'" and li: "line_items s' = delete_row li_id item (line_items s)"
    using remove_line_item_recalculated[OF gb, of item now] by blast
  have a: "remove_invoice_item s now bid iid = (Inr b', s')"
    using f gb np r st by (auto simp: remove_invoice_item_def Let_def)
  have g: "get_booking s' owner = get_booking s owner"
    using recalculate_other_booking(1)[OF r ne] by simp
  have n: "find (\<lambda>i. li_id i = iid) (line_items s') = None"
    unfolding li by (rule find_delete_row[of li_id item iid, OF k])
  have sum: "sum_list (map li_amount (get_line_items s' owner)) =
              sum_list (map li_amount (get_line_items s owner)) - li_amount item"
    unfolding get_line_items_def li
    using sum_list_delete_row[OF d f, of "\<lambda>i. li_booking_id i = owner"] o by simp
  show ?thesis using a g n sum by blast
qed

lemma sums_as_queries:
  "line_item_sum s bid = sum_list (map li_amount (get_line_items s bid))"
  "tax_sum s bid = sum_list (map tax_amount (get_taxes s bid))"
  "discount_sum s bid = sum_list (map disc_amount (get_discounts s bid))"
  by (simp_all add: line_item_sum_def tax_sum_def discount_sum_def get_line_items_def
      get_taxes_def get_discounts_def)

lemma recalculate_totals_match:
  assumes r: "recalculate_booking_totals s now bid = Inr (b', s')"
    and dt: "distinct (map tax_id (taxes s))" and dd: "distinct (map disc_id (discounts s))"
  shows "find (\<lambda>x. b_id x = bid) (bookings s') = Some b'" and "totals_match b' s'"
proof -
  note p = recalculate_pinned[OF r]
  show f: "find (\<lambda>x. b_id x = bid) (bookings s') = Some b'" by (rule p(1))
  have id: "b_id b' = bid" using find_key[OF f] .
  obtain tt dd' where g: "b_tax_total b' = Some tt" "b_discount_total b' = Some dd'"
    "b_grand_total b' =
       Some (sum_list (map li_amount (filter (\<lambda>i. li_booking_id i = bid) (line_items s')))
             + tt - dd')"
    using p(4) by blast
  have t: "b_tax_total b' = Some (tax_sum s' bid)"
    using p(5)[OF dt] by (simp add: tax_sum_def)
  have d: "b_discount_total b' = Some (discount_sum s' bid)"
    using p(6)[OF dd] by (simp add: discount_sum_def)
  show "totals_match b' s'"
    using p(3) g t d by (simp add: totals_match_def id line_item_sum_def)
qed

lemma remove_tax_result:
  assumes f: "find (\<lambda>t. tax_id t = tid) (taxes s) = Some tax"
  shows "get_booking s bid = Inl NotFoundError \<Longrightarrow>
           remove_tax s now bid tid =
             (Inl NotFoundError, s\<lparr>taxes := delete_row tax_id tax (taxes s)\<rparr>)"
    and "get_booking s bid = Inr b \<Longrightarrow>
           \<exists>b' s'. remove_tax s now bid tid = (Inr b', s')
             \<and> recalculate_booking_totals (s\<lparr>taxes := delete_row tax_id tax (taxes s)\<rparr>) now bid
                 = Inr (b', s')"
proof -
  let ?s1 = "s\<lparr>taxes := delete_row tax_id tax (taxes s)\<rparr>"
  show "remove_tax s now bid tid = (Inl NotFoundError, ?s1)"
    if "get_booking s bid = Inl NotFoundError"
    using f that by (simp add: remove_tax_def Let_def recalculate_booking_totals_def)
  show "\<exists>b' s'. remove_tax s now bid tid = (Inr b', s')
             \<and> recalculate_booking_totals ?s1 now bid = Inr (b', s')"
    if gb: "get_booking s bid = Inr b"
  proof -
    have gb1: "get_booking ?s1 bid = Inr b" using gb by simp
    obtain b' s' where r: "recalculate_booking_totals ?s1 now bid = Inr (b', s')"
      using recalculate_ok[OF gb1] by blast
    have "remove_tax s now bid tid = (Inr b', s')"
      using f r recalculate_stored[OF r] by (simp add: remove_tax_def Let_def)
    then show ?thesis using r by blast
  qed
qed

lemma remove_discount_result:
  assumes f: "find (\<lambda>d. disc_id d = did) (discounts s) = Some discount"
  shows "get_booking s bid = Inl NotFoundError \<Longrightarrow>
           remove_discount s now bid did =
             (Inl NotFoundError, s\<lparr>discounts := delete_row disc_id discount (discounts s)\<rparr>)"
    and "get_booking s bid = Inr b \<Longrightarrow>
           \<exists>b' s'. remove_discount s now bid did = (Inr b', s')
             \<and> recalculate_booking_totals
                  (s\<lparr>discounts := delete_row disc_id discount (discounts s)\<rparr>) now bid
                 = Inr (b', s')"
proof -
  let ?s1 = "s\<lparr>discounts := delete_row disc_id discount (discounts s)\<rparr>"
  show "remove_discount s now bid did = (Inl NotFoundError, ?s1)"
    if "get_booking s bid = Inl NotFoundError"
    using f that by (simp add: remove_discount_def Let_def recalculate_booking_totals_def)
  show "\<exists>b' s'. remove_discount s now bid did = (Inr b', s')
             \<and> recalculate_booking_totals ?s1 now bid = Inr (b', s')"
    if gb: "get_booking s bid = Inr b"
  proof -
    have gb1: "get_booking ?s1 bid = Inr b" using gb by simp
    obtain b' s' where r: "recalculate_booking_totals ?s1 now bid = Inr (b', s')"
      using recalculate_ok[OF gb1] by blast
    have "remove_discount s now bid did = (Inr b', s')"
      using f r recalculate_stored[OF r] by (simp add: remove_discount_def Let_def)
    then show ?thesis using r by blast
  qed
qed

lemma get_booking_find: "get_booking s bid = Inr b \<longleftrightarrow> find (\<lambda>x. b_id x = bid) (bookings s) = Some b"
  by (simp add: get_booking_def split: option.splits)

lemma recalculate_other_sums:
  assumes r: "recalculate_booking_totals s now bid = Inr (b', s')" and ne: "owner \<noteq> bid"
    and dt: "distinct (map tax_id (taxes s))" and dd: "distinct (map disc_id (discounts s))"
  shows "find (\<lambda>x. b_id x = owner) (bookings s') = find (\<lambda>x. b_id x = owner) (bookings s)"
    and "line_item_sum s' owner = line_item_sum s owner"
    and "tax_sum s' owner = tax_sum s owner"
    and "discount_sum s' owner = discount_sum s owner"
proof -
  have "get_booking s' owner = get_booking s owner"
    by (rule recalculate_other_booking(1)[OF r ne])
  then show "find (\<lambda>x. b_id x = owner) (bookings s') = find (\<lambda>x. b_id x = owner) (bookings s)"
    by (auto simp: get_booking_def split: option.splits)
  show "line_item_sum s' owner = line_item_sum s owner"
    using recalculate_frame(3)[OF r] by (simp add: line_item_sum_def)
  show "tax_sum s' owner = tax_sum s owner"
    using recalculate_other_booking(4)[OF r ne dt] by (simp add: sums_as_queries)
  show "discount_sum s' owner = discount_sum s owner"
    using recalculate_other_booking(5)[OF r ne dd] by (simp add: sums_as_queries)
qed

lemma remove_invoice_item_through:
  assumes f: "find (\<lambda>i. li_id i = iid) (line_items s) = Some item"
    and o: "li_booking_id item = owner" and ne: "owner \<noteq> bid"
    and dl: "distinct (map li_id (line_items s))"
    and dt: "distinct (map tax_id (taxes s))" and dd: "distinct (map disc_id (discounts s))"
    and gb: "get_booking s bid = Inr b"
    and np: "\<not> (li_item_type item = ''room'' \<and> b_checkout_at b = None)"
  shows "\<exists>b' s'. remove_invoice_item s now bid iid = (Inr b', s')
          \<and> find (\<lambda>i. li_id i = iid) (line_items s') = None
          \<and> find (\<lambda>x. b_id x = bid) (bookings s') = Some b'
          \<and> totals_match b' s'
          \<and> find (\<lambda>x. b_id x = owner) (bookings s') = find (\<lambda>x. b_id x = owner) (bookings s)
          \<and> line_item_sum s' owner = line_item_sum s owner - li_amount item
          \<and> tax_sum s' owner = tax_sum s owner
          \<and> discount_sum s' owner = discount_sum s owner"
proof -
  let ?s1 = "s\<lparr>line_items := delete_row li_id item (line_items s)\<rparr>"
  have k: "li_id item = iid" using find_key[OF f] .
  obtain b' s' where r: "recalculate_booking_totals ?s1 now bid = Inr (b', s')"
    and st: "get_booking s' bid = Inr b'"
    and li: "line_items s' = delete_row li_id item (line_items s)"
    using remove_line_item_recalculated[OF gb, of item now] by blast
  have a: "remove_invoice_item s now bid iid = (Inr b', s')"
    using f gb np r st by (auto simp: remove_invoice_item_def Let_def)
  have dt1: "distinct (map tax_id (taxes ?s1))" and dd1: "distinct (map disc_id (discounts ?s1))"
    using dt dd by simp_all
  note m = recalculate_totals_match[OF r dt1 dd1]
  note q = recalculate_other_sums[OF r ne dt1 dd1]
  have n: "find (\<lambda>i. li_id i = iid) (line_items s') = None"
    unfolding li by (rule find_delete_row[of li_id item iid, OF k])
  have sum: "line_item_sum s' owner = line_item_sum s owner - li_amount item"
    unfolding line_item_sum_def li
    using sum_list_delete_row[OF dl f, of "\<lambda>i. li_booking_id i = owner"] o by simp
  have q1: "find (\<lambda>x. b_id x = owner) (bookings s') = find (\<lambda>x. b_id x = owner) (bookings s)"
    using q(1) by simp
  have q3: "tax_sum s' owner = tax_sum s owner" using q(3) by (simp add: tax_sum_def)
  have q4: "discount_sum s' owner = discount_sum s owner"
    using q(4) by (simp add: discount_sum_def)
  show ?thesis
    using a n m q1 sum q3 q4 by (intro exI[of _ b'] exI[of _ s']) simp
qed

lemma remove_tax_through:
  assumes f: "find (\<lambda>t. tax_id t = tid) (taxes s) = Some tax"
    and o: "tax_booking_id tax = owner" and ne: "owner \<noteq> bid"
    and dt: "distinct (map tax_id (taxes s))" and dd: "distinct (map disc_id (discounts s))"
  shows "find (\<lambda>t. tax_id t = tid) (taxes (snd (remove_tax s now bid tid))) = None"
    and "find (\<lambda>x. b_id x = owner) (bookings (snd (remove_tax s now bid tid)))
           = find (\<lambda>x. b_id x = owner) (bookings s)"
    and "tax_sum (snd (remove_tax s now bid tid)) owner = tax_sum s owner - tax_amount tax"
    and "line_item_sum (snd (remove_tax s now bid tid)) owner = line_item_sum s owner"
    and "discount_sum (snd (remove_tax s now bid tid)) owner = discount_sum s owner"
    and "get_booking s bid = Inl NotFoundError \<Longrightarrow>
           fst (remove_tax s now bid tid) = Inl NotFoundError"
    and "get_booking s bid = Inr b \<Longrightarrow>
           \<exists>b'. fst (remove_tax s now bid tid) = Inr b'
             \<and> find (\<lambda>x. b_id x = bid) (bookings (snd (remove_tax s now bid tid))) = Some b'
             \<and> totals_match b' (snd (remove_tax s now bid tid))"
proof -
  let ?s1 = "s\<lparr>taxes := delete_row tax_id tax (taxes s)\<rparr>"
  let ?s' = "snd (remove_tax s now bid tid)"
  have dt1: "distinct (map tax_id (taxes ?s1))" using dt by (simp add: distinct_delete_row)
  have dd1: "distinct (map disc_id (discounts ?s1))" using dd by simp
  note t = remove_tax_other[OF f o ne dt, of now]
  show "find (\<lambda>t. tax_id t = tid) (taxes ?s') = None" by (rule t(1))
  show "find (\<lambda>x. b_id x = owner) (bookings ?s') = find (\<lambda>x. b_id x = owner) (bookings s)"
    using t(2) by (auto simp: get_booking_def split: option.splits)
  show "tax_sum ?s' owner = tax_sum s owner - tax_amount tax"
    using t(3) by (simp add: sums_as_queries)
  have "line_item_sum ?s' owner = line_item_sum s owner
        \<and> discount_sum ?s' owner = discount_sum s owner"
    using remove_tax_state[OF f, of now bid]
  proof
    assume "?s' = ?s1"
    then show ?thesis by (simp add: line_item_sum_def discount_sum_def)
  next
    assume "\<exists>b'. recalculate_booking_totals ?s1 now bid = Inr (b', ?s')"
    then obtain b' where r: "recalculate_booking_totals ?s1 now bid = Inr (b', ?s')" by blast
    show ?thesis
      using recalculate_other_sums(2,4)[OF r ne dt1 dd1]
      by (simp add: line_item_sum_def discount_sum_def)
  qed
  then show "line_item_sum ?s' owner = line_item_sum s owner"
    and "discount_sum ?s' owner = discount_sum s owner"
    by simp_all
  show "fst (remove_tax s now bid tid) = Inl NotFoundError"
    if "get_booking s bid = Inl NotFoundError"
    using remove_tax_result(1)[OF f that, of now] by simp
  show "\<exists>b'. fst (remove_tax s now bid tid) = Inr b'
             \<and> find (\<lambda>x. b_id x = bid) (bookings ?s') = Some b'
             \<and> totals_match b' ?s'"
    if gb: "get_booking s bid = Inr b"
  proof -
    obtain b' s' where a: "remove_tax s now bid tid = (Inr b', s')"
      and r: "recalculate_booking_totals ?s1 now bid = Inr (b', s')"
      using remove_tax_result(2)[OF f gb, of now] by blast
    show ?thesis
      using recalculate_totals_match[OF r dt1 dd1] a by simp
  qed
qed

lemma remove_discount_through:
  assumes f: "find (\<lambda>d. disc_id d = did) (discounts s) = Some discount"
    and o: "disc_booking_id discount = owner" and ne: "owner \<noteq> bid"
    and dt: "distinct (map tax_id (taxes s))" and dd: "distinct (map disc_id (discounts s))"
  shows "find (\<lambda>d. disc_id d = did) (discounts (snd (remove_discount s now bid did))) = None"
    and "find (\<lambda>x. b_id x = owner) (bookings (snd (remove_discount s now bid did)))
           = find (\<lambda>x. b_id x = owner) (bookings s)"
    and "discount_sum (snd (remove_discount s now bid did)) owner
           = discount_sum s owner - disc_amount discount"
    and "line_item_sum (snd (remove_discount s now bid did)) owner = line_item_sum s owner"
    and "tax_sum (snd (remove_discount s now bid did)) owner = tax_sum s owner"
    and "get_booking s bid = Inl NotFoundError \<Longrightarrow>
           fst (remove_discount s now bid did) = Inl NotFoundError"
    and "get_booking s bid = Inr b \<Longrightarrow>
           \<exists>b'. fst (remove_discount s now bid did) = Inr b'
             \<and> find (\<lambda>x. b_id x = bid) (bookings (snd (remove_discount s now bid did)))
                 = Some b'
             \<and> totals_match b' (snd (remove_discount s now bid did))"
proof -
  let ?s1 = "s\<lparr>discounts := delete_row disc_id discount (discounts s)\<rparr>"
  let ?s' = "snd (remove_discount s now bid did)"
  have dd1: "distinct (map disc_id (discounts ?s1))" using dd by (simp add: distinct_delete_row)
  have dt1: "distinct (map tax_id (taxes ?s1))" using dt by simp
  note t = remove_discount_other[OF f o ne dd, of now]
  show "find (\<lambda>d. disc_id d = did) (discounts ?s') = None" by (rule t(1))
  show "find (\<lambda>x. b_id x = owner) (bookings ?s') = find (\<lambda>x. b_id x = owner) (bookings s)"
    using t(2) by (auto simp: get_booking_def split: option.splits)
  show "discount_sum ?s' owner = discount_sum s owner - disc_amount discount"
    using t(3) by (simp add: sums_as_queries)
  have "line_item_sum ?s' owner = line_item_sum s owner
        \<and> tax_sum ?s' owner = tax_sum s owner"
    using remove_discount_state[OF f, of now bid]
  proof
    assume "?s' = ?s1"
    then show ?thesis by (simp add: line_item_sum_def tax_sum_def)
  next
    assume "\<exists>b'. recalculate_booking_totals ?s1 now bid = Inr (b', ?s')"
    then obtain b' where r: "recalculate_booking_totals ?s1 now bid = Inr (b', ?s')" by blast
    show ?thesis
      using recalculate_other_sums(2,3)[OF r ne dt1 dd1]
      by (simp add: line_item_sum_def tax_sum_def)
  qed
  then show "line_item_sum ?s' owner = line_item_sum s owner"
    and "tax_sum ?s' owner = tax_sum s owner"
    by simp_all
  show "fst (remove_discount s now bid did) = Inl NotFoundError"
    if "get_booking s bid = Inl NotFoundError"
    using remove_discount_result(1)[OF f that, of now] by simp
  show "\<exists>b'. fst (remove_discount s now bid did) = Inr b'
             \<and> find (\<lambda>x. b_id x = bid) (bookings ?s') = Some b'
             \<and> totals_match b' ?s'"
    if gb: "get_booking s bid = Inr b"
  proof -
    obtain b' s' where a: "remove_discount s now bid did = (Inr b', s')"
      and r: "recalculate_booking_totals ?s1 now bid = Inr (b', s')"
      using remove_discount_result(2)[OF f gb, of now] by blast
    show ?thesis
      using recalculate_totals_match[OF r dt1 dd1] a by simp
  qed
qed

lemma totals_stale:
  assumes "totals_match bo s" "b_id bo = owner"
    and "line_item_sum s' owner + tax_sum s' owner - discount_sum s' owner
           \<noteq> line_item_sum s owner + tax_sum s owner - discount_sum s owner"
  shows "b_grand_total bo \<noteq>
           Some (line_item_sum s' owner + tax_sum s' owner - discount_sum s' owner)"
    and "\<not> totals_match bo s'"
  using assms by (auto simp: totals_match_def)

section \<open>Claims about removing a row through another booking\<close>

text \<open>
  Claim C9, as amended. Let a row belong to booking \<open>owner\<close>, which exists, and let the call
  name another booking \<open>bid\<close>; primary keys are unique. There is no ownership check.
  \<open>remove_invoice_item\<close> fails with NotFoundError when \<open>bid\<close> does not exist and with
  BadRequestError when the row is a room charge and \<open>bid\<close> has no checkout time, writing
  nothing; otherwise it deletes the row. \<open>remove_tax\<close> and \<open>remove_discount\<close> delete the
  row in every case, and then fail with NotFoundError when \<open>bid\<close> does not exist.
  Recalculation runs for \<open>bid\<close> only: whenever \<open>bid\<close> exists its stored totals are, after
  the call, the sums over its own rows, while the stored row of \<open>owner\<close> is left as it was.
  The sum over the remaining rows of \<open>owner\<close> in the table of the deleted row is the old
  sum minus the amount of the deleted row, and its sums in the other two tables are as
  before. So if the stored totals of \<open>owner\<close> were the sums over its rows before the call
  and the amount is not zero, then afterwards the stored total for that table (subtotal,
  tax total or discount total) and the stored grand total are not the sums over the
  remaining rows.
\<close>

theorem remove_ignores_ownership:
  assumes "owner \<noteq> bid" and "get_booking s owner = Inr bo"
    and "distinct (map li_id (line_items s))" and "distinct (map tax_id (taxes s))"
    and "distinct (map disc_id (discounts s))"
  shows
   "(find (\<lambda>i. li_id i = iid) (line_items s) = Some item \<and> li_booking_id item = owner \<longrightarrow>
       (get_booking s bid = Inl NotFoundError \<longrightarrow>
          remove_invoice_item s now bid iid = (Inl NotFoundError, s))
     \<and> (get_booking s bid = Inr b \<and> li_item_type item = ''room'' \<and> b_checkout_at b = None \<longrightarrow>
          remove_invoice_item s now bid iid = (Inl BadRequestError, s))
     \<and> (get_booking s bid = Inr b \<and> \<not> (li_item_type item = ''room'' \<and> b_checkout_at b = None)
          \<longrightarrow>
          (\<exists>b' s'. remove_invoice_item s now bid iid = (Inr b', s')
             \<and> find (\<lambda>i. li_id i = iid) (line_items s') = None
             \<and> find (\<lambda>x. b_id x = bid) (bookings s') = Some b'
             \<and> totals_match b' s'
             \<and> find (\<lambda>x. b_id x = owner) (bookings s') = Some bo
             \<and> line_item_sum s' owner = line_item_sum s owner - li_amount item
             \<and> tax_sum s' owner = tax_sum s owner
             \<and> discount_sum s' owner = discount_sum s owner
             \<and> (totals_match bo s \<and> li_amount item \<noteq> 0 \<longrightarrow>
                   b_subtotal bo \<noteq> Some (line_item_sum s' owner)
                 \<and> b_grand_total bo \<noteq>
                     Some (line_item_sum s' owner + tax_sum s' owner - discount_sum s' owner)
                 \<and> \<not> totals_match bo s'))))
    \<and> (find (\<lambda>t. tax_id t = tid) (taxes s) = Some tax \<and> tax_booking_id tax = owner \<longrightarrow>
         find (\<lambda>t. tax_id t = tid) (taxes (snd (remove_tax s now bid tid))) = None
       \<and> find (\<lambda>x. b_id x = owner) (bookings (snd (remove_tax s now bid tid))) = Some bo
       \<and> tax_sum (snd (remove_tax s now bid tid)) owner = tax_sum s owner - tax_amount tax
       \<and> line_item_sum (snd (remove_tax s now bid tid)) owner = line_item_sum s owner
       \<and> discount_sum (snd (remove_tax s now bid tid)) owner = discount_sum s owner
       \<and> (get_booking s bid = Inl NotFoundError \<longrightarrow>
            fst (remove_tax s now bid tid) = Inl NotFoundError)
       \<and> (get_booking s bid = Inr b \<longrightarrow>
            (\<exists>b'. fst (remove_tax s now bid tid) = Inr b'
               \<and> find (\<lambda>x. b_id x = bid) (bookings (snd (remove_tax s now bid tid))) = Some b'
               \<and> totals_match b' (snd (remove_tax s now bid tid))))
       \<and> (totals_match bo s \<and> tax_amount tax \<noteq> 0 \<longrightarrow>
             b_tax_total bo \<noteq> Some (tax_sum (snd (remove_tax s now bid tid)) owner)
           \<and> b_grand_total bo \<noteq>
               Some (line_item_sum (snd (remove_tax s now bid tid)) owner
                     + tax_sum (snd (remove_tax s now bid tid)) owner
                     - discount_sum (snd (remove_tax s now bid tid)) owner)
           \<and> \<not> totals_match bo (snd (remove_tax s now bid tid))))
    \<and> (find (\<lambda>d. disc_id d = did) (discounts s) = Some discount
         \<and> disc_booking_id discount = owner \<longrightarrow>
         find (\<lambda>d. disc_id d = did) (discounts (snd (remove_discount s now bid did))) = None
       \<and> find (\<lambda>x. b_id x = owner) (bookings (snd (remove_discount s now bid did))) = Some bo
       \<and> discount_sum (snd (remove_discount s now bid did)) owner
           = discount_sum s owner - disc_amount discount
       \<and> line_item_sum (snd (remove_discount s now bid did)) owner = line_item_sum s owner
       \<and> tax_sum (snd (remove_discount s now bid did)) owner = tax_sum s owner
       \<and> (get_booking s bid = Inl NotFoundError \<longrightarrow>
            fst (remove_discount s now bid did) = Inl NotFoundError)
       \<and> (get_booking s bid = Inr b \<longrightarrow>
            (\<exists>b'. fst (remove_discount s now bid did) = Inr b'
               \<and> find (\<lambda>x. b_id x = bid) (bookings (snd (remove_discount s now bid did)))
                   = Some b'
               \<and> totals_match b' (snd (remove_discount s now bid did))))
       \<and> (totals_match bo s \<and> disc_amount discount \<noteq> 0 \<longrightarrow>
             b_discount_total bo
               \<noteq> Some (discount_sum (snd (remove_discount s now bid did)) owner)
           \<and> b_grand_total bo \<noteq>
               Some (line_item_sum (snd (remove_discount s now bid did)) owner
                     + tax_sum (snd (remove_discount s now bid did)) owner
                     - discount_sum (snd (remove_discount s now bid did)) owner)
           \<and> \<not> totals_match bo (snd (remove_discount s now bid did))))"
proof -
  note ne = assms(1) and go = assms(2) and dl = assms(3) and dt = assms(4) and dd = assms(5)
  have ob: "b_id bo = owner" by (rule get_booking_id[OF go])
  have fo: "find (\<lambda>x. b_id x = owner) (bookings s) = Some bo"
    using go by (simp add: get_booking_find)
  have li: "(get_booking s bid = Inl NotFoundError \<longrightarrow>
          remove_invoice_item s now bid iid = (Inl NotFoundError, s))
     \<and> (get_booking s bid = Inr b \<and> li_item_type item = ''room'' \<and> b_checkout_at b = None \<longrightarrow>
          remove_invoice_item s now bid iid = (Inl BadRequestError, s))
     \<and> (get_booking s bid = Inr b \<and> \<not> (li_item_type item = ''room'' \<and> b_checkout_at b = None)
          \<longrightarrow>
          (\<exists>b' s'. remove_invoice_item s now bid iid = (Inr b', s')
             \<and> find (\<lambda>i. li_id i = iid) (line_items s') = None
             \<and> find (\<lambda>x. b_id x = bid) (bookings s') = Some b'
             \<and> totals_match b' s'
             \<and> find (\<lambda>x. b_id x = owner) (bookings s') = Some bo
             \<and> line_item_sum s' owner = line_item_sum s owner - li_amount item
             \<and> tax_sum s' owner = tax_sum s owner
             \<and> discount_sum s' owner = discount_sum s owner
             \<and> (totals_match bo s \<and> li_amount item \<noteq> 0 \<longrightarrow>
                   b_subtotal bo \<noteq> Some (line_item_sum s' owner)
                 \<and> b_grand_total bo \<noteq>
                     Some (line_item_sum s' owner + tax_sum s' owner - discount_sum s' owner)
                 \<and> \<not> totals_match bo s')))"
    if f: "find (\<lambda>i. li_id i = iid) (line_items s) = Some item"
      and o: "li_booking_id item = owner"
  proof (intro conjI impI)
    assume "get_booking s bid = Inl NotFoundError"
    then show "remove_invoice_item s now bid iid = (Inl NotFoundError, s)"
      using f by (simp add: remove_invoice_item_def)
  next
    assume "get_booking s bid = Inr b \<and> li_item_type item = ''room'' \<and> b_checkout_at b = None"
    then show "remove_invoice_item s now bid iid = (Inl BadRequestError, s)"
      using f by (simp add: remove_invoice_item_def)
  next
    assume a: "get_booking s bid = Inr b
                \<and> \<not> (li_item_type item = ''room'' \<and> b_checkout_at b = None)"
    then have gb: "get_booking s bid = Inr b"
      and np: "\<not> (li_item_type item = ''room'' \<and> b_checkout_at b = None)"
      by simp_all
    obtain b' s' where r: "remove_invoice_item s now bid iid = (Inr b', s')"
      "find (\<lambda>i. li_id i = iid) (line_items s') = None"
      "find (\<lambda>x. b_id x = bid) (bookings s') = Some b'"
      "totals_match b' s'"
      "find (\<lambda>x. b_id x = owner) (bookings s') = find (\<lambda>x. b_id x = owner) (bookings s)"
      "line_item_sum s' owner = line_item_sum s owner - li_amount item"
      "tax_sum s' owner = tax_sum s owner"
      "discount_sum s' owner = discount_sum s owner"
      using remove_invoice_item_through[OF f o ne dl dt dd gb np, where now = now] by blast
    have st: "b_subtotal bo \<noteq> Some (line_item_sum s' owner)
              \<and> b_grand_total bo \<noteq>
                  Some (line_item_sum s' owner + tax_sum s' owner - discount_sum s' owner)
              \<and> \<not> totals_match bo s'"
      if m: "totals_match bo s" and nz: "li_amount item \<noteq> 0"
    proof -
      have "b_subtotal bo \<noteq> Some (line_item_sum s' owner)"
        using m nz r(6) by (simp add: totals_match_def ob)
      moreover have "line_item_sum s' owner + tax_sum s' owner - discount_sum s' owner
           \<noteq> line_item_sum s owner + tax_sum s owner - discount_sum s owner"
        using nz r(6,7,8) by simp
      ultimately show ?thesis using totals_stale[OF m ob] by blast
    qed
    show "\<exists>b' s'. remove_invoice_item s now bid iid = (Inr b', s')
             \<and> find (\<lambda>i. li_id i = iid) (line_items s') = None
             \<and> find (\<lambda>x. b_id x = bid) (bookings s') = Some b'
             \<and> totals_match b' s'
             \<and> find (\<lambda>x. b_id x = owner) (bookings s') = Some bo
             \<and> line_item_sum s' owner = line_item_sum s owner - li_amount item
             \<and> tax_sum s' owner = tax_sum s owner
             \<and> discount_sum s' owner = discount_sum s owner
             \<and> (totals_match bo s \<and> li_amount item \<noteq> 0 \<longrightarrow>
                   b_subtotal bo \<noteq> Some (line_item_sum s' owner)
                 \<and> b_grand_total bo \<noteq>
                     Some (line_item_sum s' owner + tax_sum s' owner - discount_sum s' owner)
                 \<and> \<not> totals_match bo s')"
      using r fo st by (intro exI[of _ b'] exI[of _ s']) simp
  qed
  have tx: "find (\<lambda>t. tax_id t = tid) (taxes (snd (remove_tax s now bid tid))) = None
       \<and> find (\<lambda>x. b_id x = owner) (bookings (snd (remove_tax s now bid tid))) = Some bo
       \<and> tax_sum (snd (remove_tax s now bid tid)) owner = tax_sum s owner - tax_amount tax
       \<and> line_item_sum (snd (remove_tax s now bid tid)) owner = line_item_sum s owner
       \<and> discount_sum (snd (remove_tax s now bid tid)) owner = discount_sum s owner
       \<and> (get_booking s bid = Inl NotFoundError \<longrightarrow>
            fst (remove_tax s now bid tid) = Inl NotFoundError)
       \<and> (get_booking s bid = Inr b \<longrightarrow>
            (\<exists>b'. fst (remove_tax s now bid tid) = Inr b'
               \<and> find (\<lambda>x. b_id x = bid) (bookings (snd (remove_tax s now bid tid))) = Some b'
               \<and> totals_match b' (snd (remove_tax s now bid tid))))
       \<and> (totals_match bo s \<and> tax_amount tax \<noteq> 0 \<longrightarrow>
             b_tax_total bo \<noteq> Some (tax_sum (snd (remove_tax s now bid tid)) owner)
           \<and> b_grand_total bo \<noteq>
               Some (line_item_sum (snd (remove_tax s now bid tid)) owner
                     + tax_sum (snd (remove_tax s now bid tid)) owner
                     - discount_sum (snd (remove_tax s now bid tid)) owner)
           \<and> \<not> totals_match bo (snd (remove_tax s now bid tid)))"
    if f: "find (\<lambda>t. tax_id t = tid) (taxes s) = Some tax" and o: "tax_booking_id tax = owner"
  proof -
    let ?s' = "snd (remove_tax s now bid tid)"
    note t = remove_tax_through[OF f o ne dt dd, where now = now]
    have st: "b_tax_total bo \<noteq> Some (tax_sum ?s' owner)
           \<and> b_grand_total bo \<noteq>
               Some (line_item_sum ?s' owner + tax_sum ?s' owner - discount_sum ?s' owner)
           \<and> \<not> totals_match bo ?s'"
      if m: "totals_match bo s" and nz: "tax_amount tax \<noteq> 0"
    proof -
      have "b_tax_total bo \<noteq> Some (tax_sum ?s' owner)"
        using m nz t(3) by (simp add: totals_match_def ob)
      moreover have "line_item_sum ?s' owner + tax_sum ?s' owner - discount_sum ?s' owner
           \<noteq> line_item_sum s owner + tax_sum s owner - discount_sum s owner"
        using nz t(3,4,5) by simp
      ultimately show ?thesis using totals_stale[OF m ob] by blast
    qed
    show ?thesis
      using t(1) t(2)[unfolded fo] t(3,4,5) t(6) t(7) st by blast
  qed
  have dx: "find (\<lambda>d. disc_id d = did) (discounts (snd (remove_discount s now bid did))) = None
       \<and> find (\<lambda>x. b_id x = owner) (bookings (snd (remove_discount s now bid did))) = Some bo
       \<and> discount_sum (snd (remove_discount s now bid did)) owner
           = discount_sum s owner - disc_amount discount
       \<and> line_item_sum (snd (remove_discount s now bid did)) owner = line_item_sum s owner
       \<and> tax_sum (snd (remove_discount s now bid did)) owner = tax_sum s owner
       \<and> (get_booking s bid = Inl NotFoundError \<longrightarrow>
            fst (remove_discount s now bid did) = Inl NotFoundError)
       \<and> (get_booking s bid = Inr b \<longrightarrow>
            (\<exists>b'. fst (remove_discount s now bid did) = Inr b'
               \<and> find (\<lambda>x. b_id x = bid) (bookings (snd (remove_discount s now bid did)))
                   = Some b'
               \<and> totals_match b' (snd (remove_discount s now bid did))))
       \<and> (totals_match bo s \<and> disc_amount discount \<noteq> 0 \<longrightarrow>
             b_discount_total bo
               \<noteq> Some (discount_sum (snd (remove_discount s now bid did)) owner)
           \<and> b_grand_total bo \<noteq>
               Some (line_item_sum (snd (remove_discount s now bid did)) owner
                     + tax_sum (snd (remove_discount s now bid did)) owner
                     - discount_sum (snd (remove_discount s now bid did)) owner)
           \<and> \<not> totals_match bo (snd (remove_discount s now bid did)))"
    if f: "find (\<lambda>d. disc_id d = did) (discounts s) = Some discount"
      and o: "disc_booking_id discount = owner"
  proof -
    let ?s' = "snd (remove_discount s now bid did)"
    note t = remove_discount_through[OF f o ne dt dd, where now = now]
    have st: "b_discount_total bo \<noteq> Some (discount_sum ?s' owner)
           \<and> b_grand_total bo \<noteq>
               Some (line_item_sum ?s' owner + tax_sum ?s' owner - discount_sum ?s' owner)
           \<and> \<not> totals_match bo ?s'"
      if m: "totals_match bo s" and nz: "disc_amount discount \<noteq> 0"
    proof -
      have "b_discount_total bo \<noteq> Some (discount_sum ?s' owner)"
        using m nz t(3) by (simp add: totals_match_def ob)
      moreover have "line_item_sum ?s' owner + tax_sum ?s' owner - discount_sum ?s' owner
           \<noteq> line_item_sum s owner + tax_sum s owner - discount_sum s owner"
        using nz t(3,4,5) by simp
      ultimately show ?thesis using totals_stale[OF m ob] by blast
    qed
    show ?thesis
      using t(1) t(2)[unfolded fo] t(3,4,5) t(6) t(7) st by blast
  qed
  show ?thesis
    apply (rule conjI)
     apply (rule impI, erule conjE, erule (1) li)
    apply (rule conjI)
     apply (rule impI, erule conjE, erule (1) tx)
    apply (rule impI, erule conjE, erule (1) dx)
    done
qed

theorem remove_ignores_ownership_witness:
  "(1::int) \<noteq> 2 \<and> get_booking ex_db_two 1 = Inr ex_booking_a
   \<and> distinct (map li_id (line_items ex_db_two)) \<and> distinct (map tax_id (taxes ex_db_two))
   \<and> distinct (map disc_id (discounts ex_db_two))
   \<and> totals_match ex_booking_a ex_db_two
   \<and> b_subtotal ex_booking_a = Some 1100 \<and> b_tax_total ex_booking_a = Some 198
   \<and> b_discount_total ex_booking_a = Some 50 \<and> b_grand_total ex_booking_a = Some 1248
   \<and> get_booking ex_db_two 2 = Inr ex_booking_b \<and> b_checkout_at ex_booking_b = None
   \<and> get_booking ex_db_two 99 = Inl NotFoundError
   \<and> (find (\<lambda>i. li_id i = 2) (line_items ex_db_two) = Some ex_service_item
      \<and> li_booking_id ex_service_item = 1 \<and> li_item_type ex_service_item \<noteq> ''room''
      \<and> li_amount ex_service_item = 100
      \<and> remove_invoice_item ex_db_two 9 99 2 = (Inl NotFoundError, ex_db_two)
      \<and> (\<exists>b' s'. remove_invoice_item ex_db_two 9 2 2 = (Inr b', s')
           \<and> find (\<lambda>i. li_id i = 2) (line_items s') = None
           \<and> find (\<lambda>x. b_id x = 2) (bookings s') = Some b'
           \<and> totals_match b' s'
           \<and> find (\<lambda>x. b_id x = 1) (bookings s') = Some ex_booking_a
           \<and> line_item_sum s' 1 = 1000 \<and> tax_sum s' 1 = 198 \<and> discount_sum s' 1 = 50
           \<and> \<not> totals_match ex_booking_a s'))
   \<and> (find (\<lambda>i. li_id i = 1) (line_items ex_db_two) = Some ex_room_item
      \<and> li_booking_id ex_room_item = 1 \<and> li_item_type ex_room_item = ''room''
      \<and> remove_invoice_item ex_db_two 9 2 1 = (Inl BadRequestError, ex_db_two))
   \<and> (find (\<lambda>t. tax_id t = 1) (taxes ex_db_two) = Some (ex_gst\<lparr>tax_amount := 198\<rparr>)
      \<and> tax_booking_id (ex_gst\<lparr>tax_amount := 198\<rparr>) = 1
      \<and> find (\<lambda>t. tax_id t = 1) (taxes (snd (remove_tax ex_db_two 9 2 1))) = None
      \<and> find (\<lambda>x. b_id x = 1) (bookings (snd (remove_tax ex_db_two 9 2 1)))
          = Some ex_booking_a
      \<and> tax_sum (snd (remove_tax ex_db_two 9 2 1)) 1 = 0
      \<and> (\<exists>b'. fst (remove_tax ex_db_two 9 2 1) = Inr b'
            \<and> find (\<lambda>x. b_id x = 2) (bookings (snd (remove_tax ex_db_two 9 2 1))) = Some b'
            \<and> totals_match b' (snd (remove_tax ex_db_two 9 2 1)))
      \<and> \<not> totals_match ex_booking_a (snd (remove_tax ex_db_two 9 2 1))
      \<and> fst (remove_tax ex_db_two 9 99 1) = Inl NotFoundError
      \<and> find (\<lambda>t. tax_id t = 1) (taxes (snd (remove_tax ex_db_two 9 99 1))) = None)
   \<and> (find (\<lambda>d. disc_id d = 2) (discounts ex_db_two) = Some ex_voucher
      \<and> disc_booking_id ex_voucher = 1
      \<and> find (\<lambda>d. disc_id d = 2) (discounts (snd (remove_discount ex_db_two 9 2 2))) = None
      \<and> find (\<lambda>x. b_id x = 1) (bookings (snd (remove_discount ex_db_two 9 2 2)))
          = Some ex_booking_a
      \<and> discount_sum (snd (remove_discount ex_db_two 9 2 2)) 1 = 0
      \<and> (\<exists>b'. fst (remove_discount ex_db_two 9 2 2) = Inr b'
            \<and> find (\<lambda>x. b_id x = 2) (bookings (snd (remove_discount ex_db_two 9 2 2)))
                = Some b'
            \<and> totals_match b' (snd (remove_discount ex_db_two 9 2 2)))
      \<and> \<not> totals_match ex_booking_a (snd (remove_discount ex_db_two 9 2 2)))"
proof -
  have ne: "(1::int) \<noteq> 2" and ne': "(1::int) \<noteq> 99" by simp_all
  have go: "get_booking ex_db_two 1 = Inr ex_booking_a"
    and gb: "get_booking ex_db_two 2 = Inr ex_booking_b"
    and gn: "get_booking ex_db_two 99 = Inl NotFoundError"
    by (simp_all add: get_booking_def ex_defs ex_defs7)
  have dl: "distinct (map li_id (line_items ex_db_two))"
    and dt: "distinct (map tax_id (taxes ex_db_two))"
    and dd: "distinct (map disc_id (discounts ex_db_two))"
    by (simp_all add: ex_defs ex_defs7)
  have sums: "line_item_sum ex_db_two 1 = 1100" "tax_sum ex_db_two 1 = 198"
    "discount_sum ex_db_two 1 = 50"
    by (simp_all add: line_item_sum_def tax_sum_def discount_sum_def ex_defs ex_defs7)
  have v: "b_subtotal ex_booking_a = Some 1100" "b_tax_total ex_booking_a = Some 198"
    "b_discount_total ex_booking_a = Some 50" "b_grand_total ex_booking_a = Some 1248"
    "b_id ex_booking_a = 1" "b_checkout_at ex_booking_b = None"
    by (simp_all add: ex_defs ex_defs7)
  have m: "totals_match ex_booking_a ex_db_two"
    by (simp add: totals_match_def v sums)
  have hl: "find (\<lambda>i. li_id i = 2) (line_items ex_db_two) = Some ex_service_item
      \<and> li_booking_id ex_service_item = 1"
    and pl: "li_item_type ex_service_item \<noteq> ''room''" "li_amount ex_service_item = 100"
    and hr: "find (\<lambda>i. li_id i = 1) (line_items ex_db_two) = Some ex_room_item
      \<and> li_booking_id ex_room_item = 1"
    and pr: "li_item_type ex_room_item = ''room''"
    and ht: "find (\<lambda>t. tax_id t = 1) (taxes ex_db_two) = Some (ex_gst\<lparr>tax_amount := 198\<rparr>)
      \<and> tax_booking_id (ex_gst\<lparr>tax_amount := 198\<rparr>) = 1"
    and pt: "tax_amount (ex_gst\<lparr>tax_amount := 198\<rparr>) = 198"
    and hd: "find (\<lambda>d. disc_id d = 2) (discounts ex_db_two) = Some ex_voucher
      \<and> disc_booking_id ex_voucher = 1"
    and pd: "disc_amount ex_voucher = 50"
    by (simp_all add: ex_defs ex_defs7)
  note t = remove_ignores_ownership[OF ne go dl dt dd, where now = 9 and b = ex_booking_b]
  note t' = remove_ignores_ownership[OF ne' go dl dt dd, where now = 9]
  note tl = t[where iid = 2 and item = ex_service_item, THEN conjunct1, rule_format, OF hl]
  have l1: "\<exists>b' s'. remove_invoice_item ex_db_two 9 2 2 = (Inr b', s')
           \<and> find (\<lambda>i. li_id i = 2) (line_items s') = None
           \<and> find (\<lambda>x. b_id x = 2) (bookings s') = Some b'
           \<and> totals_match b' s'
           \<and> find (\<lambda>x. b_id x = 1) (bookings s') = Some ex_booking_a
           \<and> line_item_sum s' 1 = 1000 \<and> tax_sum s' 1 = 198 \<and> discount_sum s' 1 = 50
           \<and> \<not> totals_match ex_booking_a s'"
  proof -
    obtain b' s' where r: "remove_invoice_item ex_db_two 9 2 2 = (Inr b', s')"
      "find (\<lambda>i. li_id i = 2) (line_items s') = None"
      "find (\<lambda>x. b_id x = 2) (bookings s') = Some b'" "totals_match b' s'"
      "find (\<lambda>x. b_id x = 1) (bookings s') = Some ex_booking_a"
      "line_item_sum s' 1 = line_item_sum ex_db_two 1 - li_amount ex_service_item"
      "tax_sum s' 1 = tax_sum ex_db_two 1" "discount_sum s' 1 = discount_sum ex_db_two 1"
      "totals_match ex_booking_a ex_db_two \<and> li_amount ex_service_item \<noteq> 0 \<longrightarrow>
         b_subtotal ex_booking_a \<noteq> Some (line_item_sum s' 1)
         \<and> b_grand_total ex_booking_a \<noteq>
             Some (line_item_sum s' 1 + tax_sum s' 1 - discount_sum s' 1)
         \<and> \<not> totals_match ex_booking_a s'"
      using tl gb pl(1) by blast
    have "\<not> totals_match ex_booking_a s'" using r(9) m pl(2) by simp
    then show ?thesis
      using r(1-8) sums pl(2) by (intro exI[of _ b'] exI[of _ s']) simp
  qed
  have l2: "remove_invoice_item ex_db_two 9 99 2 = (Inl NotFoundError, ex_db_two)"
    using t'[where iid = 2 and item = ex_service_item, THEN conjunct1, rule_format, OF hl] gn
    by blast
  have l3: "remove_invoice_item ex_db_two 9 2 1 = (Inl BadRequestError, ex_db_two)"
    using t[where iid = 1 and item = ex_room_item, THEN conjunct1, rule_format, OF hr]
      gb pr v(6) by blast
  note tt = t[where tid = 1 and tax = "ex_gst\<lparr>tax_amount := 198\<rparr>",
      THEN conjunct2, THEN conjunct1, rule_format, OF ht]
  note tt' = t'[where tid = 1 and tax = "ex_gst\<lparr>tax_amount := 198\<rparr>",
      THEN conjunct2, THEN conjunct1, rule_format, OF ht]
  note td = t[where did = 2 and discount = ex_voucher,
      THEN conjunct2, THEN conjunct2, rule_format, OF hd]
  have x1: "find (\<lambda>t. tax_id t = 1) (taxes (snd (remove_tax ex_db_two 9 2 1))) = None
      \<and> find (\<lambda>x. b_id x = 1) (bookings (snd (remove_tax ex_db_two 9 2 1)))
          = Some ex_booking_a
      \<and> tax_sum (snd (remove_tax ex_db_two 9 2 1)) 1 = 0
      \<and> (\<exists>b'. fst (remove_tax ex_db_two 9 2 1) = Inr b'
            \<and> find (\<lambda>x. b_id x = 2) (bookings (snd (remove_tax ex_db_two 9 2 1))) = Some b'
            \<and> totals_match b' (snd (remove_tax ex_db_two 9 2 1)))
      \<and> \<not> totals_match ex_booking_a (snd (remove_tax ex_db_two 9 2 1))"
    using tt gb m pt sums by simp
  have x2: "fst (remove_tax ex_db_two 9 99 1) = Inl NotFoundError
      \<and> find (\<lambda>t. tax_id t = 1) (taxes (snd (remove_tax ex_db_two 9 99 1))) = None"
    using tt' gn by simp
  have y1: "find (\<lambda>d. disc_id d = 2) (discounts (snd (remove_discount ex_db_two 9 2 2))) = None
      \<and> find (\<lambda>x. b_id x = 1) (bookings (snd (remove_discount ex_db_two 9 2 2)))
          = Some ex_booking_a
      \<and> discount_sum (snd (remove_discount ex_db_two 9 2 2)) 1 = 0
      \<and> (\<exists>b'. fst (remove_discount ex_db_two 9 2 2) = Inr b'
            \<and> find (\<lambda>x. b_id x = 2) (bookings (snd (remove_discount ex_db_two 9 2 2)))
                = Some b'
            \<and> totals_match b' (snd (remove_discount ex_db_two 9 2 2)))
      \<and> \<not> totals_match ex_booking_a (snd (remove_discount ex_db_two 9 2 2))"
    using td gb m pd sums by simp
  show ?thesis
    using ne go dl dt dd m v gb gn hl pl l1 l2 hr pr l3 ht x1 x2 hd y1
    by (intro conjI) simp_all
qed

theorem remove_ignores_ownership_counterexample:
  "find (\<lambda>i. li_id i = 1) (line_items ex_db_two) = Some ex_room_item
   \<and> li_booking_id ex_room_item = 1
   \<and> remove_invoice_item ex_db_two 9 2 1 = (Inl BadRequestError, ex_db_two)
   \<and> find (\<lambda>i. li_id i = 4) (line_items ex_db_two) = Some ex_free_item
   \<and> li_booking_id ex_free_item = 1
   \<and> map li_id (line_items (snd (remove_invoice_item ex_db_two 9 2 4))) = [1, 2, 3]
   \<and> get_booking (snd (remove_invoice_item ex_db_two 9 2 4)) 1 = Inr ex_booking_a
   \<and> b_subtotal ex_booking_a =
       Some (sum_list (map li_amount
               (get_line_items (snd (remove_invoice_item ex_db_two 9 2 4)) 1)))
   \<and> b_tax_total ex_booking_a =
       Some (sum_list (map tax_amount
               (get_taxes (snd (remove_invoice_item ex_db_two 9 2 4)) 1)))
   \<and> b_discount_total ex_booking_a =
       Some (sum_list (map disc_amount
               (get_discounts (snd (remove_invoice_item ex_db_two 9 2 4)) 1)))
   \<and> b_grand_total ex_booking_a = Some (1100 + 198 - 50)"
  by (simp add: remove_invoice_item_def recalculate_booking_totals_def get_booking_def
      get_line_items_def get_taxes_def get_discounts_def flush_rows_def delete_row_def
      py_sum_def Let_def ex_defs ex_defs7)

end
